theory Spec2Isabelle
  imports Complex_Main "HOL-Library.Monad_Syntax"
begin

section \<open>Scalars, vectors and rigid transforms\<close>

text \<open>
  The narrow-phase SAT code of ReactPhysics3D (\<^verbatim>\<open>SATAlgorithm.cpp\<close>) computes with a
  build-time scalar type \<^verbatim>\<open>decimal\<close>, a floating-point type.  The embedding does not
  fix the scalar: the drivers are written over any type \<open>'a\<close> that has the constants
  \<open>0\<close> and \<open>1\<close>, the arithmetic operations and the two comparisons the source uses, and
  no law is assumed of them.  What is proved of the control flow of the drivers, of the
  stores they make and of the contact points they append therefore holds for every
  arithmetic, that of floating-point numbers with their infinities and NaN included.
  Where a proof needs the laws of an ordered field, or a run is evaluated, the scalar
  is the type of the real numbers, \<open>decimal\<close>; where overflow and NaN matter it is the
  type \<open>fdecimal\<close> below.  Unsigned indices (\<^verbatim>\<open>uint\<close>) are natural numbers; no index
  computed by the code exceeds the number of faces or half-edges of a mesh by more
  than one step of the loop that produced it.
\<close>

type_synonym decimal = real

text \<open>A literal of the source, \<^verbatim>\<open>decimal(n)\<close> for a natural number \<open>n\<close>.\<close>

primrec decimalOfNat :: "nat \<Rightarrow> 'a::{zero,one,plus}" where
  "decimalOfNat 0 = 0"
| "decimalOfNat (Suc n) = decimalOfNat n + 1"

text \<open>
  Modelled from the spec: the sentinel \<^verbatim>\<open>DECIMAL_LARGEST\<close> ("no candidate yet") is
  declared in a header that is not part of the sources; it is the largest finite value
  of the scalar type, here that of the single-precision build, \<^verbatim>\<open>FLT_MAX\<close>.
\<close>

definition DECIMAL_LARGEST :: "'a::{zero,one,plus}" where
  "DECIMAL_LARGEST = decimalOfNat 340282346638528859811704183484516925440"

definition SAME_SEPARATING_AXIS_BIAS :: "'a::{zero,one,plus,inverse}" where
  "SAME_SEPARATING_AXIS_BIAS = 1 / decimalOfNat 1000"

text \<open>
  The values of a floating-point scalar that matter to the comparisons of the drivers:
  a number, one of the two infinities, or NaN.  The arithmetic is that of IEEE 754
  without rounding and without signed zeros: a sum, product or quotient of numbers is
  the exact one unless its magnitude exceeds \<^verbatim>\<open>DECIMAL_LARGEST\<close>, when it is the infinity
  of its sign; the infinities and NaN combine as in IEEE 754 (the difference of two equal
  infinities, the product of zero and an infinity, the quotient of two zeros and that of
  two infinities are NaN, and NaN is absorbing); every comparison with NaN is false.
\<close>

datatype fdecimal = Number real | PlusInfinity | MinusInfinity | NaN

definition overflow :: "real \<Rightarrow> fdecimal" where
  "overflow r = (if DECIMAL_LARGEST < r then PlusInfinity
                 else if r < - DECIMAL_LARGEST then MinusInfinity
                 else Number r)"

instantiation fdecimal :: "{zero, one, plus, minus, uminus, times, inverse, ord}"
begin

definition zero_fdecimal :: fdecimal where
  "zero_fdecimal = Number 0"

definition one_fdecimal :: fdecimal where
  "one_fdecimal = Number 1"

fun plus_fdecimal :: "fdecimal \<Rightarrow> fdecimal \<Rightarrow> fdecimal" where
  "plus_fdecimal (Number x) (Number y) = overflow (x + y)"
| "plus_fdecimal NaN b = NaN"
| "plus_fdecimal a NaN = NaN"
| "plus_fdecimal PlusInfinity MinusInfinity = NaN"
| "plus_fdecimal MinusInfinity PlusInfinity = NaN"
| "plus_fdecimal PlusInfinity b = PlusInfinity"
| "plus_fdecimal a PlusInfinity = PlusInfinity"
| "plus_fdecimal MinusInfinity b = MinusInfinity"
| "plus_fdecimal a MinusInfinity = MinusInfinity"

fun uminus_fdecimal :: "fdecimal \<Rightarrow> fdecimal" where
  "uminus_fdecimal (Number x) = Number (- x)"
| "uminus_fdecimal PlusInfinity = MinusInfinity"
| "uminus_fdecimal MinusInfinity = PlusInfinity"
| "uminus_fdecimal NaN = NaN"

definition minus_fdecimal :: "fdecimal \<Rightarrow> fdecimal \<Rightarrow> fdecimal" where
  "minus_fdecimal a b = a + (- b)"

fun times_fdecimal :: "fdecimal \<Rightarrow> fdecimal \<Rightarrow> fdecimal" where
  "times_fdecimal (Number x) (Number y) = overflow (x * y)"
| "times_fdecimal NaN b = NaN"
| "times_fdecimal a NaN = NaN"
| "times_fdecimal (Number x) PlusInfinity =
     (if x = 0 then NaN else if 0 < x then PlusInfinity else MinusInfinity)"
| "times_fdecimal (Number x) MinusInfinity =
     (if x = 0 then NaN else if 0 < x then MinusInfinity else PlusInfinity)"
| "times_fdecimal PlusInfinity (Number y) =
     (if y = 0 then NaN else if 0 < y then PlusInfinity else MinusInfinity)"
| "times_fdecimal MinusInfinity (Number y) =
     (if y = 0 then NaN else if 0 < y then MinusInfinity else PlusInfinity)"
| "times_fdecimal PlusInfinity PlusInfinity = PlusInfinity"
| "times_fdecimal PlusInfinity MinusInfinity = MinusInfinity"
| "times_fdecimal MinusInfinity PlusInfinity = MinusInfinity"
| "times_fdecimal MinusInfinity MinusInfinity = PlusInfinity"

fun divide_fdecimal :: "fdecimal \<Rightarrow> fdecimal \<Rightarrow> fdecimal" where
  "divide_fdecimal (Number x) (Number y) =
     (if y = 0 then (if x = 0 then NaN else if 0 < x then PlusInfinity else MinusInfinity)
      else overflow (x / y))"
| "divide_fdecimal NaN b = NaN"
| "divide_fdecimal a NaN = NaN"
| "divide_fdecimal (Number x) b = Number 0"
| "divide_fdecimal PlusInfinity (Number y) = (if 0 \<le> y then PlusInfinity else MinusInfinity)"
| "divide_fdecimal MinusInfinity (Number y) = (if 0 \<le> y then MinusInfinity else PlusInfinity)"
| "divide_fdecimal a b = NaN"

definition inverse_fdecimal :: "fdecimal \<Rightarrow> fdecimal" where
  "inverse_fdecimal a = divide (Number 1) a"

fun less_eq_fdecimal :: "fdecimal \<Rightarrow> fdecimal \<Rightarrow> bool" where
  "less_eq_fdecimal (Number x) (Number y) = (x \<le> y)"
| "less_eq_fdecimal NaN b = False"
| "less_eq_fdecimal a NaN = False"
| "less_eq_fdecimal MinusInfinity b = True"
| "less_eq_fdecimal a PlusInfinity = True"
| "less_eq_fdecimal a b = False"

fun less_fdecimal :: "fdecimal \<Rightarrow> fdecimal \<Rightarrow> bool" where
  "less_fdecimal (Number x) (Number y) = (x < y)"
| "less_fdecimal NaN b = False"
| "less_fdecimal a NaN = False"
| "less_fdecimal PlusInfinity b = False"
| "less_fdecimal a MinusInfinity = False"
| "less_fdecimal a b = True"

instance ..

end

datatype 'a Vector3 = Vector3 (vx: 'a) (vy: 'a) (vz: 'a)

instantiation Vector3 :: (zero) zero
begin

definition zero_Vector3 :: "'a Vector3" where
  "zero_Vector3 = Vector3 0 0 0"

instance ..

end

instantiation Vector3 :: (plus) plus
begin

definition plus_Vector3 :: "'a Vector3 \<Rightarrow> 'a Vector3 \<Rightarrow> 'a Vector3" where
  "plus_Vector3 a b = Vector3 (vx a + vx b) (vy a + vy b) (vz a + vz b)"

instance ..

end

instantiation Vector3 :: (minus) minus
begin

definition minus_Vector3 :: "'a Vector3 \<Rightarrow> 'a Vector3 \<Rightarrow> 'a Vector3" where
  "minus_Vector3 a b = Vector3 (vx a - vx b) (vy a - vy b) (vz a - vz b)"

instance ..

end

instantiation Vector3 :: (uminus) uminus
begin

definition uminus_Vector3 :: "'a Vector3 \<Rightarrow> 'a Vector3" where
  "uminus_Vector3 a = Vector3 (- vx a) (- vy a) (- vz a)"

instance ..

end

text \<open>\<^verbatim>\<open>Vector3 * decimal\<close>, \<^verbatim>\<open>dot\<close>, \<^verbatim>\<open>cross\<close>, \<^verbatim>\<open>lengthSquare\<close>.\<close>

definition scale ::
  "('a::{zero,one,plus,minus,uminus,times,inverse,ord}) Vector3 \<Rightarrow> 'a
     \<Rightarrow> 'a Vector3" where
  "scale a k = Vector3 (vx a * k) (vy a * k) (vz a * k)"

definition dot ::
  "('a::{zero,one,plus,minus,uminus,times,inverse,ord}) Vector3 \<Rightarrow> 'a Vector3
     \<Rightarrow> 'a" where
  "dot a b = vx a * vx b + vy a * vy b + vz a * vz b"

definition cross ::
  "('a::{zero,one,plus,minus,uminus,times,inverse,ord}) Vector3 \<Rightarrow> 'a Vector3
     \<Rightarrow> 'a Vector3" where
  "cross a b = Vector3 (vy a * vz b - vz a * vy b)
                       (vz a * vx b - vx a * vz b)
                       (vx a * vy b - vy a * vx b)"

definition lengthSquare ::
  "('a::{zero,one,plus,minus,uminus,times,inverse,ord}) Vector3 \<Rightarrow> 'a" where
  "lengthSquare a = vx a * vx a + vy a * vy a + vz a * vz a"

text \<open>
  Modelled from the spec: a \<^verbatim>\<open>Transform\<close> "composes a rotation and a translation".
  The orientation (a unit quaternion in the engine) is kept as the rotation matrix it
  stands for, given by its three rows; the inverse of a rotation is its transpose.
  \<^verbatim>\<open>Quaternion * Vector3\<close> rotates a direction, \<^verbatim>\<open>Transform * Vector3\<close> maps a point
  (rotation, then translation), \<^verbatim>\<open>Transform * Transform\<close> composes.
\<close>

datatype 'a Quaternion = Quaternion (row1: "'a Vector3") (row2: "'a Vector3") (row3: "'a Vector3")

datatype 'a Transform = Transform (getPosition: "'a Vector3") (getOrientation: "'a Quaternion")

definition rotateVector ::
  "('a::{zero,one,plus,minus,uminus,times,inverse,ord}) Quaternion \<Rightarrow> 'a Vector3
     \<Rightarrow> 'a Vector3" where
  "rotateVector q v = Vector3 (dot (row1 q) v) (dot (row2 q) v) (dot (row3 q) v)"

definition getInverse_Quaternion ::
  "('a::{zero,one,plus,minus,uminus,times,inverse,ord}) Quaternion \<Rightarrow> 'a Quaternion" where
  "getInverse_Quaternion q =
     Quaternion (Vector3 (vx (row1 q)) (vx (row2 q)) (vx (row3 q)))
                (Vector3 (vy (row1 q)) (vy (row2 q)) (vy (row3 q)))
                (Vector3 (vz (row1 q)) (vz (row2 q)) (vz (row3 q)))"

definition mult_Quaternion ::
  "('a::{zero,one,plus,minus,uminus,times,inverse,ord}) Quaternion \<Rightarrow> 'a Quaternion
     \<Rightarrow> 'a Quaternion" where
  "mult_Quaternion p q =
     (let c1 = rotateVector p (Vector3 (vx (row1 q)) (vx (row2 q)) (vx (row3 q)));
          c2 = rotateVector p (Vector3 (vy (row1 q)) (vy (row2 q)) (vy (row3 q)));
          c3 = rotateVector p (Vector3 (vz (row1 q)) (vz (row2 q)) (vz (row3 q)))
      in Quaternion (Vector3 (vx c1) (vx c2) (vx c3))
                    (Vector3 (vy c1) (vy c2) (vy c3))
                    (Vector3 (vz c1) (vz c2) (vz c3)))"

definition transformPoint ::
  "('a::{zero,one,plus,minus,uminus,times,inverse,ord}) Transform \<Rightarrow> 'a Vector3
     \<Rightarrow> 'a Vector3" where
  "transformPoint t v = rotateVector (getOrientation t) v + getPosition t"

definition getInverse ::
  "('a::{zero,one,plus,minus,uminus,times,inverse,ord}) Transform \<Rightarrow> 'a Transform" where
  "getInverse t =
     (let invQuaternion = getInverse_Quaternion (getOrientation t)
      in Transform (rotateVector invQuaternion (- getPosition t)) invQuaternion)"

definition mult_Transform ::
  "('a::{zero,one,plus,minus,uminus,times,inverse,ord}) Transform \<Rightarrow> 'a Transform
     \<Rightarrow> 'a Transform" where
  "mult_Transform t1 t2 =
     Transform (getPosition t1 + rotateVector (getOrientation t1) (getPosition t2))
               (mult_Quaternion (getOrientation t1) (getOrientation t2))"

section \<open>Shapes, the half-edge mesh and the per-pair cache\<close>

datatype CollisionShapeType = TRIANGLE | CONVEX_POLYHEDRON | SPHERE | CAPSULE

record Face =
  edgeIndex :: nat
  faceVertices :: "nat list"

record Edge =
  vertexIndex :: nat
  twinEdgeIndex :: nat
  nextEdgeIndex :: nat
  faceIndex :: nat

text \<open>
  A convex polyhedron is read through its half-edge mesh.  The arrays are lists, and a
  read outside an array has no defined result (\<open>None\<close>).  The support function is the
  shape's own (virtual) method and is taken as a field of the shape.
\<close>

record 'a ConvexPolyhedronShape =
  getType :: CollisionShapeType
  faces :: "Face list"
  halfEdges :: "Edge list"
  vertices :: "'a Vector3 list"
  faceNormals :: "'a Vector3 list"
  getCentroid :: "'a Vector3"
  getLocalSupportPointWithoutMargin :: "'a Vector3 \<Rightarrow> 'a Vector3"

record 'a SphereShape =
  getRadius_Sphere :: "'a"

record 'a CapsuleShape =
  getRadius_Capsule :: "'a"
  getHeight :: "'a"
  getLocalSupportPointWithMargin :: "'a Vector3 \<Rightarrow> 'a Vector3"

datatype 'a CollisionShape =
    Sphere "'a SphereShape"
  | Capsule "'a CapsuleShape"
  | Polyhedron "'a ConvexPolyhedronShape"

fun getType_Shape ::
  "'a CollisionShape
     \<Rightarrow> CollisionShapeType" where
  "getType_Shape (Sphere s) = SPHERE"
| "getType_Shape (Capsule c) = CAPSULE"
| "getType_Shape (Polyhedron p) = getType p"

text \<open>The \<^verbatim>\<open>static_cast\<close>s of the drivers: defined only on a shape of the target class.\<close>

fun asSphere ::
  "'a CollisionShape
     \<Rightarrow> 'a SphereShape option" where
  "asSphere (Sphere s) = Some s"
| "asSphere _ = None"

fun asCapsule ::
  "'a CollisionShape
     \<Rightarrow> 'a CapsuleShape option" where
  "asCapsule (Capsule c) = Some c"
| "asCapsule _ = None"

fun asPolyhedron ::
  "'a CollisionShape
     \<Rightarrow> 'a ConvexPolyhedronShape option" where
  "asPolyhedron (Polyhedron p) = Some p"
| "asPolyhedron _ = None"

definition elemAt ::
  "'a list \<Rightarrow> nat
     \<Rightarrow> 'a option" where
  "elemAt xs i = (if i < length xs then Some (xs ! i) else None)"

definition getNbFaces ::
  "'a ConvexPolyhedronShape \<Rightarrow> nat" where
  "getNbFaces p = length (faces p)"

definition getNbHalfEdges ::
  "'a ConvexPolyhedronShape \<Rightarrow> nat" where
  "getNbHalfEdges p = length (halfEdges p)"

definition getFace ::
  "'a ConvexPolyhedronShape \<Rightarrow> nat
     \<Rightarrow> Face option" where
  "getFace p i = elemAt (faces p) i"

definition getHalfEdge ::
  "'a ConvexPolyhedronShape \<Rightarrow> nat
     \<Rightarrow> Edge option" where
  "getHalfEdge p i = elemAt (halfEdges p) i"

definition getVertexPosition ::
  "'a ConvexPolyhedronShape \<Rightarrow> nat
     \<Rightarrow> 'a Vector3 option" where
  "getVertexPosition p i = elemAt (vertices p) i"

definition getFaceNormal ::
  "'a ConvexPolyhedronShape \<Rightarrow> nat
     \<Rightarrow> 'a Vector3 option" where
  "getFaceNormal p i = elemAt (faceNormals p) i"

record LastFrameCollisionInfo =
  isValid :: bool
  wasUsingSAT :: bool
  wasColliding :: bool
  satIsAxisFacePolyhedron1 :: bool
  satIsAxisFacePolyhedron2 :: bool
  satMinAxisFaceIndex :: nat
  satMinEdge1Index :: nat
  satMinEdge2Index :: nat

record 'a NarrowPhaseInfo =
  collisionShape1 :: "'a CollisionShape"
  collisionShape2 :: "'a CollisionShape"
  shape1ToWorldTransform :: "'a Transform"
  shape2ToWorldTransform :: "'a Transform"
  lastFrameInfo :: LastFrameCollisionInfo

text \<open>
  The two effects of a SAT call are kept as what the call does, in order: the stores
  into the pair's \<^verbatim>\<open>LastFrameCollisionInfo\<close> and the \<^verbatim>\<open>addContactPoint\<close> calls on the
  manifold builder.  Every driver reads the record only before its first store, so the
  reads go to the record on entry (\<open>lastFrameInfo\<close> of the input).
\<close>

datatype LastFrameWrite =
    Set_satIsAxisFacePolyhedron1 bool
  | Set_satIsAxisFacePolyhedron2 bool
  | Set_satMinAxisFaceIndex nat
  | Set_satMinEdge1Index nat
  | Set_satMinEdge2Index nat

record 'a ContactPointInfo =
  contactNormal :: "'a Vector3"
  contactDepth :: "'a"
  localPoint1 :: "'a Vector3"
  localPoint2 :: "'a Vector3"

record 'a SATOutcome =
  returned :: bool
  lastFrameWrites :: "LastFrameWrite list"
  contactPoints :: "'a ContactPointInfo list"

fun applyWrite ::
  "LastFrameWrite \<Rightarrow> LastFrameCollisionInfo \<Rightarrow> LastFrameCollisionInfo" where
  "applyWrite (Set_satIsAxisFacePolyhedron1 b) l = l\<lparr>satIsAxisFacePolyhedron1 := b\<rparr>"
| "applyWrite (Set_satIsAxisFacePolyhedron2 b) l = l\<lparr>satIsAxisFacePolyhedron2 := b\<rparr>"
| "applyWrite (Set_satMinAxisFaceIndex i) l = l\<lparr>satMinAxisFaceIndex := i\<rparr>"
| "applyWrite (Set_satMinEdge1Index i) l = l\<lparr>satMinEdge1Index := i\<rparr>"
| "applyWrite (Set_satMinEdge2Index i) l = l\<lparr>satMinEdge2Index := i\<rparr>"

text \<open>The record and the manifold after a call that had the given outcome.\<close>

definition lastFrameInfoAfter ::
  "LastFrameCollisionInfo
     \<Rightarrow> 'a SATOutcome
     \<Rightarrow> LastFrameCollisionInfo" where
  "lastFrameInfoAfter l out = fold applyWrite (lastFrameWrites out) l"

definition manifoldAfter ::
  "'a ContactPointInfo list
     \<Rightarrow> 'a SATOutcome \<Rightarrow> 'a ContactPointInfo list" where
  "manifoldAfter m out = m @ contactPoints out"

definition addContactPoint ::
  "'a Vector3 \<Rightarrow> 'a
     \<Rightarrow> 'a Vector3 \<Rightarrow> 'a Vector3 \<Rightarrow> 'a ContactPointInfo" where
  "addContactPoint normalWorld depth p1 p2 =
     \<lparr>contactNormal = normalWorld, contactDepth = depth, localPoint1 = p1, localPoint2 = p2\<rparr>"

text \<open>
  The geometric helpers of the engine (\<^verbatim>\<open>mathematics_functions\<close>) and the vector
  header are not part of the sources.  The drivers take the four helpers and the
  normalisation of a vector (\<^verbatim>\<open>Vector3::getUnit\<close>, \<^verbatim>\<open>Vector3::normalize\<close>, the one
  vector operation that is not a polynomial in the coordinates) as parameters, so
  everything proved about a driver holds whatever they compute.
\<close>

record 'a MathFunctions =
  clipSegmentWithPlanes :: "'a Vector3 \<Rightarrow> 'a Vector3 \<Rightarrow> 'a Vector3 list \<Rightarrow> 'a Vector3 list \<Rightarrow> 'a Vector3 list"
  clipPolygonWithPlanes :: "'a Vector3 list \<Rightarrow> 'a Vector3 list \<Rightarrow> 'a Vector3 list \<Rightarrow> 'a Vector3 list"
  computeClosestPointBetweenTwoSegments ::
    "'a Vector3 \<Rightarrow> 'a Vector3 \<Rightarrow> 'a Vector3 \<Rightarrow> 'a Vector3 \<Rightarrow> 'a Vector3 \<times> 'a Vector3"
  areParallelVectors :: "'a Vector3 \<Rightarrow> 'a Vector3 \<Rightarrow> bool"
  getUnit :: "'a Vector3 \<Rightarrow> 'a Vector3"

text \<open>
  The local variables in which a driver tracks the axis of minimum penetration.  The
  sphere driver has the first two, the capsule and polyhedron drivers extend them.
  A \<^verbatim>\<open>Vector3\<close> local that the source declares without a value is default-constructed
  (the zero vector).  The two \<^verbatim>\<open>uint\<close> locals \<^verbatim>\<open>minSeparatingEdge1Index\<close> and
  \<^verbatim>\<open>minSeparatingEdge2Index\<close> of the polyhedron driver are declared without a value
  (line 559: \<^verbatim>\<open>uint minSeparatingEdge1Index, minSeparatingEdge2Index;\<close>): until they are
  assigned they hold whatever the stack holds, and the source reads them without a
  test.  The values they hold at their declaration are parameters of the driver, so
  what is proved holds whatever they are.
\<close>

record IndeterminateLocals =
  indeterminateEdge1Index :: nat
  indeterminateEdge2Index :: nat

record 'a MinFace =
  minPenetrationDepth :: "'a"
  minFaceIndex :: nat

record 'a MinAxis = "'a MinFace" +
  isMinPenetrationFaceNormal :: bool

record 'a CapsuleMinAxis = "'a MinAxis" +
  minEdgeIndex :: nat
  separatingAxisCapsuleSpace :: "'a Vector3"
  separatingPolyhedronEdgeVertex1 :: "'a Vector3"
  separatingPolyhedronEdgeVertex2 :: "'a Vector3"

record 'a PolyhedronMinAxis = "'a MinAxis" +
  isMinPenetrationFaceNormalPolyhedron1 :: bool
  minSeparatingEdge1Index :: nat
  minSeparatingEdge2Index :: nat
  separatingEdge1A :: "'a Vector3"
  separatingEdge1B :: "'a Vector3"
  separatingEdge2A :: "'a Vector3"
  separatingEdge2B :: "'a Vector3"
  minEdgeVsEdgeSeparatingAxisPolyhedron2Space :: "'a Vector3"

text \<open>
  What the temporal-coherence block at the head of each driver leaves behind: the
  driver has returned "no collision" (\<open>Separated\<close>), or \<^verbatim>\<open>isTemporalCoherenceValid\<close> is
  set and the minimum is the cached axis (\<open>Coherent\<close>), or the full scan has to run
  (\<open>Incoherent\<close>).
\<close>

datatype 'm Coherence = Separated | Coherent 'm | Incoherent

text \<open>
  The counting loops of the source, \<^verbatim>\<open>for (uint i = 0; i < n; i++)\<close> and
  \<^verbatim>\<open>for (uint i = 0; i < n; i += 2)\<close>.  The body is run on the index and the local
  variables \<open>s\<close> of the loop; it either leaves the function (\<open>Inl\<close>, a \<^verbatim>\<open>return\<close> inside
  the loop) or goes on with new values (\<open>Inr\<close>).
\<close>

function forUpTo ::
  "nat \<Rightarrow> (nat \<Rightarrow> 's \<Rightarrow> ('r + 's) option) \<Rightarrow> nat
     \<Rightarrow> 's \<Rightarrow> ('r + 's) option" where
  "forUpTo n body i s =
     (if i < n then do {
        step \<leftarrow> body i s;
        case step of
          Inl r \<Rightarrow> Some (Inl r)
        | Inr s' \<Rightarrow> forUpTo n body (i + 1) s'
      }
      else Some (Inr s))"
  by pat_completeness auto
termination
  by (relation "measure (\<lambda>(n, body, i, s). n - i)") auto

declare forUpTo.simps [simp del]

function forUpToBy2 ::
  "nat \<Rightarrow> (nat \<Rightarrow> 's \<Rightarrow> ('r + 's) option) \<Rightarrow> nat
     \<Rightarrow> 's \<Rightarrow> ('r + 's) option" where
  "forUpToBy2 n body i s =
     (if i < n then do {
        step \<leftarrow> body i s;
        case step of
          Inl r \<Rightarrow> Some (Inl r)
        | Inr s' \<Rightarrow> forUpToBy2 n body (i + 2) s'
      }
      else Some (Inr s))"
  by pat_completeness auto
termination
  by (relation "measure (\<lambda>(n, body, i, s). n - i)") auto

declare forUpToBy2.simps [simp del]

section \<open>Sphere against convex polyhedron\<close>

definition computePolyhedronFaceVsSpherePenetrationDepth ::
  "nat \<Rightarrow> ('a::{zero,one,plus,minus,uminus,times,inverse,ord}) ConvexPolyhedronShape
     \<Rightarrow> 'a SphereShape \<Rightarrow> 'a Vector3 \<Rightarrow> 'a option" where
  "computePolyhedronFaceVsSpherePenetrationDepth theFaceIndex polyhedron sphere sphereCenter = do {
     face \<leftarrow> getFace polyhedron theFaceIndex;
     faceNormal \<leftarrow> getFaceNormal polyhedron theFaceIndex;
     v0 \<leftarrow> elemAt (faceVertices face) 0;
     facePoint \<leftarrow> getVertexPosition polyhedron v0;
     let sphereCenterToFacePoint = facePoint - sphereCenter;
     Some (dot sphereCenterToFacePoint faceNormal + getRadius_Sphere sphere)
   }"

text \<open>Lines 84--114: the probe of the cached face.\<close>

definition temporalCoherence_Sphere ::
  "('a::{zero,one,plus,minus,uminus,times,inverse,ord}) ConvexPolyhedronShape
     \<Rightarrow> 'a SphereShape \<Rightarrow> 'a Vector3
     \<Rightarrow> LastFrameCollisionInfo \<Rightarrow> 'a MinFace Coherence option" where
  "temporalCoherence_Sphere polyhedron sphere sphereCenter lastFrame =
     (if getType polyhedron \<noteq> TRIANGLE then
        if isValid lastFrame \<and> wasUsingSAT lastFrame then do {
          penetrationDepth \<leftarrow> computePolyhedronFaceVsSpherePenetrationDepth
                                (satMinAxisFaceIndex lastFrame) polyhedron sphere sphereCenter;
          if penetrationDepth \<le> 0 then Some Separated
          else if wasColliding lastFrame
               then Some (Coherent \<lparr>minPenetrationDepth = penetrationDepth,
                                     minFaceIndex = satMinAxisFaceIndex lastFrame\<rparr>)
               else Some Incoherent
        }
        else Some Incoherent
      else Some Incoherent)"

text \<open>
  Lines 121--139: the body of the scan of all faces.  \<open>Inl ws\<close>: the face is a
  separating axis, the stores \<open>ws\<close> were made and the driver returns "no collision".
\<close>

definition faceStep_Sphere ::
  "('a::{zero,one,plus,minus,uminus,times,inverse,ord}) ConvexPolyhedronShape
     \<Rightarrow> 'a SphereShape \<Rightarrow> 'a Vector3 \<Rightarrow> nat
     \<Rightarrow> 'a MinFace \<Rightarrow> (LastFrameWrite list + 'a MinFace) option" where
  "faceStep_Sphere polyhedron sphere sphereCenter f m = do {
     penetrationDepth \<leftarrow> computePolyhedronFaceVsSpherePenetrationDepth f polyhedron sphere sphereCenter;
     if penetrationDepth \<le> 0 then Some (Inl [Set_satMinAxisFaceIndex f])
     else if penetrationDepth < minPenetrationDepth m
          then Some (Inr (m\<lparr>minPenetrationDepth := penetrationDepth, minFaceIndex := f\<rparr>))
          else Some (Inr m)
   }"

text \<open>Lines 142--158: the single contact point and the store of the face index.\<close>

definition reportContact_Sphere ::
  "bool \<Rightarrow> ('a::{zero,one,plus,minus,uminus,times,inverse,ord}) SphereShape
     \<Rightarrow> 'a ConvexPolyhedronShape \<Rightarrow> 'a Transform
     \<Rightarrow> 'a Transform \<Rightarrow> 'a Vector3 \<Rightarrow> 'a MinFace
     \<Rightarrow> 'a SATOutcome option" where
  "reportContact_Sphere isSphereShape1 sphere polyhedron sphereToWorldTransform
       polyhedronToWorldTransform sphereCenter m = do {
     minFaceNormal \<leftarrow> getFaceNormal polyhedron (minFaceIndex m);
     let normalWorld = - rotateVector (getOrientation polyhedronToWorldTransform) minFaceNormal;
     let contactPointSphereLocal =
           scale (transformPoint (getInverse sphereToWorldTransform) normalWorld)
                 (getRadius_Sphere sphere);
     let contactPointPolyhedronLocal =
           sphereCenter + scale minFaceNormal (minPenetrationDepth m - getRadius_Sphere sphere);
     let normalWorld = (if \<not> isSphereShape1 then - normalWorld else normalWorld);
     Some \<lparr>returned = True,
           lastFrameWrites = [Set_satMinAxisFaceIndex (minFaceIndex m)],
           contactPoints = [addContactPoint normalWorld (minPenetrationDepth m)
              (if isSphereShape1 then contactPointSphereLocal else contactPointPolyhedronLocal)
              (if isSphereShape1 then contactPointPolyhedronLocal else contactPointSphereLocal)]\<rparr>
   }"

definition testCollisionSphereVsConvexPolyhedron ::
  "('a::{zero,one,plus,minus,uminus,times,inverse,ord}) NarrowPhaseInfo
     \<Rightarrow> 'a SATOutcome option" where
  "testCollisionSphereVsConvexPolyhedron narrowPhaseInfo = do {
     let isSphereShape1 = (getType_Shape (collisionShape1 narrowPhaseInfo) = SPHERE);
     sphere \<leftarrow> asSphere (if isSphereShape1 then collisionShape1 narrowPhaseInfo
                          else collisionShape2 narrowPhaseInfo);
     polyhedron \<leftarrow> asPolyhedron (if isSphereShape1 then collisionShape2 narrowPhaseInfo
                                  else collisionShape1 narrowPhaseInfo);
     let sphereToWorldTransform = (if isSphereShape1 then shape1ToWorldTransform narrowPhaseInfo
                                   else shape2ToWorldTransform narrowPhaseInfo);
     let polyhedronToWorldTransform = (if isSphereShape1 then shape2ToWorldTransform narrowPhaseInfo
                                       else shape1ToWorldTransform narrowPhaseInfo);
     let worldToPolyhedronTransform = getInverse polyhedronToWorldTransform;
     let sphereToPolyhedronSpaceTransform = mult_Transform worldToPolyhedronTransform sphereToWorldTransform;
     let sphereCenter = getPosition sphereToPolyhedronSpaceTransform;
     let report = reportContact_Sphere isSphereShape1 sphere polyhedron sphereToWorldTransform
                    polyhedronToWorldTransform sphereCenter;
     coherence \<leftarrow> temporalCoherence_Sphere polyhedron sphere sphereCenter (lastFrameInfo narrowPhaseInfo);
     case coherence of
       Separated \<Rightarrow> Some \<lparr>returned = False, lastFrameWrites = [], contactPoints = []\<rparr>
     | Coherent m \<Rightarrow> report m
     | Incoherent \<Rightarrow> do {
         scan \<leftarrow> forUpTo (getNbFaces polyhedron) (faceStep_Sphere polyhedron sphere sphereCenter) 0
                   \<lparr>minPenetrationDepth = DECIMAL_LARGEST, minFaceIndex = 0\<rparr>;
         case scan of
           Inl ws \<Rightarrow> Some \<lparr>returned = False, lastFrameWrites = ws, contactPoints = []\<rparr>
         | Inr m \<Rightarrow> report m
       }
   }"

section \<open>Capsule against convex polyhedron\<close>

text \<open>
  The two probes.  Each also hands back the axis it tested (the out-parameter of the
  source).  The edge probe declines an axis shorter than the threshold by returning
  \<open>DECIMAL_LARGEST\<close>, the axis left as the raw cross product.
\<close>

definition computePolyhedronFaceVsCapsulePenetrationDepth ::
  "nat \<Rightarrow> ('a::{zero,one,plus,minus,uminus,times,inverse,ord}) ConvexPolyhedronShape
     \<Rightarrow> 'a CapsuleShape \<Rightarrow> 'a Transform
     \<Rightarrow> ('a \<times> 'a Vector3) option" where
  "computePolyhedronFaceVsCapsulePenetrationDepth polyhedronFaceIndex polyhedron capsule
       polyhedronToCapsuleTransform = do {
     face \<leftarrow> getFace polyhedron polyhedronFaceIndex;
     faceNormal \<leftarrow> getFaceNormal polyhedron polyhedronFaceIndex;
     let outFaceNormalCapsuleSpace = rotateVector (getOrientation polyhedronToCapsuleTransform) faceNormal;
     let capsuleSupportPoint = getLocalSupportPointWithMargin capsule (- outFaceNormalCapsuleSpace);
     v0 \<leftarrow> elemAt (faceVertices face) 0;
     facePoint \<leftarrow> getVertexPosition polyhedron v0;
     let pointOnPolyhedronFace = transformPoint polyhedronToCapsuleTransform facePoint;
     let capsuleSupportPointToFacePoint = pointOnPolyhedronFace - capsuleSupportPoint;
     Some (dot capsuleSupportPointToFacePoint outFaceNormalCapsuleSpace, outFaceNormalCapsuleSpace)
   }"

definition computeEdgeVsCapsuleInnerSegmentPenetrationDepth ::
  "('a::{zero,one,plus,minus,uminus,times,inverse,ord}) MathFunctions
     \<Rightarrow> 'a ConvexPolyhedronShape \<Rightarrow> 'a CapsuleShape
     \<Rightarrow> 'a Vector3 \<Rightarrow> 'a Vector3 \<Rightarrow> 'a Vector3
     \<Rightarrow> 'a Transform \<Rightarrow> 'a \<times> 'a Vector3" where
  "computeEdgeVsCapsuleInnerSegmentPenetrationDepth math polyhedron capsule capsuleSegmentAxis edgeVertex1
       edgeDirectionCapsuleSpace polyhedronToCapsuleTransform =
     (let outAxis = cross capsuleSegmentAxis edgeDirectionCapsuleSpace
      in if lengthSquare outAxis \<ge> 1 / decimalOfNat 100000 then
           let polyhedronCentroid = transformPoint polyhedronToCapsuleTransform (getCentroid polyhedron);
               pointOnPolyhedronEdge = transformPoint polyhedronToCapsuleTransform edgeVertex1;
               outAxis = (if dot outAxis (pointOnPolyhedronEdge - polyhedronCentroid) < 0
                          then - outAxis else outAxis);
               outAxis = getUnit math outAxis;
               capsuleSupportPoint = getLocalSupportPointWithMargin capsule (- outAxis);
               capsuleSupportPointToEdgePoint = pointOnPolyhedronEdge - capsuleSupportPoint
           in (dot capsuleSupportPointToEdgePoint outAxis, outAxis)
         else (DECIMAL_LARGEST, outAxis))"

definition isMinkowskiFaceCapsuleVsEdge ::
  "('a::{zero,one,plus,minus,uminus,times,inverse,ord}) Vector3 \<Rightarrow> 'a Vector3
     \<Rightarrow> 'a Vector3 \<Rightarrow> bool" where
  "isMinkowskiFaceCapsuleVsEdge capsuleSegment edgeAdjacentFace1Normal edgeAdjacentFace2Normal =
     (dot capsuleSegment edgeAdjacentFace1Normal * dot capsuleSegment edgeAdjacentFace2Normal < 0)"

text \<open>The two end points of a half-edge: its origin and the origin of the next half-edge.\<close>

definition edgeVertices ::
  "'a ConvexPolyhedronShape \<Rightarrow> Edge
     \<Rightarrow> ('a Vector3 \<times> 'a Vector3) option" where
  "edgeVertices polyhedron edge = do {
     edgeVertex1 \<leftarrow> getVertexPosition polyhedron (vertexIndex edge);
     nextEdge \<leftarrow> getHalfEdge polyhedron (nextEdgeIndex edge);
     edgeVertex2 \<leftarrow> getVertexPosition polyhedron (vertexIndex nextEdge);
     Some (edgeVertex1, edgeVertex2)
   }"

text \<open>Lines 220--297: the probe of the cached axis, a face normal or an edge cross product.\<close>

definition temporalCoherence_Capsule ::
  "('a::{zero,one,plus,minus,uminus,times,inverse,ord}) MathFunctions
     \<Rightarrow> 'a ConvexPolyhedronShape \<Rightarrow> 'a CapsuleShape
     \<Rightarrow> 'a Transform \<Rightarrow> 'a Vector3 \<Rightarrow> 'a CapsuleMinAxis
     \<Rightarrow> LastFrameCollisionInfo \<Rightarrow> 'a CapsuleMinAxis Coherence option" where
  "temporalCoherence_Capsule math polyhedron capsuleShape polyhedronToCapsuleTransform capsuleSegmentAxis
       m lastFrame =
     (if getType polyhedron \<noteq> TRIANGLE then
        if isValid lastFrame \<and> wasUsingSAT lastFrame then
          if satIsAxisFacePolyhedron1 lastFrame then do {
            (penetrationDepth, outFaceNormalCapsuleSpace) \<leftarrow>
               computePolyhedronFaceVsCapsulePenetrationDepth (satMinAxisFaceIndex lastFrame)
                 polyhedron capsuleShape polyhedronToCapsuleTransform;
            if penetrationDepth \<le> 0 then Some Separated
            else if wasColliding lastFrame
                 then Some (Coherent (m\<lparr>minPenetrationDepth := penetrationDepth,
                                         minFaceIndex := satMinAxisFaceIndex lastFrame,
                                         isMinPenetrationFaceNormal := True,
                                         separatingAxisCapsuleSpace := outFaceNormalCapsuleSpace\<rparr>))
                 else Some Incoherent
          }
          else do {
            edge \<leftarrow> getHalfEdge polyhedron (satMinEdge1Index lastFrame);
            (edgeVertex1, edgeVertex2) \<leftarrow> edgeVertices polyhedron edge;
            let edgeDirectionCapsuleSpace =
                  rotateVector (getOrientation polyhedronToCapsuleTransform) (edgeVertex2 - edgeVertex1);
            let (penetrationDepth, outAxis) =
                  computeEdgeVsCapsuleInnerSegmentPenetrationDepth math polyhedron capsuleShape
                    capsuleSegmentAxis edgeVertex1 edgeDirectionCapsuleSpace polyhedronToCapsuleTransform;
            if penetrationDepth \<le> 0 then Some Separated
            else if wasColliding lastFrame
                 then Some (Coherent (m\<lparr>minPenetrationDepth := penetrationDepth,
                                         minEdgeIndex := satMinEdge1Index lastFrame,
                                         isMinPenetrationFaceNormal := False,
                                         separatingAxisCapsuleSpace := outAxis,
                                         separatingPolyhedronEdgeVertex1 := edgeVertex1,
                                         separatingPolyhedronEdgeVertex2 := edgeVertex2\<rparr>))
                 else Some Incoherent
          }
        else Some Incoherent
      else Some Incoherent)"

text \<open>
  Lines 304--329 and 332--375: the bodies of the two loops of the full scan.  \<open>Inl ws\<close>:
  a separating axis was found, the stores \<open>ws\<close> were made and the driver returns
  "no collision".
\<close>

definition faceStep_Capsule ::
  "('a::{zero,one,plus,minus,uminus,times,inverse,ord}) ConvexPolyhedronShape
     \<Rightarrow> 'a CapsuleShape \<Rightarrow> 'a Transform \<Rightarrow> nat
     \<Rightarrow> 'a CapsuleMinAxis
     \<Rightarrow> (LastFrameWrite list + 'a CapsuleMinAxis) option" where
  "faceStep_Capsule polyhedron capsuleShape polyhedronToCapsuleTransform f m = do {
     (penetrationDepth, outFaceNormalCapsuleSpace) \<leftarrow>
        computePolyhedronFaceVsCapsulePenetrationDepth f polyhedron capsuleShape
          polyhedronToCapsuleTransform;
     if penetrationDepth \<le> 0
     then Some (Inl [Set_satIsAxisFacePolyhedron1 True, Set_satMinAxisFaceIndex f])
     else if penetrationDepth < minPenetrationDepth m
          then Some (Inr (m\<lparr>minPenetrationDepth := penetrationDepth,
                            minFaceIndex := f,
                            isMinPenetrationFaceNormal := True,
                            separatingAxisCapsuleSpace := outFaceNormalCapsuleSpace\<rparr>))
          else Some (Inr m)
   }"

definition edgeStep_Capsule ::
  "('a::{zero,one,plus,minus,uminus,times,inverse,ord}) MathFunctions
     \<Rightarrow> 'a ConvexPolyhedronShape \<Rightarrow> 'a CapsuleShape
     \<Rightarrow> 'a Transform \<Rightarrow> 'a Vector3 \<Rightarrow> nat
     \<Rightarrow> 'a CapsuleMinAxis
     \<Rightarrow> (LastFrameWrite list + 'a CapsuleMinAxis) option" where
  "edgeStep_Capsule math polyhedron capsuleShape polyhedronToCapsuleTransform capsuleSegmentAxis e m = do {
     edge \<leftarrow> getHalfEdge polyhedron e;
     (edgeVertex1, edgeVertex2) \<leftarrow> edgeVertices polyhedron edge;
     let edgeDirectionCapsuleSpace =
           rotateVector (getOrientation polyhedronToCapsuleTransform) (edgeVertex2 - edgeVertex1);
     twinEdge \<leftarrow> getHalfEdge polyhedron (twinEdgeIndex edge);
     normal1 \<leftarrow> getFaceNormal polyhedron (faceIndex edge);
     normal2 \<leftarrow> getFaceNormal polyhedron (faceIndex twinEdge);
     let adjacentFace1Normal = rotateVector (getOrientation polyhedronToCapsuleTransform) normal1;
     let adjacentFace2Normal = rotateVector (getOrientation polyhedronToCapsuleTransform) normal2;
     if isMinkowskiFaceCapsuleVsEdge capsuleSegmentAxis adjacentFace1Normal adjacentFace2Normal then
       let (penetrationDepth, outAxis) =
             computeEdgeVsCapsuleInnerSegmentPenetrationDepth math polyhedron capsuleShape
               capsuleSegmentAxis edgeVertex1 edgeDirectionCapsuleSpace polyhedronToCapsuleTransform
       in if penetrationDepth \<le> 0
          then Some (Inl [Set_satIsAxisFacePolyhedron1 False, Set_satMinEdge1Index e])
          else if penetrationDepth < minPenetrationDepth m
               then Some (Inr (m\<lparr>minPenetrationDepth := penetrationDepth,
                                 minEdgeIndex := e,
                                 isMinPenetrationFaceNormal := False,
                                 separatingAxisCapsuleSpace := outAxis,
                                 separatingPolyhedronEdgeVertex1 := edgeVertex1,
                                 separatingPolyhedronEdgeVertex2 := edgeVertex2\<rparr>))
               else Some (Inr m)
     else Some (Inr m)
   }"

text \<open>
  Lines 494--504: the \<^verbatim>\<open>do ... while\<close> walk around the reference face, one clipping
  plane per edge.  The walk follows \<^verbatim>\<open>nextEdgeIndex\<close> until it is back at the first
  half-edge; on a mesh whose links do not close it never is.  Every step reads a
  half-edge of the mesh, so a walk that has not closed after as many steps as the mesh
  has half-edges has come twice through a half-edge other than the first and cycles
  without it.  The walk is therefore given that many steps, and \<open>None\<close> stands for a
  walk that does not end (or that has read outside the mesh).
\<close>

fun adjacentFacePlanes ::
  "nat \<Rightarrow> 'a ConvexPolyhedronShape
     \<Rightarrow> nat \<Rightarrow> nat
     \<Rightarrow> 'a Vector3 list \<times> 'a Vector3 list
     \<Rightarrow> ('a Vector3 list \<times> 'a Vector3 list) option" where
  "adjacentFacePlanes 0 polyhedron firstEdgeIndex currentEdgeIndex planes = None"
| "adjacentFacePlanes (Suc steps) polyhedron firstEdgeIndex currentEdgeIndex (planesPoints, planesNormals) = do {
     edge \<leftarrow> getHalfEdge polyhedron currentEdgeIndex;
     twinEdge \<leftarrow> getHalfEdge polyhedron (twinEdgeIndex edge);
     planePoint \<leftarrow> getVertexPosition polyhedron (vertexIndex edge);
     planeNormal \<leftarrow> getFaceNormal polyhedron (faceIndex twinEdge);
     let planes = (planesPoints @ [planePoint], planesNormals @ [planeNormal]);
     if nextEdgeIndex edge \<noteq> firstEdgeIndex
     then adjacentFacePlanes steps polyhedron firstEdgeIndex (nextEdgeIndex edge) planes
     else Some planes
   }"

definition computeCapsulePolyhedronFaceContactPoints ::
  "('a::{zero,one,plus,minus,uminus,times,inverse,ord}) MathFunctions \<Rightarrow> nat
     \<Rightarrow> 'a \<Rightarrow> 'a ConvexPolyhedronShape \<Rightarrow> 'a
     \<Rightarrow> 'a Transform \<Rightarrow> 'a Vector3 \<Rightarrow> 'a Vector3
     \<Rightarrow> 'a Vector3 \<Rightarrow> 'a Vector3 \<Rightarrow> bool
     \<Rightarrow> 'a ContactPointInfo list option" where
  "computeCapsulePolyhedronFaceContactPoints math referenceFaceIndex capsuleRadius polyhedron depth
       polyhedronToCapsuleTransform normalWorld axisCapsuleSpace
       capsuleSegAPolyhedronSpace capsuleSegBPolyhedronSpace isCapsuleShape1 = do {
     face \<leftarrow> getFace polyhedron referenceFaceIndex;
     let firstEdgeIndex = edgeIndex face;
     (planesPoints, planesNormals) \<leftarrow>
        adjacentFacePlanes (getNbHalfEdges polyhedron) polyhedron firstEdgeIndex firstEdgeIndex ([], []);
     let clipSegment = clipSegmentWithPlanes math capsuleSegAPolyhedronSpace capsuleSegBPolyhedronSpace
                         planesPoints planesNormals;
     faceNormal \<leftarrow> getFaceNormal polyhedron referenceFaceIndex;
     clip0 \<leftarrow> elemAt clipSegment 0;
     clip1 \<leftarrow> elemAt clipSegment 1;
     let contactPoint1Polyhedron = clip0 + scale faceNormal (depth - capsuleRadius);
     let contactPoint2Polyhedron = clip1 + scale faceNormal (depth - capsuleRadius);
     let contactPoint1Capsule = transformPoint polyhedronToCapsuleTransform clip0
                                  - scale axisCapsuleSpace capsuleRadius;
     let contactPoint2Capsule = transformPoint polyhedronToCapsuleTransform clip1
                                  - scale axisCapsuleSpace capsuleRadius;
     Some [addContactPoint normalWorld depth
             (if isCapsuleShape1 then contactPoint1Capsule else contactPoint1Polyhedron)
             (if isCapsuleShape1 then contactPoint1Polyhedron else contactPoint1Capsule),
           addContactPoint normalWorld depth
             (if isCapsuleShape1 then contactPoint2Capsule else contactPoint2Polyhedron)
             (if isCapsuleShape1 then contactPoint2Polyhedron else contactPoint2Capsule)]
   }"

text \<open>Lines 301--377: the full scan, faces first, then edges.\<close>

definition fullScan_Capsule ::
  "('a::{zero,one,plus,minus,uminus,times,inverse,ord}) MathFunctions
     \<Rightarrow> 'a ConvexPolyhedronShape \<Rightarrow> 'a CapsuleShape
     \<Rightarrow> 'a Transform \<Rightarrow> 'a Vector3 \<Rightarrow> 'a CapsuleMinAxis
     \<Rightarrow> (LastFrameWrite list + 'a CapsuleMinAxis) option" where
  "fullScan_Capsule math polyhedron capsuleShape polyhedronToCapsuleTransform capsuleSegmentAxis m = do {
     afterFaces \<leftarrow> forUpTo (getNbFaces polyhedron)
                     (faceStep_Capsule polyhedron capsuleShape polyhedronToCapsuleTransform) 0 m;
     case afterFaces of
       Inl ws \<Rightarrow> Some (Inl ws)
     | Inr m' \<Rightarrow> forUpToBy2 (getNbHalfEdges polyhedron)
                   (edgeStep_Capsule math polyhedron capsuleShape polyhedronToCapsuleTransform
                      capsuleSegmentAxis) 0 m'
   }"

text \<open>Lines 379--421: the contact points and the stores of the winning axis.\<close>

definition reportContacts_Capsule ::
  "('a::{zero,one,plus,minus,uminus,times,inverse,ord}) MathFunctions \<Rightarrow> bool
     \<Rightarrow> 'a CapsuleShape \<Rightarrow> 'a ConvexPolyhedronShape
     \<Rightarrow> 'a Transform \<Rightarrow> 'a Transform \<Rightarrow> 'a Vector3
     \<Rightarrow> 'a Vector3 \<Rightarrow> 'a CapsuleMinAxis
     \<Rightarrow> 'a SATOutcome option" where
  "reportContacts_Capsule math isCapsuleShape1 capsuleShape polyhedron capsuleToWorld
       polyhedronToCapsuleTransform capsuleSegA capsuleSegB m = do {
     let capsuleToPolyhedronTransform = getInverse polyhedronToCapsuleTransform;
     let capsuleSegAPolyhedronSpace = transformPoint capsuleToPolyhedronTransform capsuleSegA;
     let capsuleSegBPolyhedronSpace = transformPoint capsuleToPolyhedronTransform capsuleSegB;
     let normalWorld = rotateVector (getOrientation capsuleToWorld) (separatingAxisCapsuleSpace m);
     let capsuleRadius = getRadius_Capsule capsuleShape;
     if isMinPenetrationFaceNormal m then do {
       contacts \<leftarrow> computeCapsulePolyhedronFaceContactPoints math (minFaceIndex m) capsuleRadius
                     polyhedron (minPenetrationDepth m) polyhedronToCapsuleTransform normalWorld
                     (separatingAxisCapsuleSpace m) capsuleSegAPolyhedronSpace
                     capsuleSegBPolyhedronSpace isCapsuleShape1;
       Some \<lparr>returned = True,
             lastFrameWrites = [Set_satIsAxisFacePolyhedron1 True,
                                Set_satMinAxisFaceIndex (minFaceIndex m)],
             contactPoints = contacts\<rparr>
     }
     else do {
       let (closestPointCapsuleInnerSegment, closestPointPolyhedronEdge) =
             computeClosestPointBetweenTwoSegments math
               capsuleSegAPolyhedronSpace capsuleSegBPolyhedronSpace
               (separatingPolyhedronEdgeVertex1 m) (separatingPolyhedronEdgeVertex2 m);
       let contactPointCapsule =
             transformPoint polyhedronToCapsuleTransform closestPointCapsuleInnerSegment
               - scale (separatingAxisCapsuleSpace m) capsuleRadius;
       Some \<lparr>returned = True,
             lastFrameWrites = [Set_satIsAxisFacePolyhedron1 False,
                                Set_satMinEdge1Index (minEdgeIndex m)],
             contactPoints = [addContactPoint normalWorld (minPenetrationDepth m)
                (if isCapsuleShape1 then contactPointCapsule else closestPointPolyhedronEdge)
                (if isCapsuleShape1 then closestPointPolyhedronEdge else contactPointCapsule)]\<rparr>
     }
   }"

definition testCollisionCapsuleVsConvexPolyhedron ::
  "('a::{zero,one,plus,minus,uminus,times,inverse,ord}) MathFunctions
     \<Rightarrow> 'a NarrowPhaseInfo \<Rightarrow> 'a SATOutcome option" where
  "testCollisionCapsuleVsConvexPolyhedron math narrowPhaseInfo = do {
     let isCapsuleShape1 = (getType_Shape (collisionShape1 narrowPhaseInfo) = CAPSULE);
     capsuleShape \<leftarrow> asCapsule (if isCapsuleShape1 then collisionShape1 narrowPhaseInfo
                                else collisionShape2 narrowPhaseInfo);
     polyhedron \<leftarrow> asPolyhedron (if isCapsuleShape1 then collisionShape2 narrowPhaseInfo
                                  else collisionShape1 narrowPhaseInfo);
     let capsuleToWorld = (if isCapsuleShape1 then shape1ToWorldTransform narrowPhaseInfo
                           else shape2ToWorldTransform narrowPhaseInfo);
     let polyhedronToWorld = (if isCapsuleShape1 then shape2ToWorldTransform narrowPhaseInfo
                              else shape1ToWorldTransform narrowPhaseInfo);
     let polyhedronToCapsuleTransform = mult_Transform (getInverse capsuleToWorld) polyhedronToWorld;
     let capsuleSegA = Vector3 0 (- getHeight capsuleShape * (1 / decimalOfNat 2)) 0;
     let capsuleSegB = Vector3 0 (getHeight capsuleShape * (1 / decimalOfNat 2)) 0;
     let capsuleSegmentAxis = capsuleSegB - capsuleSegA;
     let initial = \<lparr>minPenetrationDepth = DECIMAL_LARGEST, minFaceIndex = 0,
                     isMinPenetrationFaceNormal = False, minEdgeIndex = 0,
                     separatingAxisCapsuleSpace = 0,
                     separatingPolyhedronEdgeVertex1 = 0,
                     separatingPolyhedronEdgeVertex2 = 0\<rparr>;
     let report = reportContacts_Capsule math isCapsuleShape1 capsuleShape polyhedron capsuleToWorld
                    polyhedronToCapsuleTransform capsuleSegA capsuleSegB;
     coherence \<leftarrow> temporalCoherence_Capsule math polyhedron capsuleShape polyhedronToCapsuleTransform
                    capsuleSegmentAxis initial (lastFrameInfo narrowPhaseInfo);
     case coherence of
       Separated \<Rightarrow> Some \<lparr>returned = False, lastFrameWrites = [], contactPoints = []\<rparr>
     | Coherent m \<Rightarrow> report m
     | Incoherent \<Rightarrow> do {
         scan \<leftarrow> fullScan_Capsule math polyhedron capsuleShape polyhedronToCapsuleTransform
                   capsuleSegmentAxis initial;
         case scan of
           Inl ws \<Rightarrow> Some \<lparr>returned = False, lastFrameWrites = ws, contactPoints = []\<rparr>
         | Inr m \<Rightarrow> report m
       }
   }"

section \<open>Convex polyhedron against convex polyhedron\<close>

definition testSingleFaceDirectionPolyhedronVsPolyhedron ::
  "('a::{zero,one,plus,minus,uminus,times,inverse,ord}) ConvexPolyhedronShape
     \<Rightarrow> 'a ConvexPolyhedronShape \<Rightarrow> 'a Transform \<Rightarrow> nat
     \<Rightarrow> 'a option" where
  "testSingleFaceDirectionPolyhedronVsPolyhedron polyhedron1 polyhedron2 polyhedron1ToPolyhedron2
       theFaceIndex = do {
     face \<leftarrow> getFace polyhedron1 theFaceIndex;
     faceNormal \<leftarrow> getFaceNormal polyhedron1 theFaceIndex;
     let faceNormalPolyhedron2Space = rotateVector (getOrientation polyhedron1ToPolyhedron2) faceNormal;
     let supportPoint = getLocalSupportPointWithoutMargin polyhedron2 (- faceNormalPolyhedron2Space);
     v0 \<leftarrow> elemAt (faceVertices face) 0;
     facePoint \<leftarrow> getVertexPosition polyhedron1 v0;
     let faceVertex = transformPoint polyhedron1ToPolyhedron2 facePoint;
     Some (dot (faceVertex - supportPoint) faceNormalPolyhedron2Space)
   }"

text \<open>
  Lines 974--1001.  The out-parameter \<^verbatim>\<open>minFaceIndex\<close> is the caller's \<^verbatim>\<open>faceIndex\<close>,
  declared without a value: it comes in as \<open>outMinFaceIndex\<close> and goes out with the
  result.  The loop runs on the pair of \<^verbatim>\<open>minPenetrationDepth\<close> and the out-parameter;
  \<open>Inl\<close> is the \<^verbatim>\<open>return penetrationDepth\<close> inside the loop.
\<close>

definition faceStep_Polyhedron ::
  "('a::{zero,one,plus,minus,uminus,times,inverse,ord}) ConvexPolyhedronShape
     \<Rightarrow> 'a ConvexPolyhedronShape \<Rightarrow> 'a Transform \<Rightarrow> nat
     \<Rightarrow> 'a \<times> nat option
     \<Rightarrow> ('a \<times> nat option + 'a \<times> nat option) option" where
  "faceStep_Polyhedron polyhedron1 polyhedron2 polyhedron1ToPolyhedron2 f state = do {
     penetrationDepth \<leftarrow> testSingleFaceDirectionPolyhedronVsPolyhedron polyhedron1 polyhedron2
                           polyhedron1ToPolyhedron2 f;
     if penetrationDepth \<le> 0 then Some (Inl (penetrationDepth, Some f))
     else if penetrationDepth < fst state then Some (Inr (penetrationDepth, Some f))
     else Some (Inr state)
   }"

definition testFacesDirectionPolyhedronVsPolyhedron ::
  "('a::{zero,one,plus,minus,uminus,times,inverse,ord}) ConvexPolyhedronShape
     \<Rightarrow> 'a ConvexPolyhedronShape \<Rightarrow> 'a Transform
     \<Rightarrow> nat option \<Rightarrow> ('a \<times> nat option) option" where
  "testFacesDirectionPolyhedronVsPolyhedron polyhedron1 polyhedron2 polyhedron1ToPolyhedron2
       outMinFaceIndex = do {
     scan \<leftarrow> forUpTo (getNbFaces polyhedron1)
               (faceStep_Polyhedron polyhedron1 polyhedron2 polyhedron1ToPolyhedron2) 0
               (DECIMAL_LARGEST, outMinFaceIndex);
     Some (case scan of Inl result \<Rightarrow> result | Inr result \<Rightarrow> result)
   }"

text \<open>
  Lines 924--947.  On parallel edges the out-parameter is left as the caller has it
  (\<open>outAxis\<close>).
\<close>

definition computeDistanceBetweenEdges ::
  "('a::{zero,one,plus,minus,uminus,times,inverse,ord}) MathFunctions \<Rightarrow> 'a Vector3
     \<Rightarrow> 'a Vector3 \<Rightarrow> 'a Vector3 \<Rightarrow> 'a Vector3
     \<Rightarrow> 'a Vector3 \<Rightarrow> 'a Vector3 \<Rightarrow> 'a \<times> 'a Vector3" where
  "computeDistanceBetweenEdges math edge1A edge2A polyhedron2Centroid edge1Direction edge2Direction
       outAxis =
     (if areParallelVectors math edge1Direction edge2Direction then (DECIMAL_LARGEST, outAxis)
      else let axis = getUnit math (cross edge1Direction edge2Direction);
               axis = (if dot axis (edge2A - polyhedron2Centroid) > 0 then - axis else axis)
           in (- dot axis (edge2A - edge1A), axis))"

definition testGaussMapArcsIntersect ::
  "('a::{zero,one,plus,minus,uminus,times,inverse,ord}) Vector3 \<Rightarrow> 'a Vector3
     \<Rightarrow> 'a Vector3 \<Rightarrow> 'a Vector3 \<Rightarrow> 'a Vector3
     \<Rightarrow> 'a Vector3 \<Rightarrow> bool" where
  "testGaussMapArcsIntersect a b c d bCrossA dCrossC =
     (let cba = dot c bCrossA;
          dba = dot d bCrossA;
          adc = dot a dCrossC;
          bdc = dot b dCrossC
      in cba * dba < 0 \<and> adc * bdc < 0 \<and> cba * bdc > 0)"

definition testEdgesBuildMinkowskiFace ::
  "('a::{zero,one,plus,minus,uminus,times,inverse,ord}) ConvexPolyhedronShape \<Rightarrow> Edge
     \<Rightarrow> 'a ConvexPolyhedronShape \<Rightarrow> Edge \<Rightarrow> 'a Transform
     \<Rightarrow> bool option" where
  "testEdgesBuildMinkowskiFace polyhedron1 edge1 polyhedron2 edge2 polyhedron1ToPolyhedron2 = do {
     normalA \<leftarrow> getFaceNormal polyhedron1 (faceIndex edge1);
     let a = transformPoint polyhedron1ToPolyhedron2 normalA;
     twinEdge1 \<leftarrow> getHalfEdge polyhedron1 (twinEdgeIndex edge1);
     normalB \<leftarrow> getFaceNormal polyhedron1 (faceIndex twinEdge1);
     let b = transformPoint polyhedron1ToPolyhedron2 normalB;
     c \<leftarrow> getFaceNormal polyhedron2 (faceIndex edge2);
     twinEdge2 \<leftarrow> getHalfEdge polyhedron2 (twinEdgeIndex edge2);
     d \<leftarrow> getFaceNormal polyhedron2 (faceIndex twinEdge2);
     edge1Vertex1 \<leftarrow> getVertexPosition polyhedron1 (vertexIndex edge1);
     edge1Vertex2 \<leftarrow> getVertexPosition polyhedron1 (vertexIndex twinEdge1);
     let bCrossA = rotateVector (getOrientation polyhedron1ToPolyhedron2) (edge1Vertex2 - edge1Vertex1);
     edge2Vertex1 \<leftarrow> getVertexPosition polyhedron2 (vertexIndex edge2);
     edge2Vertex2 \<leftarrow> getVertexPosition polyhedron2 (vertexIndex twinEdge2);
     let dCrossC = edge2Vertex2 - edge2Vertex1;
     Some (testGaussMapArcsIntersect a b (- c) (- d) bCrossA dCrossC)
   }"

text \<open>Lines 572--674: the probe of the cached axis.\<close>

definition temporalCoherence_Polyhedron ::
  "('a::{zero,one,plus,minus,uminus,times,inverse,ord}) MathFunctions
     \<Rightarrow> 'a ConvexPolyhedronShape \<Rightarrow> 'a ConvexPolyhedronShape
     \<Rightarrow> 'a Transform \<Rightarrow> 'a Transform \<Rightarrow> 'a PolyhedronMinAxis
     \<Rightarrow> LastFrameCollisionInfo \<Rightarrow> 'a PolyhedronMinAxis Coherence option" where
  "temporalCoherence_Polyhedron math polyhedron1 polyhedron2 polyhedron1ToPolyhedron2
       polyhedron2ToPolyhedron1 m lastFrame =
     (if getType polyhedron1 \<noteq> TRIANGLE \<and> getType polyhedron2 \<noteq> TRIANGLE then
        if isValid lastFrame \<and> wasUsingSAT lastFrame then
          if satIsAxisFacePolyhedron1 lastFrame then do {
            penetrationDepth \<leftarrow> testSingleFaceDirectionPolyhedronVsPolyhedron polyhedron1 polyhedron2
                                  polyhedron1ToPolyhedron2 (satMinAxisFaceIndex lastFrame);
            if penetrationDepth \<le> 0 then Some Separated
            else if wasColliding lastFrame
                 then Some (Coherent (m\<lparr>minPenetrationDepth := penetrationDepth,
                                         minFaceIndex := satMinAxisFaceIndex lastFrame,
                                         isMinPenetrationFaceNormal := True,
                                         isMinPenetrationFaceNormalPolyhedron1 := True\<rparr>))
                 else Some Incoherent
          }
          else if satIsAxisFacePolyhedron2 lastFrame then do {
            penetrationDepth \<leftarrow> testSingleFaceDirectionPolyhedronVsPolyhedron polyhedron2 polyhedron1
                                  polyhedron2ToPolyhedron1 (satMinAxisFaceIndex lastFrame);
            if penetrationDepth \<le> 0 then Some Separated
            else if wasColliding lastFrame
                 then Some (Coherent (m\<lparr>minPenetrationDepth := penetrationDepth,
                                         minFaceIndex := satMinAxisFaceIndex lastFrame,
                                         isMinPenetrationFaceNormal := True,
                                         isMinPenetrationFaceNormalPolyhedron1 := False\<rparr>))
                 else Some Incoherent
          }
          else do {
            edge1 \<leftarrow> getHalfEdge polyhedron1 (satMinEdge1Index lastFrame);
            edge2 \<leftarrow> getHalfEdge polyhedron2 (satMinEdge2Index lastFrame);
            (vertex1A, vertex1B) \<leftarrow> edgeVertices polyhedron1 edge1;
            let edge1A = transformPoint polyhedron1ToPolyhedron2 vertex1A;
            let edge1B = transformPoint polyhedron1ToPolyhedron2 vertex1B;
            let edge1Direction = edge1B - edge1A;
            (edge2A, edge2B) \<leftarrow> edgeVertices polyhedron2 edge2;
            let edge2Direction = edge2B - edge2A;
            let (penetrationDepth, separatingAxisPolyhedron2Space) =
                  computeDistanceBetweenEdges math edge1A edge2A (getCentroid polyhedron2)
                    edge1Direction edge2Direction 0;
            if penetrationDepth \<le> 0 then Some Separated
            else if wasColliding lastFrame
                 then Some (Coherent (m\<lparr>minPenetrationDepth := penetrationDepth,
                                         isMinPenetrationFaceNormal := False,
                                         isMinPenetrationFaceNormalPolyhedron1 := False,
                                         minSeparatingEdge1Index := satMinEdge1Index lastFrame,
                                         minSeparatingEdge2Index := satMinEdge2Index lastFrame,
                                         separatingEdge1A := edge1A,
                                         separatingEdge1B := edge1B,
                                         separatingEdge2A := edge2A,
                                         separatingEdge2B := edge2B,
                                         minEdgeVsEdgeSeparatingAxisPolyhedron2Space :=
                                           separatingAxisPolyhedron2Space\<rparr>))
                 else Some Incoherent
          }
        else Some Incoherent
      else Some Incoherent)"

text \<open>
  Lines 727--772 and 718--773: the bodies of the two nested loops over the edges, both
  stepping by 2.  \<open>Inl ws\<close>: an edge pair is a separating axis, the stores \<open>ws\<close> were made
  and the driver returns "no collision".
\<close>

definition edgePairStep_Polyhedron ::
  "('a::{zero,one,plus,minus,uminus,times,inverse,ord}) MathFunctions
     \<Rightarrow> 'a ConvexPolyhedronShape \<Rightarrow> 'a ConvexPolyhedronShape
     \<Rightarrow> 'a Transform \<Rightarrow> nat \<Rightarrow> Edge \<Rightarrow> 'a Vector3
     \<Rightarrow> 'a Vector3 \<Rightarrow> nat \<Rightarrow> 'a PolyhedronMinAxis
     \<Rightarrow> (LastFrameWrite list + 'a PolyhedronMinAxis) option" where
  "edgePairStep_Polyhedron math polyhedron1 polyhedron2 polyhedron1ToPolyhedron2 i edge1
       edge1A edge1B j m = do {
     edge2 \<leftarrow> getHalfEdge polyhedron2 j;
     (edge2A, edge2B) \<leftarrow> edgeVertices polyhedron2 edge2;
     let edge1Direction = edge1B - edge1A;
     let edge2Direction = edge2B - edge2A;
     buildsFace \<leftarrow> testEdgesBuildMinkowskiFace polyhedron1 edge1 polyhedron2 edge2
                     polyhedron1ToPolyhedron2;
     if buildsFace then
       let (penetrationDepth, separatingAxisPolyhedron2Space) =
             computeDistanceBetweenEdges math edge1A edge2A (getCentroid polyhedron2)
               edge1Direction edge2Direction 0
       in if penetrationDepth \<le> 0
          then Some (Inl [Set_satIsAxisFacePolyhedron1 False, Set_satIsAxisFacePolyhedron2 False,
                          Set_satMinEdge1Index i, Set_satMinEdge2Index j])
          else if penetrationDepth < minPenetrationDepth m - SAME_SEPARATING_AXIS_BIAS
               then Some (Inr (m\<lparr>minPenetrationDepth := penetrationDepth,
                                 isMinPenetrationFaceNormalPolyhedron1 := False,
                                 isMinPenetrationFaceNormal := False,
                                 minSeparatingEdge1Index := i,
                                 minSeparatingEdge2Index := j,
                                 separatingEdge1A := edge1A,
                                 separatingEdge1B := edge1B,
                                 separatingEdge2A := edge2A,
                                 separatingEdge2B := edge2B,
                                 minEdgeVsEdgeSeparatingAxisPolyhedron2Space :=
                                   separatingAxisPolyhedron2Space\<rparr>))
               else Some (Inr m)
     else Some (Inr m)
   }"

definition edgeStep_Polyhedron ::
  "('a::{zero,one,plus,minus,uminus,times,inverse,ord}) MathFunctions
     \<Rightarrow> 'a ConvexPolyhedronShape \<Rightarrow> 'a ConvexPolyhedronShape
     \<Rightarrow> 'a Transform \<Rightarrow> nat \<Rightarrow> 'a PolyhedronMinAxis
     \<Rightarrow> (LastFrameWrite list + 'a PolyhedronMinAxis) option" where
  "edgeStep_Polyhedron math polyhedron1 polyhedron2 polyhedron1ToPolyhedron2 i m = do {
     edge1 \<leftarrow> getHalfEdge polyhedron1 i;
     (vertex1A, vertex1B) \<leftarrow> edgeVertices polyhedron1 edge1;
     let edge1A = transformPoint polyhedron1ToPolyhedron2 vertex1A;
     let edge1B = transformPoint polyhedron1ToPolyhedron2 vertex1B;
     forUpToBy2 (getNbHalfEdges polyhedron2)
       (edgePairStep_Polyhedron math polyhedron1 polyhedron2 polyhedron1ToPolyhedron2
          i edge1 edge1A edge1B) 0 m
   }"

text \<open>
  Lines 680--773: the full scan, run when \<^verbatim>\<open>isTemporalCoherenceValid\<close> is false: the
  face normals of polyhedron 1, those of polyhedron 2, then the edge pairs.  The block
  that lets the minimum of a face scan override the running minimum is the same for
  the two polyhedra (lines 692--697 and 710--715) up to the flag it sets.
\<close>

definition overrideMinimumWithFace ::
  "bool \<Rightarrow> ('a::{zero,one,plus,minus,uminus,times,inverse,ord})
     \<Rightarrow> nat option \<Rightarrow> 'a PolyhedronMinAxis
     \<Rightarrow> 'a PolyhedronMinAxis option" where
  "overrideMinimumWithFace isPolyhedron1 penetrationDepth outFaceIndex m =
     (if penetrationDepth < minPenetrationDepth m - SAME_SEPARATING_AXIS_BIAS then do {
        f \<leftarrow> outFaceIndex;
        Some (m\<lparr>isMinPenetrationFaceNormal := True,
                minPenetrationDepth := penetrationDepth,
                minFaceIndex := f,
                isMinPenetrationFaceNormalPolyhedron1 := isPolyhedron1\<rparr>)
      }
      else Some m)"

definition fullScan_Polyhedron ::
  "('a::{zero,one,plus,minus,uminus,times,inverse,ord}) MathFunctions
     \<Rightarrow> 'a ConvexPolyhedronShape \<Rightarrow> 'a ConvexPolyhedronShape
     \<Rightarrow> 'a Transform \<Rightarrow> 'a Transform \<Rightarrow> 'a PolyhedronMinAxis
     \<Rightarrow> (LastFrameWrite list + 'a PolyhedronMinAxis) option" where
  "fullScan_Polyhedron math polyhedron1 polyhedron2 polyhedron1ToPolyhedron2
       polyhedron2ToPolyhedron1 m = do {
     (penetrationDepth, outFaceIndex) \<leftarrow>
        testFacesDirectionPolyhedronVsPolyhedron polyhedron1 polyhedron2 polyhedron1ToPolyhedron2 None;
     if penetrationDepth \<le> 0 then do {
       f \<leftarrow> outFaceIndex;
       Some (Inl [Set_satIsAxisFacePolyhedron1 True, Set_satIsAxisFacePolyhedron2 False,
                  Set_satMinAxisFaceIndex f])
     }
     else do {
       m1 \<leftarrow> overrideMinimumWithFace True penetrationDepth outFaceIndex m;
       (penetrationDepth2, outFaceIndex2) \<leftarrow>
          testFacesDirectionPolyhedronVsPolyhedron polyhedron2 polyhedron1 polyhedron2ToPolyhedron1
            outFaceIndex;
       if penetrationDepth2 \<le> 0 then do {
         f \<leftarrow> outFaceIndex2;
         Some (Inl [Set_satIsAxisFacePolyhedron1 False, Set_satIsAxisFacePolyhedron2 True,
                    Set_satMinAxisFaceIndex f])
       }
       else do {
         m2 \<leftarrow> overrideMinimumWithFace False penetrationDepth2 outFaceIndex2 m1;
         forUpToBy2 (getNbHalfEdges polyhedron1)
           (edgeStep_Polyhedron math polyhedron1 polyhedron2 polyhedron1ToPolyhedron2) 0 m2
       }
     }
   }"

function mostAntiParallelLoop ::
  "('a::{zero,one,plus,minus,uminus,times,inverse,ord}) ConvexPolyhedronShape
     \<Rightarrow> 'a Vector3 \<Rightarrow> nat \<Rightarrow> 'a \<Rightarrow> nat
     \<Rightarrow> nat option" where
  "mostAntiParallelLoop polyhedron direction i minDotProduct mostAntiParallelFace =
     (if i < getNbFaces polyhedron then do {
        faceNormal \<leftarrow> getFaceNormal polyhedron i;
        let dotProduct = dot faceNormal direction;
        if dotProduct < minDotProduct
        then mostAntiParallelLoop polyhedron direction (i + 1) dotProduct i
        else mostAntiParallelLoop polyhedron direction (i + 1) minDotProduct mostAntiParallelFace
      }
      else Some mostAntiParallelFace)"
  by pat_completeness auto
termination
  by (relation "measure (\<lambda>(polyhedron, direction, i, d, f). getNbFaces polyhedron - i)") auto

declare mostAntiParallelLoop.simps [simp del]

definition findMostAntiParallelFaceOnPolyhedron ::
  "('a::{zero,one,plus,minus,uminus,times,inverse,ord}) ConvexPolyhedronShape
     \<Rightarrow> 'a Vector3 \<Rightarrow> nat option" where
  "findMostAntiParallelFaceOnPolyhedron polyhedron direction =
     mostAntiParallelLoop polyhedron direction 0 DECIMAL_LARGEST 0"

text \<open>Lines 813--817: the vertices of the incident face, in the reference local space.\<close>

fun incidentFaceVertices ::
  "('a::{zero,one,plus,minus,uminus,times,inverse,ord}) ConvexPolyhedronShape
     \<Rightarrow> 'a Transform \<Rightarrow> nat list \<Rightarrow> 'a Vector3 list option" where
  "incidentFaceVertices incidentPolyhedron incidentToReferenceTransform [] = Some []"
| "incidentFaceVertices incidentPolyhedron incidentToReferenceTransform (v # vs) = do {
     faceVertexIncidentSpace \<leftarrow> getVertexPosition incidentPolyhedron v;
     rest \<leftarrow> incidentFaceVertices incidentPolyhedron incidentToReferenceTransform vs;
     Some (transformPoint incidentToReferenceTransform faceVertexIncidentSpace # rest)
   }"

text \<open>
  Lines 820--842: the walk around the reference face, as in the capsule case, with the
  twin face normals negated; the step budget is the same.
\<close>

fun referenceFaceClippingPlanes ::
  "nat \<Rightarrow> ('a::{zero,one,plus,minus,uminus,times,inverse,ord}) ConvexPolyhedronShape
     \<Rightarrow> nat \<Rightarrow> nat
     \<Rightarrow> 'a Vector3 list \<times> 'a Vector3 list
     \<Rightarrow> ('a Vector3 list \<times> 'a Vector3 list) option" where
  "referenceFaceClippingPlanes 0 referencePolyhedron firstEdgeIndex currentEdgeIndex planes = None"
| "referenceFaceClippingPlanes (Suc steps) referencePolyhedron firstEdgeIndex currentEdgeIndex
       (planesNormals, planesPoints) = do {
     edge \<leftarrow> getHalfEdge referencePolyhedron currentEdgeIndex;
     twinEdge \<leftarrow> getHalfEdge referencePolyhedron (twinEdgeIndex edge);
     twinFaceNormal \<leftarrow> getFaceNormal referencePolyhedron (faceIndex twinEdge);
     let faceNormal = - twinFaceNormal;
     faceVertex \<leftarrow> getVertexPosition referencePolyhedron (vertexIndex edge);
     let planes = (planesNormals @ [faceNormal], planesPoints @ [faceVertex]);
     if nextEdgeIndex edge \<noteq> firstEdgeIndex
     then referenceFaceClippingPlanes steps referencePolyhedron firstEdgeIndex (nextEdgeIndex edge) planes
     else Some planes
   }"

text \<open>
  Lines 851--870: the clipped points below the reference face become contacts.  The
  point of the reference face is read as \<^verbatim>\<open>getVertexPosition(firstEdgeIndex)\<close>, with the
  index of the first half-edge of the face.
\<close>

fun contactsBelowReferenceFace ::
  "('a::{zero,one,plus,minus,uminus,times,inverse,ord}) Vector3 \<Rightarrow> 'a Vector3
     \<Rightarrow> 'a Transform \<Rightarrow> 'a Vector3 \<Rightarrow> 'a \<Rightarrow> bool
     \<Rightarrow> 'a Vector3 list \<Rightarrow> 'a ContactPointInfo list" where
  "contactsBelowReferenceFace referenceFaceVertex axisReferenceSpace referenceToIncidentTransform
       normalWorld depth isPolyhedron1 [] = []"
| "contactsBelowReferenceFace referenceFaceVertex axisReferenceSpace referenceToIncidentTransform
       normalWorld depth isPolyhedron1 (p # ps) =
     (if dot (p - referenceFaceVertex) axisReferenceSpace < 0 then
        let contactPointIncidentPolyhedron = transformPoint referenceToIncidentTransform p;
            contactPointReferencePolyhedron = p + scale axisReferenceSpace depth
        in [addContactPoint normalWorld depth
              (if isPolyhedron1 then contactPointReferencePolyhedron else contactPointIncidentPolyhedron)
              (if isPolyhedron1 then contactPointIncidentPolyhedron else contactPointReferencePolyhedron)]
      else [])
     @ contactsBelowReferenceFace referenceFaceVertex axisReferenceSpace referenceToIncidentTransform
         normalWorld depth isPolyhedron1 ps"

definition faceContacts_Polyhedron ::
  "('a::{zero,one,plus,minus,uminus,times,inverse,ord}) MathFunctions
     \<Rightarrow> 'a ConvexPolyhedronShape \<Rightarrow> 'a ConvexPolyhedronShape
     \<Rightarrow> 'a Transform \<Rightarrow> 'a Transform \<Rightarrow> 'a Transform
     \<Rightarrow> 'a Transform \<Rightarrow> 'a PolyhedronMinAxis
     \<Rightarrow> 'a ContactPointInfo list option" where
  "faceContacts_Polyhedron math polyhedron1 polyhedron2 polyhedron1ToPolyhedron2
       polyhedron2ToPolyhedron1 shape1ToWorld shape2ToWorld m = do {
     let isPolyhedron1 = isMinPenetrationFaceNormalPolyhedron1 m;
     let referencePolyhedron = (if isPolyhedron1 then polyhedron1 else polyhedron2);
     let incidentPolyhedron = (if isPolyhedron1 then polyhedron2 else polyhedron1);
     let referenceToIncidentTransform =
           (if isPolyhedron1 then polyhedron1ToPolyhedron2 else polyhedron2ToPolyhedron1);
     let incidentToReferenceTransform =
           (if isPolyhedron1 then polyhedron2ToPolyhedron1 else polyhedron1ToPolyhedron2);
     axisReferenceSpace \<leftarrow> getFaceNormal referencePolyhedron (minFaceIndex m);
     let axisIncidentSpace = rotateVector (getOrientation referenceToIncidentTransform) axisReferenceSpace;
     let normalWorld =
           (if isPolyhedron1 then rotateVector (getOrientation shape1ToWorld) axisReferenceSpace
            else - rotateVector (getOrientation shape2ToWorld) axisReferenceSpace);
     referenceFace \<leftarrow> getFace referencePolyhedron (minFaceIndex m);
     incidentFaceIndex \<leftarrow> findMostAntiParallelFaceOnPolyhedron incidentPolyhedron axisIncidentSpace;
     incidentFace \<leftarrow> getFace incidentPolyhedron incidentFaceIndex;
     polygonVertices \<leftarrow> incidentFaceVertices incidentPolyhedron incidentToReferenceTransform
                          (faceVertices incidentFace);
     let firstEdgeIndex = edgeIndex referenceFace;
     (planesNormals, planesPoints) \<leftarrow>
        referenceFaceClippingPlanes (getNbHalfEdges referencePolyhedron) referencePolyhedron
          firstEdgeIndex firstEdgeIndex ([], []);
     let clipPolygonVertices = clipPolygonWithPlanes math polygonVertices planesPoints planesNormals;
     referenceFaceVertex \<leftarrow> getVertexPosition referencePolyhedron firstEdgeIndex;
     Some (contactsBelowReferenceFace referenceFaceVertex axisReferenceSpace
             referenceToIncidentTransform normalWorld (minPenetrationDepth m) isPolyhedron1
             clipPolygonVertices)
   }"

text \<open>Lines 776--899: the contact points and the stores of the winning axis.\<close>

definition reportContacts_Polyhedron ::
  "('a::{zero,one,plus,minus,uminus,times,inverse,ord}) MathFunctions
     \<Rightarrow> 'a ConvexPolyhedronShape \<Rightarrow> 'a ConvexPolyhedronShape
     \<Rightarrow> 'a Transform \<Rightarrow> 'a Transform \<Rightarrow> 'a Transform
     \<Rightarrow> 'a Transform \<Rightarrow> 'a PolyhedronMinAxis
     \<Rightarrow> 'a SATOutcome option" where
  "reportContacts_Polyhedron math polyhedron1 polyhedron2 polyhedron1ToPolyhedron2
       polyhedron2ToPolyhedron1 shape1ToWorld shape2ToWorld m =
     (if isMinPenetrationFaceNormal m then do {
        contacts \<leftarrow> faceContacts_Polyhedron math polyhedron1 polyhedron2
                      polyhedron1ToPolyhedron2 polyhedron2ToPolyhedron1 shape1ToWorld shape2ToWorld m;
        Some \<lparr>returned = True,
              lastFrameWrites =
                [Set_satIsAxisFacePolyhedron1 (isMinPenetrationFaceNormalPolyhedron1 m),
                 Set_satIsAxisFacePolyhedron2 (\<not> isMinPenetrationFaceNormalPolyhedron1 m),
                 Set_satMinAxisFaceIndex (minFaceIndex m)],
              contactPoints = contacts\<rparr>
      }
      else do {
        let (closestPointPolyhedron1Edge, closestPointPolyhedron2Edge) =
              computeClosestPointBetweenTwoSegments math
                (separatingEdge1A m) (separatingEdge1B m)
                (separatingEdge2A m) (separatingEdge2B m);
        let closestPointPolyhedron1EdgeLocalSpace =
              transformPoint polyhedron2ToPolyhedron1 closestPointPolyhedron1Edge;
        let normalWorld =
              rotateVector (getOrientation shape2ToWorld)
                (minEdgeVsEdgeSeparatingAxisPolyhedron2Space m);
        Some \<lparr>returned = True,
              lastFrameWrites = [Set_satIsAxisFacePolyhedron1 False,
                                 Set_satIsAxisFacePolyhedron2 False,
                                 Set_satMinEdge1Index (minSeparatingEdge1Index m),
                                 Set_satMinEdge2Index (minSeparatingEdge2Index m)],
              contactPoints = [addContactPoint normalWorld (minPenetrationDepth m)
                 closestPointPolyhedron1EdgeLocalSpace closestPointPolyhedron2Edge]\<rparr>
      })"

definition testCollisionConvexPolyhedronVsConvexPolyhedron ::
  "('a::{zero,one,plus,minus,uminus,times,inverse,ord}) MathFunctions
     \<Rightarrow> IndeterminateLocals \<Rightarrow> 'a NarrowPhaseInfo
     \<Rightarrow> 'a SATOutcome option" where
  "testCollisionConvexPolyhedronVsConvexPolyhedron math indeterminate narrowPhaseInfo = do {
     polyhedron1 \<leftarrow> asPolyhedron (collisionShape1 narrowPhaseInfo);
     polyhedron2 \<leftarrow> asPolyhedron (collisionShape2 narrowPhaseInfo);
     let polyhedron1ToPolyhedron2 =
           mult_Transform (getInverse (shape2ToWorldTransform narrowPhaseInfo))
                          (shape1ToWorldTransform narrowPhaseInfo);
     let polyhedron2ToPolyhedron1 = getInverse polyhedron1ToPolyhedron2;
     let initial = \<lparr>minPenetrationDepth = DECIMAL_LARGEST, minFaceIndex = 0,
                     isMinPenetrationFaceNormal = False,
                     isMinPenetrationFaceNormalPolyhedron1 = False,
                     minSeparatingEdge1Index = indeterminateEdge1Index indeterminate,
                     minSeparatingEdge2Index = indeterminateEdge2Index indeterminate,
                     separatingEdge1A = 0, separatingEdge1B = 0,
                     separatingEdge2A = 0, separatingEdge2B = 0,
                     minEdgeVsEdgeSeparatingAxisPolyhedron2Space = 0\<rparr>;
     let report = reportContacts_Polyhedron math polyhedron1 polyhedron2 polyhedron1ToPolyhedron2
                    polyhedron2ToPolyhedron1 (shape1ToWorldTransform narrowPhaseInfo)
                    (shape2ToWorldTransform narrowPhaseInfo);
     coherence \<leftarrow> temporalCoherence_Polyhedron math polyhedron1 polyhedron2 polyhedron1ToPolyhedron2
                    polyhedron2ToPolyhedron1 initial (lastFrameInfo narrowPhaseInfo);
     case coherence of
       Separated \<Rightarrow> Some \<lparr>returned = False, lastFrameWrites = [], contactPoints = []\<rparr>
     | Coherent m \<Rightarrow> report m
     | Incoherent \<Rightarrow> do {
         scan \<leftarrow> fullScan_Polyhedron math polyhedron1 polyhedron2 polyhedron1ToPolyhedron2
                   polyhedron2ToPolyhedron1 initial;
         case scan of
           Inl ws \<Rightarrow> Some \<lparr>returned = False, lastFrameWrites = ws, contactPoints = []\<rparr>
         | Inr m \<Rightarrow> report m
       }
   }"

text \<open>The three operations of the SAT interface, as one function of the operation.\<close>

datatype SATOperation =
    SphereVsConvexPolyhedron
  | CapsuleVsConvexPolyhedron
  | ConvexPolyhedronVsConvexPolyhedron

fun testCollision ::
  "SATOperation \<Rightarrow> ('a::{zero,one,plus,minus,uminus,times,inverse,ord}) MathFunctions
     \<Rightarrow> IndeterminateLocals \<Rightarrow> 'a NarrowPhaseInfo
     \<Rightarrow> 'a SATOutcome option" where
  "testCollision SphereVsConvexPolyhedron math indeterminate narrowPhaseInfo =
     testCollisionSphereVsConvexPolyhedron narrowPhaseInfo"
| "testCollision CapsuleVsConvexPolyhedron math indeterminate narrowPhaseInfo =
     testCollisionCapsuleVsConvexPolyhedron math narrowPhaseInfo"
| "testCollision ConvexPolyhedronVsConvexPolyhedron math indeterminate narrowPhaseInfo =
     testCollisionConvexPolyhedronVsConvexPolyhedron math indeterminate narrowPhaseInfo"

text \<open>
  The \<^verbatim>\<open>assert\<close>s of the source are not part of the control flow: the embedding is
  that of a build in which they are compiled out (\<^verbatim>\<open>NDEBUG\<close>).  Those on the shape
  types correspond to the casts above, except that the sphere driver asserts a
  \<^verbatim>\<open>CONVEX_POLYHEDRON\<close> (lines 53--54) and then tests for a \<^verbatim>\<open>TRIANGLE\<close> (line 84): a
  triangle reaches that test only with the asserts compiled out.
  \<^verbatim>\<open>assert(minPenetrationDepth > 0)\<close> is proved below as a property of the drivers in
  the arithmetic of the real numbers; in floating-point arithmetic the depth can be
  NaN.
\<close>

section \<open>What the claims are stated with\<close>

text \<open>A pair one of whose shapes is a \<^verbatim>\<open>TRIANGLE\<close>.\<close>

definition involvesTriangle :: "'a NarrowPhaseInfo \<Rightarrow> bool" where
  "involvesTriangle narrowPhaseInfo =
     (getType_Shape (collisionShape1 narrowPhaseInfo) = TRIANGLE
      \<or> getType_Shape (collisionShape2 narrowPhaseInfo) = TRIANGLE)"

definition atMostOneFaceFlag :: "LastFrameCollisionInfo \<Rightarrow> bool" where
  "atMostOneFaceFlag l = (\<not> (satIsAxisFacePolyhedron1 l \<and> satIsAxisFacePolyhedron2 l))"

text \<open>
  The polyhedron of a sphere--polyhedron pair, and the penetration depth of the sphere
  along the normal of face \<open>f\<close> of that polyhedron, with the sphere centre brought into
  the frame of the polyhedron as lines 51--67 do.
\<close>

definition polyhedronOfSpherePair :: "'a NarrowPhaseInfo \<Rightarrow> 'a ConvexPolyhedronShape option" where
  "polyhedronOfSpherePair narrowPhaseInfo =
     asPolyhedron (if getType_Shape (collisionShape1 narrowPhaseInfo) = SPHERE
                   then collisionShape2 narrowPhaseInfo else collisionShape1 narrowPhaseInfo)"

definition faceDepth_Sphere ::
  "('a::{zero,one,plus,minus,uminus,times,inverse,ord}) NarrowPhaseInfo \<Rightarrow> nat \<Rightarrow> 'a option" where
  "faceDepth_Sphere narrowPhaseInfo f = do {
     let isSphereShape1 = (getType_Shape (collisionShape1 narrowPhaseInfo) = SPHERE);
     sphere \<leftarrow> asSphere (if isSphereShape1 then collisionShape1 narrowPhaseInfo
                          else collisionShape2 narrowPhaseInfo);
     polyhedron \<leftarrow> asPolyhedron (if isSphereShape1 then collisionShape2 narrowPhaseInfo
                                  else collisionShape1 narrowPhaseInfo);
     let sphereToWorldTransform = (if isSphereShape1 then shape1ToWorldTransform narrowPhaseInfo
                                   else shape2ToWorldTransform narrowPhaseInfo);
     let polyhedronToWorldTransform = (if isSphereShape1 then shape2ToWorldTransform narrowPhaseInfo
                                       else shape1ToWorldTransform narrowPhaseInfo);
     let sphereCenter = getPosition (mult_Transform (getInverse polyhedronToWorldTransform)
                                       sphereToWorldTransform);
     computePolyhedronFaceVsSpherePenetrationDepth f polyhedron sphere sphereCenter
   }"

text \<open>
  The temporal-coherence test as the specification words it: "if the cached axis is
  still separating, return no collision".  The depth along the cached axis is that of
  the cached face for the sphere; of the cached face, or of the cached edge crossed
  with the capsule segment, for the capsule; of the cached face of polyhedron 1 or of
  polyhedron 2, or of the cached pair of edges, for two polyhedra.  The test is made
  when no shape is a triangle and the record is valid and was left by SAT, and the
  cached axis is still separating when the depth along it is not positive.
\<close>

definition cachedAxisDepth_Sphere :: "('a::{zero,one,plus,minus,uminus,times,inverse,ord}) NarrowPhaseInfo \<Rightarrow> 'a option" where
  "cachedAxisDepth_Sphere narrowPhaseInfo =
     faceDepth_Sphere narrowPhaseInfo (satMinAxisFaceIndex (lastFrameInfo narrowPhaseInfo))"

definition cachedAxisProbe_Capsule ::
  "('a::{zero,one,plus,minus,uminus,times,inverse,ord}) MathFunctions \<Rightarrow> 'a ConvexPolyhedronShape \<Rightarrow> 'a CapsuleShape \<Rightarrow> 'a Transform
     \<Rightarrow> 'a Vector3 \<Rightarrow> LastFrameCollisionInfo \<Rightarrow> 'a option" where
  "cachedAxisProbe_Capsule math polyhedron capsuleShape polyhedronToCapsuleTransform
       capsuleSegmentAxis lastFrame =
     (if satIsAxisFacePolyhedron1 lastFrame then do {
        (penetrationDepth, outFaceNormalCapsuleSpace) \<leftarrow>
           computePolyhedronFaceVsCapsulePenetrationDepth (satMinAxisFaceIndex lastFrame)
             polyhedron capsuleShape polyhedronToCapsuleTransform;
        Some penetrationDepth
      }
      else do {
        edge \<leftarrow> getHalfEdge polyhedron (satMinEdge1Index lastFrame);
        (edgeVertex1, edgeVertex2) \<leftarrow> edgeVertices polyhedron edge;
        let edgeDirectionCapsuleSpace =
              rotateVector (getOrientation polyhedronToCapsuleTransform) (edgeVertex2 - edgeVertex1);
        Some (fst (computeEdgeVsCapsuleInnerSegmentPenetrationDepth math polyhedron capsuleShape
                     capsuleSegmentAxis edgeVertex1 edgeDirectionCapsuleSpace
                     polyhedronToCapsuleTransform))
      })"

definition cachedAxisDepth_Capsule ::
  "('a::{zero,one,plus,minus,uminus,times,inverse,ord}) MathFunctions \<Rightarrow> 'a NarrowPhaseInfo \<Rightarrow> 'a option" where
  "cachedAxisDepth_Capsule math narrowPhaseInfo = do {
     let isCapsuleShape1 = (getType_Shape (collisionShape1 narrowPhaseInfo) = CAPSULE);
     capsuleShape \<leftarrow> asCapsule (if isCapsuleShape1 then collisionShape1 narrowPhaseInfo
                                else collisionShape2 narrowPhaseInfo);
     polyhedron \<leftarrow> asPolyhedron (if isCapsuleShape1 then collisionShape2 narrowPhaseInfo
                                  else collisionShape1 narrowPhaseInfo);
     let capsuleToWorld = (if isCapsuleShape1 then shape1ToWorldTransform narrowPhaseInfo
                           else shape2ToWorldTransform narrowPhaseInfo);
     let polyhedronToWorld = (if isCapsuleShape1 then shape2ToWorldTransform narrowPhaseInfo
                              else shape1ToWorldTransform narrowPhaseInfo);
     let polyhedronToCapsuleTransform = mult_Transform (getInverse capsuleToWorld) polyhedronToWorld;
     let capsuleSegA = Vector3 0 (- getHeight capsuleShape * (1 / decimalOfNat 2)) 0;
     let capsuleSegB = Vector3 0 (getHeight capsuleShape * (1 / decimalOfNat 2)) 0;
     let capsuleSegmentAxis = capsuleSegB - capsuleSegA;
     cachedAxisProbe_Capsule math polyhedron capsuleShape polyhedronToCapsuleTransform
       capsuleSegmentAxis (lastFrameInfo narrowPhaseInfo)
   }"

definition cachedAxisProbe_Polyhedron ::
  "('a::{zero,one,plus,minus,uminus,times,inverse,ord}) MathFunctions \<Rightarrow> 'a ConvexPolyhedronShape \<Rightarrow> 'a ConvexPolyhedronShape \<Rightarrow> 'a Transform
     \<Rightarrow> 'a Transform \<Rightarrow> LastFrameCollisionInfo \<Rightarrow> 'a option" where
  "cachedAxisProbe_Polyhedron math polyhedron1 polyhedron2 polyhedron1ToPolyhedron2
       polyhedron2ToPolyhedron1 lastFrame =
     (if satIsAxisFacePolyhedron1 lastFrame then
        testSingleFaceDirectionPolyhedronVsPolyhedron polyhedron1 polyhedron2
          polyhedron1ToPolyhedron2 (satMinAxisFaceIndex lastFrame)
      else if satIsAxisFacePolyhedron2 lastFrame then
        testSingleFaceDirectionPolyhedronVsPolyhedron polyhedron2 polyhedron1
          polyhedron2ToPolyhedron1 (satMinAxisFaceIndex lastFrame)
      else do {
        edge1 \<leftarrow> getHalfEdge polyhedron1 (satMinEdge1Index lastFrame);
        edge2 \<leftarrow> getHalfEdge polyhedron2 (satMinEdge2Index lastFrame);
        (vertex1A, vertex1B) \<leftarrow> edgeVertices polyhedron1 edge1;
        let edge1A = transformPoint polyhedron1ToPolyhedron2 vertex1A;
        let edge1B = transformPoint polyhedron1ToPolyhedron2 vertex1B;
        (edge2A, edge2B) \<leftarrow> edgeVertices polyhedron2 edge2;
        Some (fst (computeDistanceBetweenEdges math edge1A edge2A (getCentroid polyhedron2)
                     (edge1B - edge1A) (edge2B - edge2A) 0))
      })"

definition cachedAxisDepth_Polyhedron ::
  "('a::{zero,one,plus,minus,uminus,times,inverse,ord}) MathFunctions \<Rightarrow> 'a NarrowPhaseInfo \<Rightarrow> 'a option" where
  "cachedAxisDepth_Polyhedron math narrowPhaseInfo = do {
     polyhedron1 \<leftarrow> asPolyhedron (collisionShape1 narrowPhaseInfo);
     polyhedron2 \<leftarrow> asPolyhedron (collisionShape2 narrowPhaseInfo);
     let polyhedron1ToPolyhedron2 =
           mult_Transform (getInverse (shape2ToWorldTransform narrowPhaseInfo))
                          (shape1ToWorldTransform narrowPhaseInfo);
     let polyhedron2ToPolyhedron1 = getInverse polyhedron1ToPolyhedron2;
     cachedAxisProbe_Polyhedron math polyhedron1 polyhedron2 polyhedron1ToPolyhedron2
       polyhedron2ToPolyhedron1 (lastFrameInfo narrowPhaseInfo)
   }"

fun cachedAxisDepth ::
  "SATOperation \<Rightarrow> ('a::{zero,one,plus,minus,uminus,times,inverse,ord}) MathFunctions \<Rightarrow> 'a NarrowPhaseInfo \<Rightarrow> 'a option" where
  "cachedAxisDepth SphereVsConvexPolyhedron math narrowPhaseInfo =
     cachedAxisDepth_Sphere narrowPhaseInfo"
| "cachedAxisDepth CapsuleVsConvexPolyhedron math narrowPhaseInfo =
     cachedAxisDepth_Capsule math narrowPhaseInfo"
| "cachedAxisDepth ConvexPolyhedronVsConvexPolyhedron math narrowPhaseInfo =
     cachedAxisDepth_Polyhedron math narrowPhaseInfo"

definition cachedAxisStillSeparating ::
  "SATOperation \<Rightarrow> ('a::{zero,one,plus,minus,uminus,times,inverse,ord}) MathFunctions \<Rightarrow> 'a NarrowPhaseInfo \<Rightarrow> bool" where
  "cachedAxisStillSeparating op math narrowPhaseInfo =
     (\<not> involvesTriangle narrowPhaseInfo
      \<and> isValid (lastFrameInfo narrowPhaseInfo) \<and> wasUsingSAT (lastFrameInfo narrowPhaseInfo)
      \<and> (case cachedAxisDepth op math narrowPhaseInfo of
            None \<Rightarrow> False
          | Some penetrationDepth \<Rightarrow> penetrationDepth \<le> 0))"

text \<open>
  The Gauss-map test as the specification words it: the adjacent face normals of
  edge 1 and its direction are \<^emph>\<open>rotated\<close> into the frame of polyhedron 2, the adjacent
  face normals of edge 2 are negated, and the three sign conditions are tested.
\<close>

definition specMinkowskiFace ::
  "('a::{zero,one,plus,minus,uminus,times,inverse,ord}) ConvexPolyhedronShape \<Rightarrow> Edge \<Rightarrow> 'a ConvexPolyhedronShape \<Rightarrow> Edge
     \<Rightarrow> 'a Transform \<Rightarrow> bool option" where
  "specMinkowskiFace polyhedron1 edge1 polyhedron2 edge2 polyhedron1ToPolyhedron2 = do {
     normalA \<leftarrow> getFaceNormal polyhedron1 (faceIndex edge1);
     twinEdge1 \<leftarrow> getHalfEdge polyhedron1 (twinEdgeIndex edge1);
     normalB \<leftarrow> getFaceNormal polyhedron1 (faceIndex twinEdge1);
     normalC \<leftarrow> getFaceNormal polyhedron2 (faceIndex edge2);
     twinEdge2 \<leftarrow> getHalfEdge polyhedron2 (twinEdgeIndex edge2);
     normalD \<leftarrow> getFaceNormal polyhedron2 (faceIndex twinEdge2);
     edge1Vertex1 \<leftarrow> getVertexPosition polyhedron1 (vertexIndex edge1);
     edge1Vertex2 \<leftarrow> getVertexPosition polyhedron1 (vertexIndex twinEdge1);
     edge2Vertex1 \<leftarrow> getVertexPosition polyhedron2 (vertexIndex edge2);
     edge2Vertex2 \<leftarrow> getVertexPosition polyhedron2 (vertexIndex twinEdge2);
     let a = rotateVector (getOrientation polyhedron1ToPolyhedron2) normalA;
     let b = rotateVector (getOrientation polyhedron1ToPolyhedron2) normalB;
     let c = - normalC;
     let d = - normalD;
     let BxA = rotateVector (getOrientation polyhedron1ToPolyhedron2) (edge1Vertex2 - edge1Vertex1);
     let DxC = edge2Vertex2 - edge2Vertex1;
     Some (dot c BxA * dot d BxA < 0 \<and> dot a DxC * dot b DxC < 0 \<and> dot c BxA * dot b DxC > 0)
   }"

text \<open>
  The filter of the face-contact branch as the specification words it: a clipped
  point \<open>p\<close> is kept iff \<open>(p - v_ref) \<cdot> n_ref < 0\<close> for a vertex \<open>v_ref\<close> of the reference
  face (its first vertex, the one the penetration probes use).
\<close>

definition specKeepsClippedPoint ::
  "('a::{zero,one,plus,minus,uminus,times,inverse,ord}) ConvexPolyhedronShape \<Rightarrow> nat \<Rightarrow> 'a Vector3 \<Rightarrow> bool option" where
  "specKeepsClippedPoint referencePolyhedron referenceFaceIndex p = do {
     referenceFace \<leftarrow> getFace referencePolyhedron referenceFaceIndex;
     n_ref \<leftarrow> getFaceNormal referencePolyhedron referenceFaceIndex;
     v0 \<leftarrow> elemAt (faceVertices referenceFace) 0;
     v_ref \<leftarrow> getVertexPosition referencePolyhedron v0;
     Some (dot (p - v_ref) n_ref < 0)
   }"

section \<open>The helpers of the engine, modelled for the concrete runs\<close>

text \<open>
  Modelled from the spec: "polyhedron support (vertex farthest along direction)".  The
  first vertex of largest dot product with the direction.
\<close>

definition supportVertex ::
  "('a::{zero,one,plus,minus,uminus,times,inverse,ord}) Vector3 list \<Rightarrow> 'a Vector3 \<Rightarrow> 'a Vector3" where
  "supportVertex vs direction =
     (case vs of
        [] \<Rightarrow> 0
      | v # rest \<Rightarrow> fold (\<lambda>w best. if dot w direction > dot best direction then w else best) rest v)"

text \<open>
  Modelled from the spec: "normalize \<open>ax\<close>", "\<open>unit(d1 \<times> d2)\<close>".  \<^verbatim>\<open>normalize()\<close> and
  \<^verbatim>\<open>getUnit()\<close> both divide the vector by its length.
\<close>

definition unitVector :: "decimal Vector3 \<Rightarrow> decimal Vector3" where
  "unitVector a = scale a (1 / sqrt (lengthSquare a))"

text \<open>
  Modelled from the spec: "capsule support (includes radius)", for a capsule with its
  axis along local Y and segment end points at \<open>\<plusminus>height/2\<close>: the end point farther along
  the direction, moved by the radius along the unit direction.
\<close>

definition capsuleSupport :: "decimal \<Rightarrow> decimal \<Rightarrow> decimal Vector3 \<Rightarrow> decimal Vector3" where
  "capsuleSupport radius height direction =
     (let halfHeight = height * (1 / 2);
          dotProductTop = halfHeight * vy direction;
          dotProductBottom = - halfHeight * vy direction;
          endPoint = (if dotProductTop > dotProductBottom then Vector3 0 halfHeight 0
                      else Vector3 0 (- halfHeight) 0)
      in endPoint + scale (unitVector direction) radius)"

text \<open>
  Modelled from the spec: the Sutherland--Hodgman polygon clip of section 4.7.  A plane
  is a point and a normal; the inside of a plane is the closed half-space in front of
  it; an edge that crosses the plane contributes its crossing point.
\<close>

definition planeSegmentIntersection ::
  "decimal Vector3 \<Rightarrow> decimal Vector3 \<Rightarrow> decimal Vector3 \<Rightarrow> decimal Vector3
     \<Rightarrow> decimal Vector3" where
  "planeSegmentIntersection v1 v2 planePoint planeNormal =
     (let d1 = dot (v1 - planePoint) planeNormal;
          d2 = dot (v2 - planePoint) planeNormal
      in v1 + scale (v2 - v1) (d1 / (d1 - d2)))"

fun clipPolygonEdges ::
  "decimal Vector3 \<Rightarrow> decimal Vector3 \<Rightarrow> decimal Vector3 \<Rightarrow> decimal Vector3 list
     \<Rightarrow> decimal Vector3 list" where
  "clipPolygonEdges planePoint planeNormal v1 [] = []"
| "clipPolygonEdges planePoint planeNormal v1 (v2 # vs) =
     (if dot (v2 - planePoint) planeNormal \<ge> 0
      then (if dot (v1 - planePoint) planeNormal < 0
            then [planeSegmentIntersection v1 v2 planePoint planeNormal] else []) @ [v2]
      else (if dot (v1 - planePoint) planeNormal \<ge> 0
            then [planeSegmentIntersection v1 v2 planePoint planeNormal] else []))
     @ clipPolygonEdges planePoint planeNormal v2 vs"

fun sutherlandHodgman ::
  "decimal Vector3 list \<Rightarrow> decimal Vector3 list \<Rightarrow> decimal Vector3 list
     \<Rightarrow> decimal Vector3 list" where
  "sutherlandHodgman polygon (planePoint # planesPoints) (planeNormal # planesNormals) =
     sutherlandHodgman
       (case polygon of [] \<Rightarrow> []
        | _ \<Rightarrow> clipPolygonEdges planePoint planeNormal (last polygon) polygon)
       planesPoints planesNormals"
| "sutherlandHodgman polygon _ _ = polygon"

text \<open>
  Modelled from the spec: the segment clip of section 4.6.  The inside of a plane is the
  side of the reference face (behind the twin-face normal), points on the boundary are
  kept, and the result always has two points; a segment wholly outside a plane
  collapses to its end point nearer to the plane.
\<close>

fun clipSegment ::
  "decimal Vector3 \<times> decimal Vector3 \<Rightarrow> decimal Vector3 list \<Rightarrow> decimal Vector3 list
     \<Rightarrow> decimal Vector3 \<times> decimal Vector3" where
  "clipSegment (segA, segB) (planePoint # planesPoints) (planeNormal # planesNormals) =
     (let dA = dot (segA - planePoint) planeNormal;
          dB = dot (segB - planePoint) planeNormal;
          crossing = planeSegmentIntersection segA segB planePoint planeNormal
      in clipSegment
           (if dA \<le> 0 \<and> dB \<le> 0 then (segA, segB)
            else if dA \<le> 0 then (segA, crossing)
            else if dB \<le> 0 then (crossing, segB)
            else if dA \<le> dB then (segA, segA) else (segB, segB))
           planesPoints planesNormals)"
| "clipSegment segment _ _ = segment"

text \<open>
  Modelled from the spec: "closest points between two segments", by clamping the
  parameters of the closest points of the two supporting lines to the segments.
\<close>

definition clamp01 :: "decimal \<Rightarrow> decimal" where
  "clamp01 t = (if t < 0 then 0 else if t > 1 then 1 else t)"

definition closestPointsOfSegments ::
  "decimal Vector3 \<Rightarrow> decimal Vector3 \<Rightarrow> decimal Vector3 \<Rightarrow> decimal Vector3
     \<Rightarrow> decimal Vector3 \<times> decimal Vector3" where
  "closestPointsOfSegments seg1A seg1B seg2A seg2B =
     (let d1 = seg1B - seg1A;
          d2 = seg2B - seg2A;
          r = seg1A - seg2A;
          a = dot d1 d1;
          e = dot d2 d2;
          f = dot d2 r;
          c = dot d1 r;
          b = dot d1 d2;
          denom = a * e - b * b;
          (s, t) =
            (if a = 0 \<and> e = 0 then (0, 0)
             else if a = 0 then (0, clamp01 (f / e))
             else if e = 0 then (clamp01 (- c / a), 0)
             else let s0 = (if denom \<noteq> 0 then clamp01 ((b * f - c * e) / denom) else 0);
                      t0 = (b * s0 + f) / e
                  in if t0 < 0 then (clamp01 (- c / a), 0)
                     else if t0 > 1 then (clamp01 ((b - c) / a), 1)
                     else (s0, t0))
      in (seg1A + scale d1 s, seg2A + scale d2 t))"

text \<open>
  Modelled from the spec: the "parallel-vector predicate", with the parallel-edge
  threshold \<open>1e-5\<close> on the squared length of the cross product.
\<close>

definition parallelVectors :: "decimal Vector3 \<Rightarrow> decimal Vector3 \<Rightarrow> bool" where
  "parallelVectors v1 v2 = (lengthSquare (cross v1 v2) < 1 / 100000)"

definition referenceMath :: "decimal MathFunctions" where
  "referenceMath =
     \<lparr>clipSegmentWithPlanes =
        (\<lambda>segA segB planesPoints planesNormals.
           (let (a, b) = clipSegment (segA, segB) planesPoints planesNormals in [a, b])),
      clipPolygonWithPlanes = sutherlandHodgman,
      computeClosestPointBetweenTwoSegments = closestPointsOfSegments,
      areParallelVectors = parallelVectors,
      getUnit = unitVector\<rparr>"

section \<open>Concrete shapes and calls\<close>

text \<open>
  A tetrahedron with vertices \<open>O = (0,0,0)\<close>, \<open>X = (2,0,0)\<close>, \<open>Y = (0,1,0)\<close>,
  \<open>Z = (0,0,1)\<close>.  Face 0 is \<open>O Y X\<close> (normal \<open>-z\<close>), face 1 is \<open>O X Z\<close> (normal \<open>-y\<close>),
  face 2 is \<open>O Z Y\<close> (normal \<open>-x\<close>), face 3 is \<open>X Y Z\<close> (normal \<open>(1,2,2)/3\<close>); the vertices
  of each face are in counter-clockwise order seen from outside.  Half-edges \<open>2k\<close> and
  \<open>2k+1\<close> are twins:
  0: \<open>O\<rightarrow>Y\<close> (face 0), 1: \<open>Y\<rightarrow>O\<close> (face 2), 2: \<open>Y\<rightarrow>X\<close> (face 0), 3: \<open>X\<rightarrow>Y\<close> (face 3),
  4: \<open>X\<rightarrow>O\<close> (face 0), 5: \<open>O\<rightarrow>X\<close> (face 1), 6: \<open>X\<rightarrow>Z\<close> (face 1), 7: \<open>Z\<rightarrow>X\<close> (face 3),
  8: \<open>Z\<rightarrow>O\<close> (face 1), 9: \<open>O\<rightarrow>Z\<close> (face 2), 10: \<open>Z\<rightarrow>Y\<close> (face 2), 11: \<open>Y\<rightarrow>Z\<close> (face 3).
\<close>

definition tetrahedronVertices :: "decimal Vector3 list" where
  "tetrahedronVertices = [Vector3 0 0 0, Vector3 2 0 0, Vector3 0 1 0, Vector3 0 0 1]"

definition tetrahedron :: "decimal ConvexPolyhedronShape" where
  "tetrahedron =
     \<lparr>getType = CONVEX_POLYHEDRON,
      faces = [\<lparr>edgeIndex = 0, faceVertices = [0, 2, 1]\<rparr>,
               \<lparr>edgeIndex = 5, faceVertices = [0, 1, 3]\<rparr>,
               \<lparr>edgeIndex = 1, faceVertices = [0, 3, 2]\<rparr>,
               \<lparr>edgeIndex = 3, faceVertices = [1, 2, 3]\<rparr>],
      halfEdges = [\<lparr>vertexIndex = 0, twinEdgeIndex = 1, nextEdgeIndex = 2, faceIndex = 0\<rparr>,
                   \<lparr>vertexIndex = 2, twinEdgeIndex = 0, nextEdgeIndex = 9, faceIndex = 2\<rparr>,
                   \<lparr>vertexIndex = 2, twinEdgeIndex = 3, nextEdgeIndex = 4, faceIndex = 0\<rparr>,
                   \<lparr>vertexIndex = 1, twinEdgeIndex = 2, nextEdgeIndex = 11, faceIndex = 3\<rparr>,
                   \<lparr>vertexIndex = 1, twinEdgeIndex = 5, nextEdgeIndex = 0, faceIndex = 0\<rparr>,
                   \<lparr>vertexIndex = 0, twinEdgeIndex = 4, nextEdgeIndex = 6, faceIndex = 1\<rparr>,
                   \<lparr>vertexIndex = 1, twinEdgeIndex = 7, nextEdgeIndex = 8, faceIndex = 1\<rparr>,
                   \<lparr>vertexIndex = 3, twinEdgeIndex = 6, nextEdgeIndex = 3, faceIndex = 3\<rparr>,
                   \<lparr>vertexIndex = 3, twinEdgeIndex = 9, nextEdgeIndex = 5, faceIndex = 1\<rparr>,
                   \<lparr>vertexIndex = 0, twinEdgeIndex = 8, nextEdgeIndex = 10, faceIndex = 2\<rparr>,
                   \<lparr>vertexIndex = 3, twinEdgeIndex = 11, nextEdgeIndex = 1, faceIndex = 2\<rparr>,
                   \<lparr>vertexIndex = 2, twinEdgeIndex = 10, nextEdgeIndex = 7, faceIndex = 3\<rparr>],
      vertices = tetrahedronVertices,
      faceNormals = [Vector3 0 0 (- 1), Vector3 0 (- 1) 0, Vector3 (- 1) 0 0,
                     Vector3 (1 / 3) (2 / 3) (2 / 3)],
      getCentroid = Vector3 (1 / 2) (1 / 4) (1 / 4),
      getLocalSupportPointWithoutMargin = supportVertex tetrahedronVertices\<rparr>"

text \<open>
  A triangle shape: the triangle \<open>(0,0,0)\<close>, \<open>(1,0,0)\<close>, \<open>(0,1,0)\<close> with its two faces,
  face 0 with normal \<open>+z\<close> and face 1 with normal \<open>-z\<close>.
\<close>

definition triangleVertices :: "decimal Vector3 list" where
  "triangleVertices = [Vector3 0 0 0, Vector3 1 0 0, Vector3 0 1 0]"

definition triangle :: "decimal ConvexPolyhedronShape" where
  "triangle =
     \<lparr>getType = TRIANGLE,
      faces = [\<lparr>edgeIndex = 0, faceVertices = [0, 1, 2]\<rparr>,
               \<lparr>edgeIndex = 1, faceVertices = [0, 2, 1]\<rparr>],
      halfEdges = [\<lparr>vertexIndex = 0, twinEdgeIndex = 1, nextEdgeIndex = 2, faceIndex = 0\<rparr>,
                   \<lparr>vertexIndex = 1, twinEdgeIndex = 0, nextEdgeIndex = 5, faceIndex = 1\<rparr>,
                   \<lparr>vertexIndex = 1, twinEdgeIndex = 3, nextEdgeIndex = 4, faceIndex = 0\<rparr>,
                   \<lparr>vertexIndex = 2, twinEdgeIndex = 2, nextEdgeIndex = 1, faceIndex = 1\<rparr>,
                   \<lparr>vertexIndex = 2, twinEdgeIndex = 5, nextEdgeIndex = 0, faceIndex = 0\<rparr>,
                   \<lparr>vertexIndex = 0, twinEdgeIndex = 4, nextEdgeIndex = 3, faceIndex = 1\<rparr>],
      vertices = triangleVertices,
      faceNormals = [Vector3 0 0 1, Vector3 0 0 (- 1)],
      getCentroid = Vector3 (1 / 3) (1 / 3) 0,
      getLocalSupportPointWithoutMargin = supportVertex triangleVertices\<rparr>"

definition unitSphere :: "decimal SphereShape" where
  "unitSphere = \<lparr>getRadius_Sphere = 1 / 10\<rparr>"

definition capsule :: "decimal CapsuleShape" where
  "capsule = \<lparr>getRadius_Capsule = 1 / 10, getHeight = 1,
              getLocalSupportPointWithMargin = capsuleSupport (1 / 10) 1\<rparr>"

definition identityOrientation :: "('a::{zero,one,plus,minus,uminus,times,inverse,ord}) Quaternion" where
  "identityOrientation = Quaternion (Vector3 1 0 0) (Vector3 0 1 0) (Vector3 0 0 1)"

definition translation :: "('a::{zero,one,plus,minus,uminus,times,inverse,ord}) Vector3 \<Rightarrow> 'a Transform" where
  "translation t = Transform t identityOrientation"

text \<open>A record that no frame has filled, and one left by a frame that used SAT.\<close>

definition freshRecord :: LastFrameCollisionInfo where
  "freshRecord =
     \<lparr>isValid = False, wasUsingSAT = False, wasColliding = False,
      satIsAxisFacePolyhedron1 = False, satIsAxisFacePolyhedron2 = False,
      satMinAxisFaceIndex = 7, satMinEdge1Index = 0, satMinEdge2Index = 0\<rparr>"

definition cachedRecord :: "bool \<Rightarrow> bool \<Rightarrow> bool \<Rightarrow> nat \<Rightarrow> nat \<Rightarrow> nat \<Rightarrow> LastFrameCollisionInfo" where
  "cachedRecord colliding face1 face2 faceIdx edge1 edge2 =
     \<lparr>isValid = True, wasUsingSAT = True, wasColliding = colliding,
      satIsAxisFacePolyhedron1 = face1, satIsAxisFacePolyhedron2 = face2,
      satMinAxisFaceIndex = faceIdx, satMinEdge1Index = edge1, satMinEdge2Index = edge2\<rparr>"

text \<open>
  The calls.  Shape 1 is at the given place, a tetrahedron as shape 2 stays at the
  origin unless a place is given for it.
\<close>

definition sphereCall ::
  "decimal ConvexPolyhedronShape \<Rightarrow> decimal Vector3 \<Rightarrow> LastFrameCollisionInfo
     \<Rightarrow> decimal NarrowPhaseInfo" where
  "sphereCall polyhedron center lastFrame =
     \<lparr>collisionShape1 = Sphere unitSphere, collisionShape2 = Polyhedron polyhedron,
      shape1ToWorldTransform = translation center,
      shape2ToWorldTransform = translation 0,
      lastFrameInfo = lastFrame\<rparr>"

definition capsuleCall :: "decimal Vector3 \<Rightarrow> LastFrameCollisionInfo \<Rightarrow> decimal NarrowPhaseInfo" where
  "capsuleCall center lastFrame =
     \<lparr>collisionShape1 = Capsule capsule, collisionShape2 = Polyhedron tetrahedron,
      shape1ToWorldTransform = translation center,
      shape2ToWorldTransform = translation 0,
      lastFrameInfo = lastFrame\<rparr>"

definition polyhedronCall ::
  "decimal Vector3 \<Rightarrow> LastFrameCollisionInfo \<Rightarrow> decimal NarrowPhaseInfo" where
  "polyhedronCall place2 lastFrame =
     \<lparr>collisionShape1 = Polyhedron tetrahedron, collisionShape2 = Polyhedron tetrahedron,
      shape1ToWorldTransform = translation 0,
      shape2ToWorldTransform = translation place2,
      lastFrameInfo = lastFrame\<rparr>"

text \<open>A call of the polyhedron operation on two given meshes, each at its place.\<close>

definition polyhedronPairCall ::
  "('a::{zero,one,plus,minus,uminus,times,inverse,ord}) ConvexPolyhedronShape
     \<Rightarrow> 'a ConvexPolyhedronShape \<Rightarrow> 'a Vector3 \<Rightarrow> 'a Vector3 \<Rightarrow> LastFrameCollisionInfo
     \<Rightarrow> 'a NarrowPhaseInfo" where
  "polyhedronPairCall polyhedron1 polyhedron2 place1 place2 lastFrame =
     \<lparr>collisionShape1 = Polyhedron polyhedron1, collisionShape2 = Polyhedron polyhedron2,
      shape1ToWorldTransform = translation place1,
      shape2ToWorldTransform = translation place2,
      lastFrameInfo = lastFrame\<rparr>"

text \<open>
  A mesh with no face, no half-edge and no vertex.
\<close>

definition emptyPolyhedron :: "('a::{zero,one,plus,minus,uminus,times,inverse,ord}) ConvexPolyhedronShape" where
  "emptyPolyhedron =
     \<lparr>getType = CONVEX_POLYHEDRON, faces = [], halfEdges = [], vertices = [], faceNormals = [],
      getCentroid = 0, getLocalSupportPointWithoutMargin = supportVertex []\<rparr>"

text \<open>What the two unassigned locals of the polyhedron driver hold at their declaration.\<close>

definition leftOnStack :: "nat \<Rightarrow> nat \<Rightarrow> IndeterminateLocals" where
  "leftOnStack a b = \<lparr>indeterminateEdge1Index = a, indeterminateEdge2Index = b\<rparr>"

text \<open>
  The local variables of the polyhedron driver as lines 555--562 declare them, before
  any probe has run.
\<close>

definition initialMinimum_Polyhedron :: "IndeterminateLocals \<Rightarrow> ('a::{zero,one,plus,minus,uminus,times,inverse,ord}) PolyhedronMinAxis" where
  "initialMinimum_Polyhedron indeterminate =
     \<lparr>minPenetrationDepth = DECIMAL_LARGEST, minFaceIndex = 0,
      isMinPenetrationFaceNormal = False,
      isMinPenetrationFaceNormalPolyhedron1 = False,
      minSeparatingEdge1Index = indeterminateEdge1Index indeterminate,
      minSeparatingEdge2Index = indeterminateEdge2Index indeterminate,
      separatingEdge1A = 0, separatingEdge1B = 0,
      separatingEdge2A = 0, separatingEdge2B = 0,
      minEdgeVsEdgeSeparatingAxisPolyhedron2Space = 0\<rparr>"




section \<open>Evaluation rules and basic facts\<close>

lemmas vector_eval = plus_Vector3_def minus_Vector3_def uminus_Vector3_def zero_Vector3_def
  scale_def dot_def cross_def lengthSquare_def rotateVector_def transformPoint_def getInverse_def
  mult_Transform_def mult_Quaternion_def getInverse_Quaternion_def identityOrientation_def
  translation_def

lemmas mesh_eval = getFace_def getHalfEdge_def getVertexPosition_def getFaceNormal_def
  getNbFaces_def getNbHalfEdges_def elemAt_def tetrahedron_def tetrahedronVertices_def
  triangle_def triangleVertices_def emptyPolyhedron_def supportVertex_def edgeVertices_def

lemma decimalOfNat_real: "(decimalOfNat n :: decimal) = of_nat n"
  by (induction n) simp_all

lemma DECIMAL_LARGEST_real:
  "(DECIMAL_LARGEST :: decimal) = 340282346638528859811704183484516925440"
  by (simp add: DECIMAL_LARGEST_def decimalOfNat_real)

lemma BIAS_real: "(SAME_SEPARATING_AXIS_BIAS :: decimal) = 1 / 1000"
  by (simp add: SAME_SEPARATING_AXIS_BIAS_def decimalOfNat_real)

lemma DECIMAL_LARGEST_pos: "0 < (DECIMAL_LARGEST :: decimal)"
  by (simp add: DECIMAL_LARGEST_real)

lemma BIAS_pos: "0 < (SAME_SEPARATING_AXIS_BIAS :: decimal)"
  by (simp add: BIAS_real)

text \<open>The unfolding rules of the three drivers, for runs on concrete shapes.\<close>

lemmas sphere_eval = testCollisionSphereVsConvexPolyhedron_def temporalCoherence_Sphere_def
  faceStep_Sphere_def reportContact_Sphere_def computePolyhedronFaceVsSpherePenetrationDepth_def
  sphereCall_def unitSphere_def cachedRecord_def freshRecord_def addContactPoint_def
  forUpTo.simps DECIMAL_LARGEST_real Let_def

lemmas capsule_eval = testCollisionCapsuleVsConvexPolyhedron_def temporalCoherence_Capsule_def
  fullScan_Capsule_def faceStep_Capsule_def edgeStep_Capsule_def
  computePolyhedronFaceVsCapsulePenetrationDepth_def computeEdgeVsCapsuleInnerSegmentPenetrationDepth_def
  isMinkowskiFaceCapsuleVsEdge_def reportContacts_Capsule_def computeCapsulePolyhedronFaceContactPoints_def
  capsuleCall_def capsule_def capsuleSupport_def unitVector_def forUpTo.simps forUpToBy2.simps
  cachedRecord_def freshRecord_def DECIMAL_LARGEST_real decimalOfNat_real addContactPoint_def Let_def

lemmas poly_eval = testCollisionConvexPolyhedronVsConvexPolyhedron_def temporalCoherence_Polyhedron_def
  testSingleFaceDirectionPolyhedronVsPolyhedron_def reportContacts_Polyhedron_def faceContacts_Polyhedron_def
  findMostAntiParallelFaceOnPolyhedron_def mostAntiParallelLoop.simps referenceMath_def
  polyhedronCall_def polyhedronPairCall_def cachedRecord_def freshRecord_def DECIMAL_LARGEST_real decimalOfNat_real addContactPoint_def
  planeSegmentIntersection_def Let_def

lemmas scan_eval = fullScan_Polyhedron_def testFacesDirectionPolyhedronVsPolyhedron_def
  faceStep_Polyhedron_def testSingleFaceDirectionPolyhedronVsPolyhedron_def
  overrideMinimumWithFace_def edgeStep_Polyhedron_def edgePairStep_Polyhedron_def
  testEdgesBuildMinkowskiFace_def testGaussMapArcsIntersect_def computeDistanceBetweenEdges_def
  referenceMath_def parallelVectors_def unitVector_def forUpTo.simps forUpToBy2.simps
  BIAS_real DECIMAL_LARGEST_real decimalOfNat_real initialMinimum_Polyhedron_def leftOnStack_def
  Let_def

text \<open>
  The edge \<open>X\<rightarrow>Z\<close> of the tetrahedron gives axes of length \<open>sqrt 5\<close>; the comparisons
  of the runs need no more of that number than this.
\<close>

lemma sqrt5_bounds: "2 < sqrt 5" "sqrt 5 < 3"
  by (simp_all add: real_less_rsqrt real_less_lsqrt)

lemma sqrt5_sq: "sqrt 5 * (sqrt 5 * x) = 5 * x"
  by simp







section \<open>The counting loops\<close>

lemma forUpTo_step:
  "i < n \<Longrightarrow> forUpTo n body i s =
     body i s \<bind> (\<lambda>step. case step of Inl r \<Rightarrow> Some (Inl r) | Inr s' \<Rightarrow> forUpTo n body (i + 1) s')"
  by (subst forUpTo.simps) simp

lemma forUpTo_done: "\<not> i < n \<Longrightarrow> forUpTo n body i s = Some (Inr s)"
  by (subst forUpTo.simps) simp

lemma forUpToBy2_step:
  "i < n \<Longrightarrow> forUpToBy2 n body i s =
     body i s \<bind> (\<lambda>step. case step of Inl r \<Rightarrow> Some (Inl r) | Inr s' \<Rightarrow> forUpToBy2 n body (i + 2) s')"
  by (subst forUpToBy2.simps) simp

lemma forUpToBy2_done: "\<not> i < n \<Longrightarrow> forUpToBy2 n body i s = Some (Inr s)"
  by (subst forUpToBy2.simps) simp

lemma forUpTo_Inr_iff:
  "i < n \<Longrightarrow> forUpTo n body i s = Some (Inr s') \<longleftrightarrow>
     (\<exists>t. body i s = Some (Inr t) \<and> forUpTo n body (i + 1) t = Some (Inr s'))"
  by (cases "body i s") (auto simp: forUpTo_step split: sum.splits)

lemma forUpTo_Inl_iff:
  "i < n \<Longrightarrow> forUpTo n body i s = Some (Inl r) \<longleftrightarrow>
     (body i s = Some (Inl r)
      \<or> (\<exists>t. body i s = Some (Inr t) \<and> forUpTo n body (i + 1) t = Some (Inl r)))"
  by (cases "body i s") (auto simp: forUpTo_step split: sum.splits)

lemma forUpToBy2_Inr_iff:
  "i < n \<Longrightarrow> forUpToBy2 n body i s = Some (Inr s') \<longleftrightarrow>
     (\<exists>t. body i s = Some (Inr t) \<and> forUpToBy2 n body (i + 2) t = Some (Inr s'))"
  by (cases "body i s") (auto simp: forUpToBy2_step split: sum.splits)

lemma forUpToBy2_Inl_iff:
  "i < n \<Longrightarrow> forUpToBy2 n body i s = Some (Inl r) \<longleftrightarrow>
     (body i s = Some (Inl r)
      \<or> (\<exists>t. body i s = Some (Inr t) \<and> forUpToBy2 n body (i + 2) t = Some (Inl r)))"
  by (cases "body i s") (auto simp: forUpToBy2_step split: sum.splits)

lemma forUpTo_Inr:
  assumes "forUpTo n body i s = Some (Inr s')" and "I i s" and "i \<le> n"
    and "\<And>j t t'. i \<le> j \<Longrightarrow> j < n \<Longrightarrow> I j t \<Longrightarrow> body j t = Some (Inr t') \<Longrightarrow> I (j + 1) t'"
  shows "I n s'"
  using assms
proof (induction n body i s rule: forUpTo.induct)
  case (1 n body i s)
  show ?case
  proof (cases "i < n")
    case False
    with "1.prems" show ?thesis by (simp add: forUpTo_done)
  next
    case True
    with "1.prems"(1) obtain t where step: "body i s = Some (Inr t)"
      and rest: "forUpTo n body (i + 1) t = Some (Inr s')"
      by (auto simp: forUpTo_Inr_iff)
    have "I (i + 1) t" using "1.prems"(4)[OF _ True "1.prems"(2) step] by simp
    moreover have "\<And>j t t'. i + 1 \<le> j \<Longrightarrow> j < n \<Longrightarrow> I j t \<Longrightarrow> body j t = Some (Inr t') \<Longrightarrow> I (j + 1) t'"
      using "1.prems"(4) by simp
    ultimately show ?thesis
      using "1.IH"[OF True step _ rest] True by simp
  qed
qed

lemma forUpTo_Inl:
  assumes "forUpTo n body i s = Some (Inl r)" and "I i s"
    and "\<And>j t t'. i \<le> j \<Longrightarrow> j < n \<Longrightarrow> I j t \<Longrightarrow> body j t = Some (Inr t') \<Longrightarrow> I (j + 1) t'"
  shows "\<exists>j t. i \<le> j \<and> j < n \<and> I j t \<and> body j t = Some (Inl r)"
  using assms
proof (induction n body i s rule: forUpTo.induct)
  case (1 n body i s)
  show ?case
  proof (cases "i < n")
    case False
    with "1.prems" show ?thesis by (simp add: forUpTo_done)
  next
    case True
    with "1.prems"(1) consider "body i s = Some (Inl r)"
      | t where "body i s = Some (Inr t)" "forUpTo n body (i + 1) t = Some (Inl r)"
      by (auto simp: forUpTo_Inl_iff)
    then show ?thesis
    proof cases
      case 1
      with True "1.prems"(2) show ?thesis by auto
    next
      case 2
      have "I (i + 1) t" using "1.prems"(3)[OF _ True "1.prems"(2) 2(1)] by simp
      moreover have "\<And>j t t'. i + 1 \<le> j \<Longrightarrow> j < n \<Longrightarrow> I j t \<Longrightarrow> body j t = Some (Inr t') \<Longrightarrow> I (j + 1) t'"
        using "1.prems"(3) by simp
      ultimately obtain j u where "i + 1 \<le> j" "j < n" "I j u" "body j u = Some (Inl r)"
        using "1.IH"[OF True 2(1) _ 2(2)] by blast
      then show ?thesis by (intro exI[of _ j] exI[of _ u]) simp
    qed
  qed
qed

lemma forUpToBy2_Inr:
  assumes "forUpToBy2 n body i s = Some (Inr s')" and "I s" and "even i"
    and "\<And>j t t'. even j \<Longrightarrow> j < n \<Longrightarrow> I t \<Longrightarrow> body j t = Some (Inr t') \<Longrightarrow> I t'"
  shows "I s'"
  using assms
proof (induction n body i s rule: forUpToBy2.induct)
  case (1 n body i s)
  show ?case
  proof (cases "i < n")
    case False
    with "1.prems" show ?thesis by (simp add: forUpToBy2_done)
  next
    case True
    with "1.prems"(1) obtain t where step: "body i s = Some (Inr t)"
      and rest: "forUpToBy2 n body (i + 2) t = Some (Inr s')"
      by (auto simp: forUpToBy2_Inr_iff)
    have "I t" using "1.prems"(4)[OF "1.prems"(3) True "1.prems"(2) step] .
    moreover have "even (i + 2)" using "1.prems"(3) by simp
    ultimately show ?thesis
      using "1.IH"[OF True step _ rest] "1.prems"(4) by blast
  qed
qed

lemma forUpToBy2_Inl:
  assumes "forUpToBy2 n body i s = Some (Inl r)" and "I s" and "even i"
    and "\<And>j t t'. even j \<Longrightarrow> j < n \<Longrightarrow> I t \<Longrightarrow> body j t = Some (Inr t') \<Longrightarrow> I t'"
  shows "\<exists>j t. even j \<and> j < n \<and> I t \<and> body j t = Some (Inl r)"
  using assms
proof (induction n body i s rule: forUpToBy2.induct)
  case (1 n body i s)
  show ?case
  proof (cases "i < n")
    case False
    with "1.prems" show ?thesis by (simp add: forUpToBy2_done)
  next
    case True
    with "1.prems"(1) consider "body i s = Some (Inl r)"
      | t where "body i s = Some (Inr t)" "forUpToBy2 n body (i + 2) t = Some (Inl r)"
      by (auto simp: forUpToBy2_Inl_iff)
    then show ?thesis
    proof cases
      case 1
      with True "1.prems"(2,3) show ?thesis by auto
    next
      case 2
      have "I t" using "1.prems"(4)[OF "1.prems"(3) True "1.prems"(2) 2(1)] .
      moreover have "even (i + 2)" using "1.prems"(3) by simp
      ultimately show ?thesis
        using "1.IH"[OF True 2(1) _ 2(2)] "1.prems"(4) by blast
    qed
  qed
qed

lemma forUpTo_Inl_body:
  assumes "forUpTo n body i s = Some (Inl r)"
  shows "\<exists>j t. i \<le> j \<and> j < n \<and> body j t = Some (Inl r)"
proof -
  have "\<exists>j t. i \<le> j \<and> j < n \<and> True \<and> body j t = Some (Inl r)"
    by (rule forUpTo_Inl[OF assms, of "\<lambda>j t. True"]) simp_all
  then show ?thesis by simp
qed

lemma forUpToBy2_Inl_body:
  assumes "forUpToBy2 n body i s = Some (Inl r)" and "even i"
  shows "\<exists>j t. even j \<and> j < n \<and> body j t = Some (Inl r)"
proof -
  have "\<exists>j t. even j \<and> j < n \<and> True \<and> body j t = Some (Inl r)"
    by (rule forUpToBy2_Inl[OF assms(1), of "\<lambda>t. True"]) (simp_all add: assms(2))
  then show ?thesis by simp
qed

section \<open>The sphere driver\<close>

lemma temporalCoherence_Sphere_cases:
  assumes "temporalCoherence_Sphere P S c l = Some coh"
  shows "(coh = Separated \<and> getType P \<noteq> TRIANGLE \<and> isValid l \<and> wasUsingSAT l
            \<and> (\<exists>d. computePolyhedronFaceVsSpherePenetrationDepth (satMinAxisFaceIndex l) P S c = Some d
                   \<and> d \<le> 0))
       \<or> (\<exists>m. coh = Coherent m \<and> \<not> minPenetrationDepth m \<le> 0 \<and> getType P \<noteq> TRIANGLE)
       \<or> coh = Incoherent"
  using assms unfolding temporalCoherence_Sphere_def
  by (auto split: if_splits bind_splits)

lemma temporalCoherence_Sphere_Separated:
  assumes "temporalCoherence_Sphere P S c l = Some coh"
    and "getType P \<noteq> TRIANGLE" and "isValid l" and "wasUsingSAT l"
    and "computePolyhedronFaceVsSpherePenetrationDepth (satMinAxisFaceIndex l) P S c = Some d"
    and "d \<le> 0"
  shows "coh = Separated"
  using assms unfolding temporalCoherence_Sphere_def by simp

lemma faceStep_Sphere_Inl:
  "faceStep_Sphere P S c f m = Some (Inl ws)
     \<Longrightarrow> ws = [Set_satMinAxisFaceIndex f]
         \<and> (\<exists>d. computePolyhedronFaceVsSpherePenetrationDepth f P S c = Some d \<and> d \<le> 0)"
  unfolding faceStep_Sphere_def by (auto split: if_splits bind_splits)

lemma faceStep_Sphere_Inr:
  "faceStep_Sphere P S c f m = Some (Inr m')
     \<Longrightarrow> \<exists>d. computePolyhedronFaceVsSpherePenetrationDepth f P S c = Some d \<and> \<not> d \<le> 0
           \<and> (if d < minPenetrationDepth m
               then m' = m\<lparr>minPenetrationDepth := d, minFaceIndex := f\<rparr> else m' = m)"
  unfolding faceStep_Sphere_def by (auto split: if_splits bind_splits)

lemma sphere_scan_Inl:
  assumes "forUpTo n (faceStep_Sphere P S c) 0 m0 = Some (Inl ws)"
  shows "\<exists>f < n. ws = [Set_satMinAxisFaceIndex f]
           \<and> (\<exists>d. computePolyhedronFaceVsSpherePenetrationDepth f P S c = Some d \<and> d \<le> 0)
           \<and> (\<forall>g < f. \<exists>d. computePolyhedronFaceVsSpherePenetrationDepth g P S c = Some d
                           \<and> \<not> d \<le> 0)"
proof -
  let ?I = "\<lambda>(j::nat) (s::'a MinFace).
     \<forall>g < j. \<exists>d. computePolyhedronFaceVsSpherePenetrationDepth g P S c = Some d \<and> \<not> d \<le> 0"
  have "\<exists>j t. 0 \<le> j \<and> j < n \<and> ?I j t \<and> faceStep_Sphere P S c j t = Some (Inl ws)"
  proof (rule forUpTo_Inl[OF assms, of ?I])
    show "?I 0 m0" by simp
    fix j t t' assume "?I j t" and "faceStep_Sphere P S c j t = Some (Inr t')"
    with faceStep_Sphere_Inr[of P S c j t t'] show "?I (j + 1) t'"
      by (auto simp: less_Suc_eq)
  qed
  then obtain j t where j: "j < n" "?I j t" "faceStep_Sphere P S c j t = Some (Inl ws)"
    by blast
  from faceStep_Sphere_Inl[OF j(3)] j(1,2) show ?thesis by blast
qed

lemma sphere_scan_Inr_depth:
  assumes "forUpTo n (faceStep_Sphere P S c) 0 m0 = Some (Inr m)"
    and "\<not> minPenetrationDepth m0 \<le> 0"
  shows "\<not> minPenetrationDepth m \<le> 0"
proof (rule forUpTo_Inr[OF assms(1), of "\<lambda>j t. \<not> minPenetrationDepth t \<le> 0"])
  show "\<not> minPenetrationDepth m0 \<le> 0" by fact
  show "0 \<le> n" by simp
  fix j t t' assume "\<not> minPenetrationDepth t \<le> 0" and "faceStep_Sphere P S c j t = Some (Inr t')"
  with faceStep_Sphere_Inr[of P S c j t t'] show "\<not> minPenetrationDepth t' \<le> 0"
    by (auto split: if_splits)
qed

lemma sphere_scan_Inr_minimum:
  fixes m0 :: "decimal MinFace"
  assumes "forUpTo n (faceStep_Sphere P S c) 0 m0 = Some (Inr m)"
  shows "(\<forall>g < n. \<exists>d. computePolyhedronFaceVsSpherePenetrationDepth g P S c = Some d
                     \<and> 0 < d \<and> minPenetrationDepth m \<le> d)
       \<and> (m = m0
          \<or> (minFaceIndex m < n
             \<and> computePolyhedronFaceVsSpherePenetrationDepth (minFaceIndex m) P S c
                 = Some (minPenetrationDepth m)
             \<and> (\<forall>g < minFaceIndex m.
                   \<exists>d. computePolyhedronFaceVsSpherePenetrationDepth g P S c = Some d
                       \<and> minPenetrationDepth m < d)
             \<and> minPenetrationDepth m < minPenetrationDepth m0))"
proof -
  let ?probe = "\<lambda>g. computePolyhedronFaceVsSpherePenetrationDepth g P S c"
  let ?I = "\<lambda>j s. (\<forall>g < j. \<exists>d. ?probe g = Some d \<and> 0 < d \<and> minPenetrationDepth s \<le> d)
       \<and> minPenetrationDepth s \<le> minPenetrationDepth m0
       \<and> (s = m0
          \<or> (minFaceIndex s < j \<and> ?probe (minFaceIndex s) = Some (minPenetrationDepth s)
             \<and> (\<forall>g < minFaceIndex s. \<exists>d. ?probe g = Some d \<and> minPenetrationDepth s < d)
             \<and> minPenetrationDepth s < minPenetrationDepth m0))"
  have "?I n m"
  proof (rule forUpTo_Inr[OF assms, of ?I])
    show "?I 0 m0" by simp
    show "0 \<le> n" by simp
    fix j u u' assume j: "j < n" and u: "?I j u"
      and step: "faceStep_Sphere P S c j u = Some (Inr u')"
    from faceStep_Sphere_Inr[OF step] obtain d where
      d: "?probe j = Some d" "0 < d"
      and upd: "d < minPenetrationDepth u \<and> u' = u\<lparr>minPenetrationDepth := d, minFaceIndex := j\<rparr>
              \<or> \<not> d < minPenetrationDepth u \<and> u' = u"
      by (auto split: if_splits)
    from upd show "?I (j + 1) u'"
    proof
      assume new: "d < minPenetrationDepth u \<and> u' = u\<lparr>minPenetrationDepth := d, minFaceIndex := j\<rparr>"
      have all: "\<forall>g < j. \<exists>e. ?probe g = Some e \<and> 0 < e \<and> d < e"
        using u new by fastforce
      have 1: "\<forall>g < j + 1. \<exists>e. ?probe g = Some e \<and> 0 < e \<and> minPenetrationDepth u' \<le> e"
        using all d new by (auto simp: less_Suc_eq)
      have 2: "minPenetrationDepth u' < minPenetrationDepth m0"
        using u new by auto
      have 3: "minFaceIndex u' < j + 1 \<and> ?probe (minFaceIndex u') = Some (minPenetrationDepth u')
             \<and> (\<forall>g < minFaceIndex u'. \<exists>e. ?probe g = Some e \<and> minPenetrationDepth u' < e)"
        using all d new by auto
      from 1 2 3 show ?thesis by simp
    next
      assume old: "\<not> d < minPenetrationDepth u \<and> u' = u"
      have 1: "\<forall>g < j + 1. \<exists>e. ?probe g = Some e \<and> 0 < e \<and> minPenetrationDepth u' \<le> e"
        using u d old by (auto simp: less_Suc_eq)
      from 1 u old show ?thesis by (auto simp: less_Suc_eq)
    qed
  qed
  then show ?thesis by blast
qed

lemma reportContact_Sphere_Some:
  assumes "reportContact_Sphere b S P t1 t2 c m = Some out"
  shows "\<exists>cp. out = \<lparr>returned = True, lastFrameWrites = [Set_satMinAxisFaceIndex (minFaceIndex m)],
                     contactPoints = [cp]\<rparr> \<and> contactDepth cp = minPenetrationDepth m"
  using assms unfolding reportContact_Sphere_def Let_def addContactPoint_def
  by (auto simp: bind_eq_Some_conv)

lemma sphere_polyhedron_type:
  assumes "asSphere (if getType_Shape (collisionShape1 npi) = SPHERE
            then collisionShape1 npi else collisionShape2 npi) = Some sphere"
    and "asPolyhedron (if getType_Shape (collisionShape1 npi) = SPHERE
            then collisionShape2 npi else collisionShape1 npi) = Some polyhedron"
  shows "involvesTriangle npi \<longleftrightarrow> getType polyhedron = TRIANGLE"
  using assms
  by (cases "collisionShape1 npi"; cases "collisionShape2 npi")
     (auto simp: involvesTriangle_def split: if_splits)

text \<open>The driver, taken apart into its prelude, the probe of the cache, the scan and the report.\<close>

lemma sphere_stages:
  fixes npi :: "('a::{zero,one,plus,minus,uminus,times,inverse,ord}) NarrowPhaseInfo"
  defines "b \<equiv> getType_Shape (collisionShape1 npi) = SPHERE"
  defines "t1 \<equiv> if b then shape1ToWorldTransform npi else shape2ToWorldTransform npi"
  defines "t2 \<equiv> if b then shape2ToWorldTransform npi else shape1ToWorldTransform npi"
  defines "center \<equiv> getPosition (mult_Transform (getInverse t2) t1)"
  assumes run: "testCollisionSphereVsConvexPolyhedron npi = Some out"
  shows "\<exists>sphere polyhedron coh.
      asSphere (if b then collisionShape1 npi else collisionShape2 npi) = Some sphere
    \<and> asPolyhedron (if b then collisionShape2 npi else collisionShape1 npi) = Some polyhedron
    \<and> polyhedronOfSpherePair npi = Some polyhedron
    \<and> (\<forall>f. faceDepth_Sphere npi f
              = computePolyhedronFaceVsSpherePenetrationDepth f polyhedron sphere center)
    \<and> temporalCoherence_Sphere polyhedron sphere center (lastFrameInfo npi) = Some coh
    \<and> (case coh of
         Separated \<Rightarrow> Some \<lparr>returned = False, lastFrameWrites = [], contactPoints = []\<rparr>
       | Coherent m \<Rightarrow> reportContact_Sphere b sphere polyhedron t1 t2 center m
       | Incoherent \<Rightarrow>
           forUpTo (getNbFaces polyhedron) (faceStep_Sphere polyhedron sphere center) 0
             \<lparr>minPenetrationDepth = DECIMAL_LARGEST, minFaceIndex = 0\<rparr> \<bind>
           (\<lambda>scan. case scan of
              Inl ws \<Rightarrow> Some \<lparr>returned = False, lastFrameWrites = ws, contactPoints = []\<rparr>
            | Inr m \<Rightarrow> reportContact_Sphere b sphere polyhedron t1 t2 center m)) = Some out"
proof -
  from run obtain sphere polyhedron coh where
    sp: "asSphere (if b then collisionShape1 npi else collisionShape2 npi) = Some sphere"
    and po: "asPolyhedron (if b then collisionShape2 npi else collisionShape1 npi) = Some polyhedron"
    and coh: "temporalCoherence_Sphere polyhedron sphere center (lastFrameInfo npi) = Some coh"
    and rest: "(case coh of
         Separated \<Rightarrow> Some \<lparr>returned = False, lastFrameWrites = [], contactPoints = []\<rparr>
       | Coherent m \<Rightarrow> reportContact_Sphere b sphere polyhedron t1 t2 center m
       | Incoherent \<Rightarrow>
           forUpTo (getNbFaces polyhedron) (faceStep_Sphere polyhedron sphere center) 0
             \<lparr>minPenetrationDepth = DECIMAL_LARGEST, minFaceIndex = 0\<rparr> \<bind>
           (\<lambda>scan. case scan of
              Inl ws \<Rightarrow> Some \<lparr>returned = False, lastFrameWrites = ws, contactPoints = []\<rparr>
            | Inr m \<Rightarrow> reportContact_Sphere b sphere polyhedron t1 t2 center m)) = Some out"
    unfolding testCollisionSphereVsConvexPolyhedron_def Let_def b_def t1_def t2_def center_def
    by (auto simp: bind_eq_Some_conv)
  have "polyhedronOfSpherePair npi = Some polyhedron"
    using po unfolding polyhedronOfSpherePair_def b_def .
  moreover have "faceDepth_Sphere npi f
       = computePolyhedronFaceVsSpherePenetrationDepth f polyhedron sphere center" for f
    using sp po unfolding faceDepth_Sphere_def Let_def b_def t1_def t2_def center_def
    by simp
  ultimately show ?thesis using sp po coh rest by blast
qed

lemma sphere_outcome:
  fixes npi :: "('a::{zero,one,plus,minus,uminus,times,inverse,ord}) NarrowPhaseInfo"
  assumes run: "testCollisionSphereVsConvexPolyhedron npi = Some out"
  shows "(out = \<lparr>returned = False, lastFrameWrites = [], contactPoints = []\<rparr>
            \<and> cachedAxisStillSeparating SphereVsConvexPolyhedron math npi)
       \<or> (\<not> cachedAxisStillSeparating SphereVsConvexPolyhedron math npi
          \<and> ((\<exists>f. out = \<lparr>returned = False, lastFrameWrites = [Set_satMinAxisFaceIndex f],
                          contactPoints = []\<rparr>)
             \<or> (\<exists>f c. out = \<lparr>returned = True, lastFrameWrites = [Set_satMinAxisFaceIndex f],
                              contactPoints = [c]\<rparr>
                    \<and> (\<not> (DECIMAL_LARGEST :: 'a) \<le> 0 \<longrightarrow> \<not> contactDepth c \<le> 0))))"
proof -
  from sphere_stages[OF run] obtain sphere polyhedron center b t1 t2 coh where
    sp: "asSphere (if getType_Shape (collisionShape1 npi) = SPHERE
            then collisionShape1 npi else collisionShape2 npi) = Some sphere"
    and po: "asPolyhedron (if getType_Shape (collisionShape1 npi) = SPHERE
            then collisionShape2 npi else collisionShape1 npi) = Some polyhedron"
    and depth: "\<And>f. faceDepth_Sphere npi f
              = computePolyhedronFaceVsSpherePenetrationDepth f polyhedron sphere center"
    and coh: "temporalCoherence_Sphere polyhedron sphere center (lastFrameInfo npi) = Some coh"
    and rest: "(case coh of
         Separated \<Rightarrow> Some \<lparr>returned = False, lastFrameWrites = [], contactPoints = []\<rparr>
       | Coherent m \<Rightarrow> reportContact_Sphere b sphere polyhedron t1 t2 center m
       | Incoherent \<Rightarrow>
           forUpTo (getNbFaces polyhedron) (faceStep_Sphere polyhedron sphere center) 0
             \<lparr>minPenetrationDepth = DECIMAL_LARGEST, minFaceIndex = 0\<rparr> \<bind>
           (\<lambda>scan. case scan of
              Inl ws \<Rightarrow> Some \<lparr>returned = False, lastFrameWrites = ws, contactPoints = []\<rparr>
            | Inr m \<Rightarrow> reportContact_Sphere b sphere polyhedron t1 t2 center m)) = Some out"
    by blast
  have tri: "involvesTriangle npi \<longleftrightarrow> getType polyhedron = TRIANGLE"
    using sp po by (rule sphere_polyhedron_type)
  let ?exit = "cachedAxisStillSeparating SphereVsConvexPolyhedron math npi"
  have exit_iff: "?exit \<longleftrightarrow> coh = Separated"
  proof
    assume ?exit
    then obtain d where "getType polyhedron \<noteq> TRIANGLE" "isValid (lastFrameInfo npi)"
      "wasUsingSAT (lastFrameInfo npi)"
      "computePolyhedronFaceVsSpherePenetrationDepth (satMinAxisFaceIndex (lastFrameInfo npi))
         polyhedron sphere center = Some d" "d \<le> 0"
      unfolding cachedAxisStillSeparating_def cachedAxisDepth.simps cachedAxisDepth_Sphere_def
      using tri depth by (auto split: option.splits)
    with coh show "coh = Separated" by (rule temporalCoherence_Sphere_Separated)
  next
    assume "coh = Separated"
    with temporalCoherence_Sphere_cases[OF coh] tri depth show ?exit
      unfolding cachedAxisStillSeparating_def cachedAxisDepth.simps cachedAxisDepth_Sphere_def
      by auto
  qed
  show ?thesis
  proof (cases coh)
    case Separated
    with rest exit_iff show ?thesis by simp
  next
    case (Coherent m)
    with temporalCoherence_Sphere_cases[OF coh] have pos: "\<not> minPenetrationDepth m \<le> 0" by simp
    from rest Coherent have "reportContact_Sphere b sphere polyhedron t1 t2 center m = Some out"
      by simp
    from reportContact_Sphere_Some[OF this] pos exit_iff Coherent show ?thesis by auto
  next
    case Incoherent
    with rest obtain scan where
      scan: "forUpTo (getNbFaces polyhedron) (faceStep_Sphere polyhedron sphere center) 0
               \<lparr>minPenetrationDepth = DECIMAL_LARGEST, minFaceIndex = 0\<rparr> = Some scan"
      and fin: "(case scan of
              Inl ws \<Rightarrow> Some \<lparr>returned = False, lastFrameWrites = ws, contactPoints = []\<rparr>
            | Inr m \<Rightarrow> reportContact_Sphere b sphere polyhedron t1 t2 center m) = Some out"
      by (auto simp: bind_eq_Some_conv)
    show ?thesis
    proof (cases scan)
      case (Inl ws)
      from sphere_scan_Inl[OF scan[unfolded Inl]]
      obtain k where "ws = [Set_satMinAxisFaceIndex k]" by blast
      with fin Inl exit_iff Incoherent show ?thesis by auto
    next
      case (Inr m)
      have "\<not> (DECIMAL_LARGEST :: 'a) \<le> 0 \<longrightarrow> \<not> minPenetrationDepth m \<le> 0"
        using sphere_scan_Inr_depth[OF scan[unfolded Inr]] by simp
      moreover from fin Inr have "reportContact_Sphere b sphere polyhedron t1 t2 center m = Some out"
        by simp
      ultimately show ?thesis using reportContact_Sphere_Some exit_iff Incoherent by fastforce
    qed
  qed
qed

lemma sphere_triangle_ignores_record:
  assumes "involvesTriangle npi"
  shows "testCollisionSphereVsConvexPolyhedron (npi\<lparr>lastFrameInfo := l\<rparr>)
           = testCollisionSphereVsConvexPolyhedron npi"
  using assms
  by (cases "collisionShape1 npi"; cases "collisionShape2 npi")
     (auto simp: testCollisionSphereVsConvexPolyhedron_def involvesTriangle_def
        temporalCoherence_Sphere_def Let_def)

text \<open>The stored face index on a triangle, where the cache is not probed.\<close>

lemma sphere_triangle_outcome:
  fixes npi :: "decimal NarrowPhaseInfo"
  assumes run: "testCollisionSphereVsConvexPolyhedron npi = Some out"
    and tri: "involvesTriangle npi"
  shows "\<exists>polyhedron f. polyhedronOfSpherePair npi = Some polyhedron
     \<and> lastFrameWrites out = [Set_satMinAxisFaceIndex f]
     \<and> (if returned out
        then (\<exists>c. contactPoints out = [c]
               \<and> (\<forall>g < getNbFaces polyhedron. \<exists>d. faceDepth_Sphere npi g = Some d
                      \<and> 0 < d \<and> contactDepth c \<le> d)
               \<and> (contactDepth c = DECIMAL_LARGEST \<and> f = 0
                  \<or> f < getNbFaces polyhedron \<and> faceDepth_Sphere npi f = Some (contactDepth c)
                    \<and> (\<forall>g < f. \<exists>d. faceDepth_Sphere npi g = Some d \<and> contactDepth c < d)))
        else contactPoints out = [] \<and> f < getNbFaces polyhedron
             \<and> (\<exists>d. faceDepth_Sphere npi f = Some d \<and> d \<le> 0)
             \<and> (\<forall>g < f. \<exists>d. faceDepth_Sphere npi g = Some d \<and> 0 < d))"
proof -
  from sphere_stages[OF run] obtain sphere polyhedron center b t1 t2 coh where
    sp: "asSphere (if getType_Shape (collisionShape1 npi) = SPHERE
            then collisionShape1 npi else collisionShape2 npi) = Some sphere"
    and po: "asPolyhedron (if getType_Shape (collisionShape1 npi) = SPHERE
            then collisionShape2 npi else collisionShape1 npi) = Some polyhedron"
    and pair: "polyhedronOfSpherePair npi = Some polyhedron"
    and depth: "\<And>f. faceDepth_Sphere npi f
              = computePolyhedronFaceVsSpherePenetrationDepth f polyhedron sphere center"
    and coh: "temporalCoherence_Sphere polyhedron sphere center (lastFrameInfo npi) = Some coh"
    and rest: "(case coh of
         Separated \<Rightarrow> Some \<lparr>returned = False, lastFrameWrites = [], contactPoints = []\<rparr>
       | Coherent m \<Rightarrow> reportContact_Sphere b sphere polyhedron t1 t2 center m
       | Incoherent \<Rightarrow>
           forUpTo (getNbFaces polyhedron) (faceStep_Sphere polyhedron sphere center) 0
             \<lparr>minPenetrationDepth = DECIMAL_LARGEST, minFaceIndex = 0\<rparr> \<bind>
           (\<lambda>scan. case scan of
              Inl ws \<Rightarrow> Some \<lparr>returned = False, lastFrameWrites = ws, contactPoints = []\<rparr>
            | Inr m \<Rightarrow> reportContact_Sphere b sphere polyhedron t1 t2 center m)) = Some out"
    by blast
  have "getType polyhedron = TRIANGLE"
    using sphere_polyhedron_type[OF sp po] tri by simp
  with coh have "coh = Incoherent" by (simp add: temporalCoherence_Sphere_def)
  with rest obtain scan where
    scan: "forUpTo (getNbFaces polyhedron) (faceStep_Sphere polyhedron sphere center) 0
             \<lparr>minPenetrationDepth = DECIMAL_LARGEST, minFaceIndex = 0\<rparr> = Some scan"
    and fin: "(case scan of
            Inl ws \<Rightarrow> Some \<lparr>returned = False, lastFrameWrites = ws, contactPoints = []\<rparr>
          | Inr m \<Rightarrow> reportContact_Sphere b sphere polyhedron t1 t2 center m) = Some out"
    by (auto simp: bind_eq_Some_conv)
  show ?thesis
  proof (cases scan)
    case (Inl ws)
    from sphere_scan_Inl[OF scan[unfolded Inl]] obtain f where
      f: "f < getNbFaces polyhedron" "ws = [Set_satMinAxisFaceIndex f]"
      "\<exists>d. faceDepth_Sphere npi f = Some d \<and> d \<le> 0"
      "\<forall>g < f. \<exists>d. faceDepth_Sphere npi g = Some d \<and> 0 < d"
      unfolding depth by (auto simp: not_le)
    from fin Inl have "out = \<lparr>returned = False, lastFrameWrites = ws, contactPoints = []\<rparr>"
      by simp
    with f pair show ?thesis by auto
  next
    case (Inr m)
    from fin Inr have "reportContact_Sphere b sphere polyhedron t1 t2 center m = Some out"
      by simp
    from reportContact_Sphere_Some[OF this] obtain c where
      out: "out = \<lparr>returned = True, lastFrameWrites = [Set_satMinAxisFaceIndex (minFaceIndex m)],
                   contactPoints = [c]\<rparr>"
      and c: "contactDepth c = minPenetrationDepth m"
      by blast
    from sphere_scan_Inr_minimum[OF scan[unfolded Inr]]
    have min: "\<forall>g < getNbFaces polyhedron. \<exists>d. faceDepth_Sphere npi g = Some d
                     \<and> 0 < d \<and> contactDepth c \<le> d"
      and arg: "contactDepth c = DECIMAL_LARGEST \<and> minFaceIndex m = 0
          \<or> minFaceIndex m < getNbFaces polyhedron
            \<and> faceDepth_Sphere npi (minFaceIndex m) = Some (contactDepth c)
            \<and> (\<forall>g < minFaceIndex m. \<exists>d. faceDepth_Sphere npi g = Some d \<and> contactDepth c < d)"
      unfolding depth c by auto
    from out min arg pair show ?thesis by auto
  qed
qed

section \<open>The capsule driver\<close>

lemma temporalCoherence_Capsule_cases:
  assumes "temporalCoherence_Capsule math P C t a m l = Some coh"
  shows "(coh = Separated \<and> getType P \<noteq> TRIANGLE \<and> isValid l \<and> wasUsingSAT l
            \<and> (\<exists>d. cachedAxisProbe_Capsule math P C t a l = Some d \<and> d \<le> 0))
       \<or> (\<exists>m'. coh = Coherent m' \<and> \<not> minPenetrationDepth m' \<le> 0
             \<and> (minEdgeIndex m' = minEdgeIndex m \<or> minEdgeIndex m' = satMinEdge1Index l))
       \<or> coh = Incoherent"
  using assms unfolding temporalCoherence_Capsule_def cachedAxisProbe_Capsule_def Let_def
  by (auto split: if_splits bind_splits prod.splits)

lemma temporalCoherence_Capsule_Separated:
  assumes "temporalCoherence_Capsule math P C t a m l = Some coh"
    and "getType P \<noteq> TRIANGLE" and "isValid l" and "wasUsingSAT l"
    and "cachedAxisProbe_Capsule math P C t a l = Some d" and "d \<le> 0"
  shows "coh = Separated"
  using assms unfolding temporalCoherence_Capsule_def cachedAxisProbe_Capsule_def Let_def
  by (auto split: if_splits bind_splits prod.splits)

lemma faceStep_Capsule_Inl:
  "faceStep_Capsule P C t f m = Some (Inl ws)
     \<Longrightarrow> ws = [Set_satIsAxisFacePolyhedron1 True, Set_satMinAxisFaceIndex f]"
  unfolding faceStep_Capsule_def by (auto split: if_splits bind_splits prod.splits)

lemma faceStep_Capsule_Inr:
  "faceStep_Capsule P C t f m = Some (Inr m') \<Longrightarrow> \<not> minPenetrationDepth m \<le> 0
     \<Longrightarrow> \<not> minPenetrationDepth m' \<le> 0"
  "faceStep_Capsule P C t f m = Some (Inr m') \<Longrightarrow> minEdgeIndex m' = minEdgeIndex m"
  unfolding faceStep_Capsule_def by (auto split: if_splits bind_splits prod.splits)

lemma edgeStep_Capsule_Inl:
  "edgeStep_Capsule math P C t a e m = Some (Inl ws)
     \<Longrightarrow> ws = [Set_satIsAxisFacePolyhedron1 False, Set_satMinEdge1Index e]"
  unfolding edgeStep_Capsule_def Let_def
  by (auto simp: bind_eq_Some_conv split: if_splits prod.splits)

lemma edgeStep_Capsule_Inr:
  "edgeStep_Capsule math P C t a e m = Some (Inr m') \<Longrightarrow> \<not> minPenetrationDepth m \<le> 0
     \<Longrightarrow> \<not> minPenetrationDepth m' \<le> 0"
  "edgeStep_Capsule math P C t a e m = Some (Inr m')
     \<Longrightarrow> minEdgeIndex m' = minEdgeIndex m \<or> minEdgeIndex m' = e"
  unfolding edgeStep_Capsule_def Let_def
  by (auto simp: bind_eq_Some_conv split: if_splits prod.splits)

lemma fullScan_Capsule_Inl:
  assumes "fullScan_Capsule math P C t a m = Some (Inl ws)"
  shows "(\<exists>f. ws = [Set_satIsAxisFacePolyhedron1 True, Set_satMinAxisFaceIndex f])
       \<or> (\<exists>e. even e \<and> ws = [Set_satIsAxisFacePolyhedron1 False, Set_satMinEdge1Index e])"
proof -
  from assms obtain r where
    faces: "forUpTo (getNbFaces P) (faceStep_Capsule P C t) 0 m = Some r"
    and rest: "(case r of Inl ws \<Rightarrow> Some (Inl ws)
                | Inr m' \<Rightarrow> forUpToBy2 (getNbHalfEdges P) (edgeStep_Capsule math P C t a) 0 m')
               = Some (Inl ws)"
    unfolding fullScan_Capsule_def by (auto simp: bind_eq_Some_conv)
  show ?thesis
  proof (cases r)
    case (Inl ws')
    with rest have "ws' = ws" by simp
    with faces Inl have "forUpTo (getNbFaces P) (faceStep_Capsule P C t) 0 m = Some (Inl ws)"
      by simp
    from forUpTo_Inl_body[OF this] obtain j u where
      "faceStep_Capsule P C t j u = Some (Inl ws)" by blast
    from faceStep_Capsule_Inl[OF this] show ?thesis by simp
  next
    case (Inr m')
    with rest have "forUpToBy2 (getNbHalfEdges P) (edgeStep_Capsule math P C t a) 0 m' = Some (Inl ws)"
      by simp
    from forUpToBy2_Inl_body[OF this] obtain j u where
      "even j" "edgeStep_Capsule math P C t a j u = Some (Inl ws)" by auto
    with edgeStep_Capsule_Inl[OF this(2)] show ?thesis by simp
  qed
qed

lemma fullScan_Capsule_Inr:
  assumes "fullScan_Capsule math P C t a m = Some (Inr m')" and "even (minEdgeIndex m)"
  shows "(\<not> minPenetrationDepth m \<le> 0 \<longrightarrow> \<not> minPenetrationDepth m' \<le> 0)
       \<and> even (minEdgeIndex m')"
proof -
  have "\<exists>m1. forUpTo (getNbFaces P) (faceStep_Capsule P C t) 0 m = Some (Inr m1)
     \<and> forUpToBy2 (getNbHalfEdges P) (edgeStep_Capsule math P C t a) 0 m1 = Some (Inr m')"
  proof -
    from assms(1) obtain r where
      r: "forUpTo (getNbFaces P) (faceStep_Capsule P C t) 0 m = Some r"
      and rest: "(case r of Inl ws \<Rightarrow> Some (Inl ws)
                  | Inr m1 \<Rightarrow> forUpToBy2 (getNbHalfEdges P) (edgeStep_Capsule math P C t a) 0 m1)
                 = Some (Inr m')"
      unfolding fullScan_Capsule_def by (auto simp: bind_eq_Some_conv)
    then show ?thesis by (cases r) auto
  qed
  then obtain m1 where
    faces: "forUpTo (getNbFaces P) (faceStep_Capsule P C t) 0 m = Some (Inr m1)"
    and edges: "forUpToBy2 (getNbHalfEdges P) (edgeStep_Capsule math P C t a) 0 m1 = Some (Inr m')"
    by blast
  let ?I = "\<lambda>u. (\<not> minPenetrationDepth m \<le> 0 \<longrightarrow> \<not> minPenetrationDepth u \<le> 0)
                \<and> even (minEdgeIndex u)"
  have "?I m1"
  proof (rule forUpTo_Inr[OF faces, of "\<lambda>j. ?I"])
    show "?I m" using assms(2) by simp
    show "0 \<le> getNbFaces P" by simp
    fix j u u' assume "?I u" and "faceStep_Capsule P C t j u = Some (Inr u')"
    then show "?I u'" using faceStep_Capsule_Inr[of P C t j u u'] by auto
  qed
  show ?thesis
  proof (rule forUpToBy2_Inr[OF edges, of ?I])
    show "?I m1" by fact
    show "even (0::nat)" by simp
    fix j u u' assume "even (j::nat)" "?I u" and "edgeStep_Capsule math P C t a j u = Some (Inr u')"
    then show "?I u'" using edgeStep_Capsule_Inr[of math P C t a j u u'] by auto
  qed
qed

lemma computeCapsulePolyhedronFaceContactPoints_Some:
  assumes "computeCapsulePolyhedronFaceContactPoints math f r P depth t n ax sa sb b = Some cs"
  shows "\<exists>c1 c2. cs = [c1, c2] \<and> contactDepth c1 = depth \<and> contactDepth c2 = depth"
  using assms unfolding computeCapsulePolyhedronFaceContactPoints_def Let_def addContactPoint_def
  by (auto simp: bind_eq_Some_conv split: prod.splits)

lemma reportContacts_Capsule_Some:
  assumes "reportContacts_Capsule math b C P tw t sa sb m = Some out"
  shows "(\<exists>c1 c2. out = \<lparr>returned = True,
                        lastFrameWrites = [Set_satIsAxisFacePolyhedron1 True,
                                           Set_satMinAxisFaceIndex (minFaceIndex m)],
                        contactPoints = [c1, c2]\<rparr>
             \<and> contactDepth c1 = minPenetrationDepth m \<and> contactDepth c2 = minPenetrationDepth m)
       \<or> (\<exists>c. out = \<lparr>returned = True,
                      lastFrameWrites = [Set_satIsAxisFacePolyhedron1 False,
                                         Set_satMinEdge1Index (minEdgeIndex m)],
                      contactPoints = [c]\<rparr>
             \<and> contactDepth c = minPenetrationDepth m)"
proof (cases "isMinPenetrationFaceNormal m")
  case True
  with assms obtain cs where
    cs: "computeCapsulePolyhedronFaceContactPoints math (minFaceIndex m) (getRadius_Capsule C) P
           (minPenetrationDepth m) t (rotateVector (getOrientation tw) (separatingAxisCapsuleSpace m))
           (separatingAxisCapsuleSpace m) (transformPoint (getInverse t) sa)
           (transformPoint (getInverse t) sb) b = Some cs"
    and out: "out = \<lparr>returned = True,
                     lastFrameWrites = [Set_satIsAxisFacePolyhedron1 True,
                                        Set_satMinAxisFaceIndex (minFaceIndex m)],
                     contactPoints = cs\<rparr>"
    unfolding reportContacts_Capsule_def Let_def by (auto simp: bind_eq_Some_conv)
  from computeCapsulePolyhedronFaceContactPoints_Some[OF cs] out show ?thesis by auto
next
  case False
  with assms show ?thesis
    unfolding reportContacts_Capsule_def Let_def addContactPoint_def
    by (auto split: prod.splits)
qed

lemma capsule_polyhedron_type:
  assumes "asCapsule (if getType_Shape (collisionShape1 npi) = CAPSULE
            then collisionShape1 npi else collisionShape2 npi) = Some capsuleShape"
    and "asPolyhedron (if getType_Shape (collisionShape1 npi) = CAPSULE
            then collisionShape2 npi else collisionShape1 npi) = Some polyhedron"
  shows "involvesTriangle npi \<longleftrightarrow> getType polyhedron = TRIANGLE"
  using assms
  by (cases "collisionShape1 npi"; cases "collisionShape2 npi")
     (auto simp: involvesTriangle_def split: if_splits)

lemma capsule_stages:
  fixes npi :: "('a::{zero,one,plus,minus,uminus,times,inverse,ord}) NarrowPhaseInfo"
  defines "b \<equiv> getType_Shape (collisionShape1 npi) = CAPSULE"
  defines "tw \<equiv> if b then shape1ToWorldTransform npi else shape2ToWorldTransform npi"
  defines "pw \<equiv> if b then shape2ToWorldTransform npi else shape1ToWorldTransform npi"
  defines "t \<equiv> mult_Transform (getInverse tw) pw"
  assumes run: "testCollisionCapsuleVsConvexPolyhedron math npi = Some out"
  shows "\<exists>capsuleShape polyhedron coh sa sb initial.
      asCapsule (if b then collisionShape1 npi else collisionShape2 npi) = Some capsuleShape
    \<and> asPolyhedron (if b then collisionShape2 npi else collisionShape1 npi) = Some polyhedron
    \<and> initial = \<lparr>minPenetrationDepth = DECIMAL_LARGEST, minFaceIndex = 0,
                   isMinPenetrationFaceNormal = False, minEdgeIndex = 0,
                   separatingAxisCapsuleSpace = 0,
                   separatingPolyhedronEdgeVertex1 = 0,
                   separatingPolyhedronEdgeVertex2 = 0\<rparr>
    \<and> cachedAxisDepth_Capsule math npi
        = cachedAxisProbe_Capsule math polyhedron capsuleShape t (sb - sa) (lastFrameInfo npi)
    \<and> temporalCoherence_Capsule math polyhedron capsuleShape t (sb - sa) initial (lastFrameInfo npi)
        = Some coh
    \<and> (case coh of
         Separated \<Rightarrow> Some \<lparr>returned = False, lastFrameWrites = [], contactPoints = []\<rparr>
       | Coherent m \<Rightarrow> reportContacts_Capsule math b capsuleShape polyhedron tw t sa sb m
       | Incoherent \<Rightarrow>
           fullScan_Capsule math polyhedron capsuleShape t (sb - sa) initial \<bind>
           (\<lambda>scan. case scan of
              Inl ws \<Rightarrow> Some \<lparr>returned = False, lastFrameWrites = ws, contactPoints = []\<rparr>
            | Inr m \<Rightarrow> reportContacts_Capsule math b capsuleShape polyhedron tw t sa sb m)) = Some out"
proof -
  from run obtain capsuleShape polyhedron where
    ca: "asCapsule (if b then collisionShape1 npi else collisionShape2 npi) = Some capsuleShape"
    and po: "asPolyhedron (if b then collisionShape2 npi else collisionShape1 npi) = Some polyhedron"
    unfolding testCollisionCapsuleVsConvexPolyhedron_def Let_def b_def
    by (auto simp: bind_eq_Some_conv)
  define sa where "sa = Vector3 0 (- getHeight capsuleShape * (1 / decimalOfNat 2)) 0"
  define sb where "sb = Vector3 0 (getHeight capsuleShape * (1 / decimalOfNat 2)) 0"
  define initial :: "'a CapsuleMinAxis" where "initial =
     \<lparr>minPenetrationDepth = DECIMAL_LARGEST, minFaceIndex = 0,
      isMinPenetrationFaceNormal = False, minEdgeIndex = 0,
      separatingAxisCapsuleSpace = 0,
      separatingPolyhedronEdgeVertex1 = 0,
      separatingPolyhedronEdgeVertex2 = 0\<rparr>"
  from run ca po obtain coh where
    coh: "temporalCoherence_Capsule math polyhedron capsuleShape t (sb - sa) initial (lastFrameInfo npi)
        = Some coh"
    and rest: "(case coh of
         Separated \<Rightarrow> Some \<lparr>returned = False, lastFrameWrites = [], contactPoints = []\<rparr>
       | Coherent m \<Rightarrow> reportContacts_Capsule math b capsuleShape polyhedron tw t sa sb m
       | Incoherent \<Rightarrow>
           fullScan_Capsule math polyhedron capsuleShape t (sb - sa) initial \<bind>
           (\<lambda>scan. case scan of
              Inl ws \<Rightarrow> Some \<lparr>returned = False, lastFrameWrites = ws, contactPoints = []\<rparr>
            | Inr m \<Rightarrow> reportContacts_Capsule math b capsuleShape polyhedron tw t sa sb m)) = Some out"
    unfolding testCollisionCapsuleVsConvexPolyhedron_def Let_def b_def tw_def pw_def t_def
      sa_def sb_def initial_def
    by (auto simp: bind_eq_Some_conv)
  have "cachedAxisDepth_Capsule math npi
        = cachedAxisProbe_Capsule math polyhedron capsuleShape t (sb - sa) (lastFrameInfo npi)"
    using ca po unfolding cachedAxisDepth_Capsule_def Let_def b_def tw_def pw_def t_def
      sa_def sb_def
    by simp
  with ca po coh rest initial_def show ?thesis by blast
qed

lemma capsule_outcome:
  fixes npi :: "('a::{zero,one,plus,minus,uminus,times,inverse,ord}) NarrowPhaseInfo"
  assumes run: "testCollisionCapsuleVsConvexPolyhedron math npi = Some out"
  shows "(out = \<lparr>returned = False, lastFrameWrites = [], contactPoints = []\<rparr>
            \<and> cachedAxisStillSeparating CapsuleVsConvexPolyhedron math npi)
       \<or> (\<not> cachedAxisStillSeparating CapsuleVsConvexPolyhedron math npi
          \<and> ((\<exists>f. out = \<lparr>returned = False,
                      lastFrameWrites = [Set_satIsAxisFacePolyhedron1 True, Set_satMinAxisFaceIndex f],
                      contactPoints = []\<rparr>)
       \<or> (\<exists>e. even e \<and> out = \<lparr>returned = False,
                      lastFrameWrites = [Set_satIsAxisFacePolyhedron1 False, Set_satMinEdge1Index e],
                      contactPoints = []\<rparr>)
       \<or> (\<exists>f c1 c2. out = \<lparr>returned = True,
                      lastFrameWrites = [Set_satIsAxisFacePolyhedron1 True, Set_satMinAxisFaceIndex f],
                      contactPoints = [c1, c2]\<rparr>
             \<and> (\<not> (DECIMAL_LARGEST :: 'a) \<le> 0
                  \<longrightarrow> \<not> contactDepth c1 \<le> 0 \<and> \<not> contactDepth c2 \<le> 0))
       \<or> (\<exists>e c. (even e \<or> e = satMinEdge1Index (lastFrameInfo npi))
             \<and> out = \<lparr>returned = True,
                      lastFrameWrites = [Set_satIsAxisFacePolyhedron1 False, Set_satMinEdge1Index e],
                      contactPoints = [c]\<rparr>
             \<and> (\<not> (DECIMAL_LARGEST :: 'a) \<le> 0 \<longrightarrow> \<not> contactDepth c \<le> 0))))"
proof -
  from capsule_stages[OF run] obtain capsuleShape polyhedron coh sa sb initial b tw t where
    ca: "asCapsule (if getType_Shape (collisionShape1 npi) = CAPSULE
            then collisionShape1 npi else collisionShape2 npi) = Some capsuleShape"
    and po: "asPolyhedron (if getType_Shape (collisionShape1 npi) = CAPSULE
            then collisionShape2 npi else collisionShape1 npi) = Some polyhedron"
    and initial: "initial = \<lparr>minPenetrationDepth = (DECIMAL_LARGEST :: 'a), minFaceIndex = 0,
                   isMinPenetrationFaceNormal = False, minEdgeIndex = 0,
                   separatingAxisCapsuleSpace = 0,
                   separatingPolyhedronEdgeVertex1 = 0,
                   separatingPolyhedronEdgeVertex2 = 0\<rparr>"
    and depth: "cachedAxisDepth_Capsule math npi
        = cachedAxisProbe_Capsule math polyhedron capsuleShape t (sb - sa) (lastFrameInfo npi)"
    and coh: "temporalCoherence_Capsule math polyhedron capsuleShape t (sb - sa) initial
                (lastFrameInfo npi) = Some coh"
    and rest: "(case coh of
         Separated \<Rightarrow> Some \<lparr>returned = False, lastFrameWrites = [], contactPoints = []\<rparr>
       | Coherent m \<Rightarrow> reportContacts_Capsule math b capsuleShape polyhedron tw t sa sb m
       | Incoherent \<Rightarrow>
           fullScan_Capsule math polyhedron capsuleShape t (sb - sa) initial \<bind>
           (\<lambda>scan. case scan of
              Inl ws \<Rightarrow> Some \<lparr>returned = False, lastFrameWrites = ws, contactPoints = []\<rparr>
            | Inr m \<Rightarrow> reportContacts_Capsule math b capsuleShape polyhedron tw t sa sb m)) = Some out"
    by blast
  have init: "minPenetrationDepth initial = DECIMAL_LARGEST" "minEdgeIndex initial = 0"
    by (simp_all add: initial)
  have tri: "involvesTriangle npi \<longleftrightarrow> getType polyhedron = TRIANGLE"
    using ca po by (rule capsule_polyhedron_type)
  let ?exit = "cachedAxisStillSeparating CapsuleVsConvexPolyhedron math npi"
  have exit_iff: "?exit \<longleftrightarrow> coh = Separated"
  proof
    assume ?exit
    then obtain d where "getType polyhedron \<noteq> TRIANGLE" "isValid (lastFrameInfo npi)"
      "wasUsingSAT (lastFrameInfo npi)"
      "cachedAxisProbe_Capsule math polyhedron capsuleShape t (sb - sa) (lastFrameInfo npi) = Some d"
      "d \<le> 0"
      unfolding cachedAxisStillSeparating_def cachedAxisDepth.simps
      using tri depth by (auto split: option.splits)
    with coh show "coh = Separated" by (rule temporalCoherence_Capsule_Separated)
  next
    assume "coh = Separated"
    with temporalCoherence_Capsule_cases[OF coh] tri depth show ?exit
      unfolding cachedAxisStillSeparating_def cachedAxisDepth.simps
      by auto
  qed
  have report: ?thesis
    if rep: "reportContacts_Capsule math b capsuleShape polyhedron tw t sa sb m = Some out"
      and pos: "\<not> (DECIMAL_LARGEST :: 'a) \<le> 0 \<longrightarrow> \<not> minPenetrationDepth m \<le> 0"
      and idx: "even (minEdgeIndex m) \<or> minEdgeIndex m = satMinEdge1Index (lastFrameInfo npi)"
      and noexit: "coh \<noteq> Separated" for m
    using reportContacts_Capsule_Some[OF rep] pos idx noexit exit_iff
    by (elim disjE exE conjE) simp_all
  from temporalCoherence_Capsule_cases[OF coh] consider
    (separated) "coh = Separated"
    | (coherent) m where "coh = Coherent m" "\<not> minPenetrationDepth m \<le> 0"
      "minEdgeIndex m = minEdgeIndex initial \<or> minEdgeIndex m = satMinEdge1Index (lastFrameInfo npi)"
    | (incoherent) "coh = Incoherent"
    by blast
  then show ?thesis
  proof cases
    case separated
    with rest exit_iff show ?thesis by simp
  next
    case (coherent m)
    note c = coherent(1) and pos = coherent(2)
    from coherent(3) have idx: "even (minEdgeIndex m) \<or> minEdgeIndex m = satMinEdge1Index (lastFrameInfo npi)"
      using init by auto
    from rest c have "reportContacts_Capsule math b capsuleShape polyhedron tw t sa sb m = Some out"
      by simp
    then show ?thesis using pos idx c by (intro report) blast+
  next
    case incoherent
    with rest obtain scan where
      scan: "fullScan_Capsule math polyhedron capsuleShape t (sb - sa) initial = Some scan"
      and fin: "(case scan of
              Inl ws \<Rightarrow> Some \<lparr>returned = False, lastFrameWrites = ws, contactPoints = []\<rparr>
            | Inr m \<Rightarrow> reportContacts_Capsule math b capsuleShape polyhedron tw t sa sb m) = Some out"
      by (auto simp: bind_eq_Some_conv)
    show ?thesis
    proof (cases scan)
      case (Inl ws)
      with fin have "out = \<lparr>returned = False, lastFrameWrites = ws, contactPoints = []\<rparr>" by simp
      with fullScan_Capsule_Inl[OF scan[unfolded Inl]] exit_iff incoherent show ?thesis by auto
    next
      case (Inr m)
      from fullScan_Capsule_Inr[OF scan[unfolded Inr]] init
      have pos: "\<not> (DECIMAL_LARGEST :: 'a) \<le> 0 \<longrightarrow> \<not> minPenetrationDepth m \<le> 0"
        and idx: "even (minEdgeIndex m)" by simp_all
      from fin Inr have "reportContacts_Capsule math b capsuleShape polyhedron tw t sa sb m = Some out"
        by simp
      then show ?thesis using pos idx incoherent by (intro report) blast+
    qed
  qed
qed

section \<open>The polyhedron driver\<close>

lemma temporalCoherence_Polyhedron_cases:
  assumes "temporalCoherence_Polyhedron math P1 P2 t12 t21 m l = Some coh"
  shows "(coh = Separated \<and> getType P1 \<noteq> TRIANGLE \<and> getType P2 \<noteq> TRIANGLE
            \<and> isValid l \<and> wasUsingSAT l
            \<and> (\<exists>d. cachedAxisProbe_Polyhedron math P1 P2 t12 t21 l = Some d \<and> d \<le> 0))
       \<or> (\<exists>m'. coh = Coherent m' \<and> \<not> minPenetrationDepth m' \<le> 0
             \<and> (isMinPenetrationFaceNormal m'
                \<or> minSeparatingEdge1Index m' = satMinEdge1Index l
                  \<and> minSeparatingEdge2Index m' = satMinEdge2Index l))
       \<or> coh = Incoherent"
  using assms unfolding temporalCoherence_Polyhedron_def cachedAxisProbe_Polyhedron_def Let_def
  by (auto split: if_splits bind_splits prod.splits)

lemma temporalCoherence_Polyhedron_Separated:
  assumes "temporalCoherence_Polyhedron math P1 P2 t12 t21 m l = Some coh"
    and "getType P1 \<noteq> TRIANGLE" and "getType P2 \<noteq> TRIANGLE" and "isValid l" and "wasUsingSAT l"
    and "cachedAxisProbe_Polyhedron math P1 P2 t12 t21 l = Some d" and "d \<le> 0"
  shows "coh = Separated"
  using assms unfolding temporalCoherence_Polyhedron_def cachedAxisProbe_Polyhedron_def Let_def
  by (auto split: if_splits bind_splits prod.splits)

lemma contactsBelowReferenceFace_depth:
  "c \<in> set (contactsBelowReferenceFace v n t nw depth b ps) \<Longrightarrow> contactDepth c = depth"
  by (induction ps) (auto simp: addContactPoint_def Let_def split: if_splits)

lemma faceContacts_Polyhedron_depth:
  assumes "faceContacts_Polyhedron math P1 P2 t12 t21 w1 w2 m = Some cs" and "c \<in> set cs"
  shows "contactDepth c = minPenetrationDepth m"
proof -
  from assms(1) obtain v n t nw b ps where
    "cs = contactsBelowReferenceFace v n t nw (minPenetrationDepth m) b ps"
    unfolding faceContacts_Polyhedron_def Let_def
    by (auto simp: bind_eq_Some_conv split: prod.splits)
  with assms(2) show ?thesis by (simp add: contactsBelowReferenceFace_depth)
qed

lemma reportContacts_Polyhedron_Some:
  assumes "reportContacts_Polyhedron math P1 P2 t12 t21 w1 w2 m = Some out"
  shows "(isMinPenetrationFaceNormal m \<and> (\<exists>cs. out = \<lparr>returned = True,
             lastFrameWrites =
               [Set_satIsAxisFacePolyhedron1 (isMinPenetrationFaceNormalPolyhedron1 m),
                Set_satIsAxisFacePolyhedron2 (\<not> isMinPenetrationFaceNormalPolyhedron1 m),
                Set_satMinAxisFaceIndex (minFaceIndex m)],
             contactPoints = cs\<rparr>
           \<and> (\<forall>c \<in> set cs. contactDepth c = minPenetrationDepth m)))
       \<or> (\<not> isMinPenetrationFaceNormal m \<and> (\<exists>c.
             out = \<lparr>returned = True,
                lastFrameWrites = [Set_satIsAxisFacePolyhedron1 False,
                                   Set_satIsAxisFacePolyhedron2 False,
                                   Set_satMinEdge1Index (minSeparatingEdge1Index m),
                                   Set_satMinEdge2Index (minSeparatingEdge2Index m)],
                contactPoints = [c]\<rparr>
           \<and> contactDepth c = minPenetrationDepth m))"
proof (cases "isMinPenetrationFaceNormal m")
  case True
  with assms obtain cs where
    cs: "faceContacts_Polyhedron math P1 P2 t12 t21 w1 w2 m = Some cs"
    and out: "out = \<lparr>returned = True,
             lastFrameWrites =
               [Set_satIsAxisFacePolyhedron1 (isMinPenetrationFaceNormalPolyhedron1 m),
                Set_satIsAxisFacePolyhedron2 (\<not> isMinPenetrationFaceNormalPolyhedron1 m),
                Set_satMinAxisFaceIndex (minFaceIndex m)],
             contactPoints = cs\<rparr>"
    unfolding reportContacts_Polyhedron_def by (auto simp: bind_eq_Some_conv)
  from faceContacts_Polyhedron_depth[OF cs] out True show ?thesis by simp
next
  case False
  with assms show ?thesis
    unfolding reportContacts_Polyhedron_def Let_def addContactPoint_def
    by (auto simp: bind_eq_Some_conv split: prod.splits)
qed

lemma edgePairStep_Polyhedron_Inl:
  "edgePairStep_Polyhedron math P1 P2 t i e1 a b j m = Some (Inl ws)
     \<Longrightarrow> ws = [Set_satIsAxisFacePolyhedron1 False, Set_satIsAxisFacePolyhedron2 False,
               Set_satMinEdge1Index i, Set_satMinEdge2Index j]"
  unfolding edgePairStep_Polyhedron_def Let_def
  by (auto simp: bind_eq_Some_conv split: if_splits prod.splits)

lemma edgePairStep_Polyhedron_Inr:
  "edgePairStep_Polyhedron math P1 P2 t i e1 a b j m = Some (Inr m')
     \<Longrightarrow> m' = m
       \<or> (\<not> minPenetrationDepth m' \<le> 0
          \<and> minPenetrationDepth m' < minPenetrationDepth m - SAME_SEPARATING_AXIS_BIAS
          \<and> \<not> isMinPenetrationFaceNormal m'
          \<and> minSeparatingEdge1Index m' = i \<and> minSeparatingEdge2Index m' = j)"
  unfolding edgePairStep_Polyhedron_def Let_def
  by (auto simp: bind_eq_Some_conv split: if_splits prod.splits)

lemma edgeStep_Polyhedron_Inl:
  assumes "edgeStep_Polyhedron math P1 P2 t i m = Some (Inl ws)"
  shows "\<exists>j. even j \<and> ws = [Set_satIsAxisFacePolyhedron1 False, Set_satIsAxisFacePolyhedron2 False,
                             Set_satMinEdge1Index i, Set_satMinEdge2Index j]"
proof -
  from assms obtain e1 a b where
    "forUpToBy2 (getNbHalfEdges P2) (edgePairStep_Polyhedron math P1 P2 t i e1 a b) 0 m = Some (Inl ws)"
    unfolding edgeStep_Polyhedron_def Let_def
    by (auto simp: bind_eq_Some_conv split: prod.splits)
  from forUpToBy2_Inl_body[OF this] obtain j u where
    "even j" "edgePairStep_Polyhedron math P1 P2 t i e1 a b j u = Some (Inl ws)" by auto
  with edgePairStep_Polyhedron_Inl[OF this(2)] show ?thesis by blast
qed

text \<open>
  What the loops over the edge pairs keep: a minimum that is not \<open>\<le> 0\<close>, and either
  the minimum they started from or one adopted from a pair of even half-edges.
\<close>

lemma edgeStep_Polyhedron_Inr:
  assumes "edgeStep_Polyhedron math P1 P2 t i m = Some (Inr m')" and "even i"
  shows "(\<not> minPenetrationDepth m \<le> 0 \<longrightarrow> \<not> minPenetrationDepth m' \<le> 0)
       \<and> (m' = m \<or> \<not> isMinPenetrationFaceNormal m'
                     \<and> even (minSeparatingEdge1Index m') \<and> even (minSeparatingEdge2Index m'))"
proof -
  from assms(1) obtain e1 a b where
    loop: "forUpToBy2 (getNbHalfEdges P2) (edgePairStep_Polyhedron math P1 P2 t i e1 a b) 0 m
             = Some (Inr m')"
    unfolding edgeStep_Polyhedron_def Let_def
    by (auto simp: bind_eq_Some_conv split: prod.splits)
  let ?I = "\<lambda>u. (\<not> minPenetrationDepth m \<le> 0 \<longrightarrow> \<not> minPenetrationDepth u \<le> 0)
       \<and> (u = m \<or> \<not> isMinPenetrationFaceNormal u
                     \<and> even (minSeparatingEdge1Index u) \<and> even (minSeparatingEdge2Index u))"
  show ?thesis
  proof (rule forUpToBy2_Inr[OF loop, of ?I])
    show "?I m" by simp
    show "even (0::nat)" by simp
    fix j u u' assume j: "even (j::nat)" and u: "?I u"
      and step: "edgePairStep_Polyhedron math P1 P2 t i e1 a b j u = Some (Inr u')"
    from edgePairStep_Polyhedron_Inr[OF step] show "?I u'"
    proof
      assume "u' = u" with u show ?thesis by simp
    next
      assume "\<not> minPenetrationDepth u' \<le> 0
          \<and> minPenetrationDepth u' < minPenetrationDepth u - SAME_SEPARATING_AXIS_BIAS
          \<and> \<not> isMinPenetrationFaceNormal u'
          \<and> minSeparatingEdge1Index u' = i \<and> minSeparatingEdge2Index u' = j"
      with j assms(2) show ?thesis by simp
    qed
  qed
qed

lemma edgesLoop_Polyhedron_Inl:
  assumes "forUpToBy2 n (edgeStep_Polyhedron math P1 P2 t) 0 m = Some (Inl ws)"
  shows "\<exists>i j. even i \<and> even j
          \<and> ws = [Set_satIsAxisFacePolyhedron1 False, Set_satIsAxisFacePolyhedron2 False,
                  Set_satMinEdge1Index i, Set_satMinEdge2Index j]"
proof -
  from forUpToBy2_Inl_body[OF assms] obtain i u where
    "even i" "edgeStep_Polyhedron math P1 P2 t i u = Some (Inl ws)" by auto
  with edgeStep_Polyhedron_Inl[OF this(2)] show ?thesis by blast
qed

lemma edgesLoop_Polyhedron_Inr:
  assumes loop: "forUpToBy2 n (edgeStep_Polyhedron math P1 P2 t) 0 m = Some (Inr m')"
  shows "(\<not> minPenetrationDepth m \<le> 0 \<longrightarrow> \<not> minPenetrationDepth m' \<le> 0)
       \<and> (m' = m \<or> \<not> isMinPenetrationFaceNormal m'
                     \<and> even (minSeparatingEdge1Index m') \<and> even (minSeparatingEdge2Index m'))"
proof -
  let ?I = "\<lambda>u. (\<not> minPenetrationDepth m \<le> 0 \<longrightarrow> \<not> minPenetrationDepth u \<le> 0)
       \<and> (u = m \<or> \<not> isMinPenetrationFaceNormal u
                     \<and> even (minSeparatingEdge1Index u) \<and> even (minSeparatingEdge2Index u))"
  show ?thesis
  proof (rule forUpToBy2_Inr[OF loop, of ?I])
    show "?I m" by simp
    show "even (0::nat)" by simp
    fix i u u' assume i: "even (i::nat)" and u: "?I u"
      and step: "edgeStep_Polyhedron math P1 P2 t i u = Some (Inr u')"
    from edgeStep_Polyhedron_Inr[OF step i] u show "?I u'" by auto
  qed
qed

lemma overrideMinimumWithFace_Some:
  assumes "overrideMinimumWithFace b d i m = Some m'"
  shows "(\<not> d < minPenetrationDepth m - SAME_SEPARATING_AXIS_BIAS \<and> m' = m)
       \<or> (d < minPenetrationDepth m - SAME_SEPARATING_AXIS_BIAS
          \<and> minPenetrationDepth m' = d \<and> isMinPenetrationFaceNormal m'
          \<and> isMinPenetrationFaceNormalPolyhedron1 m' = b \<and> i = Some (minFaceIndex m')
          \<and> minSeparatingEdge1Index m' = minSeparatingEdge1Index m
          \<and> minSeparatingEdge2Index m' = minSeparatingEdge2Index m)"
  using assms unfolding overrideMinimumWithFace_def
  by (auto simp: bind_eq_Some_conv split: if_splits)

lemma fullScan_Polyhedron_stages:
  assumes "fullScan_Polyhedron math P1 P2 t12 t21 m = Some r"
  shows "\<exists>D1 i1. testFacesDirectionPolyhedronVsPolyhedron P1 P2 t12 None = Some (D1, i1)
     \<and> ((D1 \<le> 0 \<and> (\<exists>f. r = Inl [Set_satIsAxisFacePolyhedron1 True,
                                    Set_satIsAxisFacePolyhedron2 False, Set_satMinAxisFaceIndex f]))
        \<or> (\<not> D1 \<le> 0 \<and> (\<exists>m1 D2 i2. overrideMinimumWithFace True D1 i1 m = Some m1
             \<and> testFacesDirectionPolyhedronVsPolyhedron P2 P1 t21 i1 = Some (D2, i2)
             \<and> ((D2 \<le> 0 \<and> (\<exists>f. r = Inl [Set_satIsAxisFacePolyhedron1 False,
                                            Set_satIsAxisFacePolyhedron2 True, Set_satMinAxisFaceIndex f]))
                \<or> (\<not> D2 \<le> 0 \<and> (\<exists>m2. overrideMinimumWithFace False D2 i2 m1 = Some m2
                     \<and> forUpToBy2 (getNbHalfEdges P1) (edgeStep_Polyhedron math P1 P2 t12) 0 m2
                         = Some r))))))"
  using assms unfolding fullScan_Polyhedron_def
  by (auto simp: bind_eq_Some_conv split: if_splits)

lemma fullScan_Polyhedron_Inl:
  assumes "fullScan_Polyhedron math P1 P2 t12 t21 m = Some (Inl ws)"
  shows "(\<exists>b f. ws = [Set_satIsAxisFacePolyhedron1 b, Set_satIsAxisFacePolyhedron2 (\<not> b),
                      Set_satMinAxisFaceIndex f])
       \<or> (\<exists>i j. even i \<and> even j
             \<and> ws = [Set_satIsAxisFacePolyhedron1 False, Set_satIsAxisFacePolyhedron2 False,
                     Set_satMinEdge1Index i, Set_satMinEdge2Index j])"
proof -
  from fullScan_Polyhedron_stages[OF assms] consider
    (face1) f where "ws = [Set_satIsAxisFacePolyhedron1 True, Set_satIsAxisFacePolyhedron2 False,
                           Set_satMinAxisFaceIndex f]"
    | (face2) f where "ws = [Set_satIsAxisFacePolyhedron1 False, Set_satIsAxisFacePolyhedron2 True,
                             Set_satMinAxisFaceIndex f]"
    | (edges) m2 where
      "forUpToBy2 (getNbHalfEdges P1) (edgeStep_Polyhedron math P1 P2 t12) 0 m2 = Some (Inl ws)"
    by auto
  then show ?thesis
  proof cases
    case face1
    then show ?thesis by (intro disjI1 exI[of _ True]) simp
  next
    case face2
    then show ?thesis by (intro disjI1 exI[of _ False]) simp
  next
    case edges
    from edgesLoop_Polyhedron_Inl[OF this] show ?thesis by blast
  qed
qed

text \<open>
  The minimum a full scan ends with, when no axis separates: it is not \<open>\<le> 0\<close>, and it
  is a face normal, or a pair of even half-edges, or still the minimum the scan
  started from, no axis having been adopted.
\<close>

lemma fullScan_Polyhedron_Inr:
  assumes "fullScan_Polyhedron math P1 P2 t12 t21 m = Some (Inr m')"
  shows "(\<not> minPenetrationDepth m \<le> 0 \<longrightarrow> \<not> minPenetrationDepth m' \<le> 0)
       \<and> (isMinPenetrationFaceNormal m'
          \<or> even (minSeparatingEdge1Index m') \<and> even (minSeparatingEdge2Index m')
          \<or> m' = m)"
proof -
  from fullScan_Polyhedron_stages[OF assms(1)] obtain D1 i1 D2 i2 m1 m2 where
    D1: "\<not> D1 \<le> 0" and m1: "overrideMinimumWithFace True D1 i1 m = Some m1"
    and D2: "\<not> D2 \<le> 0" and m2: "overrideMinimumWithFace False D2 i2 m1 = Some m2"
    and loop: "forUpToBy2 (getNbHalfEdges P1) (edgeStep_Polyhedron math P1 P2 t12) 0 m2 = Some (Inr m')"
    by auto
  from overrideMinimumWithFace_Some[OF m1] D1
  have 1: "\<not> minPenetrationDepth m \<le> 0 \<longrightarrow> \<not> minPenetrationDepth m1 \<le> 0"
    "isMinPenetrationFaceNormal m1 \<or> m1 = m" by auto
  from overrideMinimumWithFace_Some[OF m2] D2 1
  have 2: "\<not> minPenetrationDepth m \<le> 0 \<longrightarrow> \<not> minPenetrationDepth m2 \<le> 0"
    "isMinPenetrationFaceNormal m2 \<or> m2 = m" by auto
  from edgesLoop_Polyhedron_Inr[OF loop] 2 show ?thesis by auto
qed

lemma polyhedron_pair_type:
  assumes "asPolyhedron (collisionShape1 npi) = Some P1"
    and "asPolyhedron (collisionShape2 npi) = Some P2"
  shows "involvesTriangle npi \<longleftrightarrow> getType P1 = TRIANGLE \<or> getType P2 = TRIANGLE"
  using assms
  by (cases "collisionShape1 npi"; cases "collisionShape2 npi")
     (auto simp: involvesTriangle_def)

lemma polyhedron_stages:
  fixes npi :: "('a::{zero,one,plus,minus,uminus,times,inverse,ord}) NarrowPhaseInfo"
  defines "t12 \<equiv> mult_Transform (getInverse (shape2ToWorldTransform npi)) (shape1ToWorldTransform npi)"
  defines "t21 \<equiv> getInverse t12"
  assumes run: "testCollisionConvexPolyhedronVsConvexPolyhedron math indeterminate npi = Some out"
  shows "\<exists>P1 P2 coh.
      asPolyhedron (collisionShape1 npi) = Some P1
    \<and> asPolyhedron (collisionShape2 npi) = Some P2
    \<and> cachedAxisDepth_Polyhedron math npi
        = cachedAxisProbe_Polyhedron math P1 P2 t12 t21 (lastFrameInfo npi)
    \<and> temporalCoherence_Polyhedron math P1 P2 t12 t21 (initialMinimum_Polyhedron indeterminate)
        (lastFrameInfo npi) = Some coh
    \<and> (case coh of
         Separated \<Rightarrow> Some \<lparr>returned = False, lastFrameWrites = [], contactPoints = []\<rparr>
       | Coherent m \<Rightarrow> reportContacts_Polyhedron math P1 P2 t12 t21
                         (shape1ToWorldTransform npi) (shape2ToWorldTransform npi) m
       | Incoherent \<Rightarrow>
           fullScan_Polyhedron math P1 P2 t12 t21 (initialMinimum_Polyhedron indeterminate) \<bind>
           (\<lambda>scan. case scan of
              Inl ws \<Rightarrow> Some \<lparr>returned = False, lastFrameWrites = ws, contactPoints = []\<rparr>
            | Inr m \<Rightarrow> reportContacts_Polyhedron math P1 P2 t12 t21
                         (shape1ToWorldTransform npi) (shape2ToWorldTransform npi) m)) = Some out"
proof -
  from run obtain P1 P2 where
    p1: "asPolyhedron (collisionShape1 npi) = Some P1"
    and p2: "asPolyhedron (collisionShape2 npi) = Some P2"
    unfolding testCollisionConvexPolyhedronVsConvexPolyhedron_def Let_def
    by (auto simp: bind_eq_Some_conv)
  from run p1 p2 obtain coh where
    coh: "temporalCoherence_Polyhedron math P1 P2 t12 t21 (initialMinimum_Polyhedron indeterminate)
        (lastFrameInfo npi) = Some coh"
    and rest: "(case coh of
         Separated \<Rightarrow> Some \<lparr>returned = False, lastFrameWrites = [], contactPoints = []\<rparr>
       | Coherent m \<Rightarrow> reportContacts_Polyhedron math P1 P2 t12 t21
                         (shape1ToWorldTransform npi) (shape2ToWorldTransform npi) m
       | Incoherent \<Rightarrow>
           fullScan_Polyhedron math P1 P2 t12 t21 (initialMinimum_Polyhedron indeterminate) \<bind>
           (\<lambda>scan. case scan of
              Inl ws \<Rightarrow> Some \<lparr>returned = False, lastFrameWrites = ws, contactPoints = []\<rparr>
            | Inr m \<Rightarrow> reportContacts_Polyhedron math P1 P2 t12 t21
                         (shape1ToWorldTransform npi) (shape2ToWorldTransform npi) m)) = Some out"
    unfolding testCollisionConvexPolyhedronVsConvexPolyhedron_def Let_def t12_def t21_def
      initialMinimum_Polyhedron_def
    by (auto simp: bind_eq_Some_conv)
  have "cachedAxisDepth_Polyhedron math npi
        = cachedAxisProbe_Polyhedron math P1 P2 t12 t21 (lastFrameInfo npi)"
    using p1 p2 unfolding cachedAxisDepth_Polyhedron_def Let_def t12_def t21_def by simp
  with p1 p2 coh rest show ?thesis by blast
qed

lemma polyhedron_outcome:
  fixes npi :: "('a::{zero,one,plus,minus,uminus,times,inverse,ord}) NarrowPhaseInfo"
  assumes run: "testCollisionConvexPolyhedronVsConvexPolyhedron math indeterminate npi = Some out"
  shows "(out = \<lparr>returned = False, lastFrameWrites = [], contactPoints = []\<rparr>
            \<and> cachedAxisStillSeparating ConvexPolyhedronVsConvexPolyhedron math npi)
       \<or> (\<not> cachedAxisStillSeparating ConvexPolyhedronVsConvexPolyhedron math npi
          \<and> ((\<exists>b f. out = \<lparr>returned = False,
                      lastFrameWrites = [Set_satIsAxisFacePolyhedron1 b,
                                         Set_satIsAxisFacePolyhedron2 (\<not> b),
                                         Set_satMinAxisFaceIndex f],
                      contactPoints = []\<rparr>)
       \<or> (\<exists>i j. even i \<and> even j \<and> out = \<lparr>returned = False,
                      lastFrameWrites = [Set_satIsAxisFacePolyhedron1 False,
                                         Set_satIsAxisFacePolyhedron2 False,
                                         Set_satMinEdge1Index i, Set_satMinEdge2Index j],
                      contactPoints = []\<rparr>)
       \<or> (\<exists>b f cs. out = \<lparr>returned = True,
                      lastFrameWrites = [Set_satIsAxisFacePolyhedron1 b,
                                         Set_satIsAxisFacePolyhedron2 (\<not> b),
                                         Set_satMinAxisFaceIndex f],
                      contactPoints = cs\<rparr>
             \<and> (\<not> (DECIMAL_LARGEST :: 'a) \<le> 0 \<longrightarrow> (\<forall>c \<in> set cs. \<not> contactDepth c \<le> 0)))
       \<or> (\<exists>i j c. (even i \<and> even j
                   \<or> i = satMinEdge1Index (lastFrameInfo npi) \<and> j = satMinEdge2Index (lastFrameInfo npi)
                   \<or> i = indeterminateEdge1Index indeterminate
                     \<and> j = indeterminateEdge2Index indeterminate
                     \<and> contactDepth c = DECIMAL_LARGEST)
             \<and> out = \<lparr>returned = True,
                      lastFrameWrites = [Set_satIsAxisFacePolyhedron1 False,
                                         Set_satIsAxisFacePolyhedron2 False,
                                         Set_satMinEdge1Index i, Set_satMinEdge2Index j],
                      contactPoints = [c]\<rparr>
             \<and> (\<not> (DECIMAL_LARGEST :: 'a) \<le> 0 \<longrightarrow> \<not> contactDepth c \<le> 0))))"
proof -
  let ?initial = "initialMinimum_Polyhedron indeterminate :: 'a PolyhedronMinAxis"
  let ?w1 = "shape1ToWorldTransform npi" and ?w2 = "shape2ToWorldTransform npi"
  from polyhedron_stages[OF run] obtain P1 P2 coh t12 t21 where
    p1: "asPolyhedron (collisionShape1 npi) = Some P1"
    and p2: "asPolyhedron (collisionShape2 npi) = Some P2"
    and depth: "cachedAxisDepth_Polyhedron math npi
        = cachedAxisProbe_Polyhedron math P1 P2 t12 t21 (lastFrameInfo npi)"
    and coh: "temporalCoherence_Polyhedron math P1 P2 t12 t21 ?initial (lastFrameInfo npi) = Some coh"
    and rest: "(case coh of
         Separated \<Rightarrow> Some \<lparr>returned = False, lastFrameWrites = [], contactPoints = []\<rparr>
       | Coherent m \<Rightarrow> reportContacts_Polyhedron math P1 P2 t12 t21 ?w1 ?w2 m
       | Incoherent \<Rightarrow>
           fullScan_Polyhedron math P1 P2 t12 t21 ?initial \<bind>
           (\<lambda>scan. case scan of
              Inl ws \<Rightarrow> Some \<lparr>returned = False, lastFrameWrites = ws, contactPoints = []\<rparr>
            | Inr m \<Rightarrow> reportContacts_Polyhedron math P1 P2 t12 t21 ?w1 ?w2 m)) = Some out"
    by blast
  have init: "minPenetrationDepth ?initial = DECIMAL_LARGEST"
    "minSeparatingEdge1Index ?initial = indeterminateEdge1Index indeterminate"
    "minSeparatingEdge2Index ?initial = indeterminateEdge2Index indeterminate"
    by (simp_all add: initialMinimum_Polyhedron_def)
  have tri: "involvesTriangle npi \<longleftrightarrow> getType P1 = TRIANGLE \<or> getType P2 = TRIANGLE"
    using p1 p2 by (rule polyhedron_pair_type)
  let ?exit = "cachedAxisStillSeparating ConvexPolyhedronVsConvexPolyhedron math npi"
  have exit_iff: "?exit \<longleftrightarrow> coh = Separated"
  proof
    assume ?exit
    then obtain d where "getType P1 \<noteq> TRIANGLE" "getType P2 \<noteq> TRIANGLE"
      "isValid (lastFrameInfo npi)" "wasUsingSAT (lastFrameInfo npi)"
      "cachedAxisProbe_Polyhedron math P1 P2 t12 t21 (lastFrameInfo npi) = Some d" "d \<le> 0"
      unfolding cachedAxisStillSeparating_def cachedAxisDepth.simps
      using tri depth by (auto split: option.splits)
    with coh show "coh = Separated" by (rule temporalCoherence_Polyhedron_Separated)
  next
    assume "coh = Separated"
    with temporalCoherence_Polyhedron_cases[OF coh] tri depth show ?exit
      unfolding cachedAxisStillSeparating_def cachedAxisDepth.simps
      by auto
  qed
  have report: ?thesis
    if rep: "reportContacts_Polyhedron math P1 P2 t12 t21 ?w1 ?w2 m = Some out"
      and pos: "\<not> (DECIMAL_LARGEST :: 'a) \<le> 0 \<longrightarrow> \<not> minPenetrationDepth m \<le> 0"
      and idx: "isMinPenetrationFaceNormal m
         \<or> even (minSeparatingEdge1Index m) \<and> even (minSeparatingEdge2Index m)
         \<or> minSeparatingEdge1Index m = satMinEdge1Index (lastFrameInfo npi)
           \<and> minSeparatingEdge2Index m = satMinEdge2Index (lastFrameInfo npi)
         \<or> m = ?initial"
      and noexit: "coh \<noteq> Separated" for m
  proof -
    from reportContacts_Polyhedron_Some[OF rep] consider
      (face) cs where "out = \<lparr>returned = True,
             lastFrameWrites =
               [Set_satIsAxisFacePolyhedron1 (isMinPenetrationFaceNormalPolyhedron1 m),
                Set_satIsAxisFacePolyhedron2 (\<not> isMinPenetrationFaceNormalPolyhedron1 m),
                Set_satMinAxisFaceIndex (minFaceIndex m)],
             contactPoints = cs\<rparr>" "\<forall>c \<in> set cs. contactDepth c = minPenetrationDepth m"
      | (edge) c where "\<not> isMinPenetrationFaceNormal m"
          "out = \<lparr>returned = True,
                lastFrameWrites = [Set_satIsAxisFacePolyhedron1 False,
                                   Set_satIsAxisFacePolyhedron2 False,
                                   Set_satMinEdge1Index (minSeparatingEdge1Index m),
                                   Set_satMinEdge2Index (minSeparatingEdge2Index m)],
                contactPoints = [c]\<rparr>" "contactDepth c = minPenetrationDepth m"
      by blast
    then show ?thesis
    proof cases
      case face
      with pos have "\<not> (DECIMAL_LARGEST :: 'a) \<le> 0 \<longrightarrow> (\<forall>c \<in> set cs. \<not> contactDepth c \<le> 0)"
        by simp
      with face(1) noexit exit_iff show ?thesis by blast
    next
      case edge
      let ?i = "minSeparatingEdge1Index m" and ?j = "minSeparatingEdge2Index m"
      from edge idx init have "even ?i \<and> even ?j
          \<or> ?i = satMinEdge1Index (lastFrameInfo npi) \<and> ?j = satMinEdge2Index (lastFrameInfo npi)
          \<or> ?i = indeterminateEdge1Index indeterminate \<and> ?j = indeterminateEdge2Index indeterminate
            \<and> contactDepth c = DECIMAL_LARGEST"
        by auto
      moreover from edge pos have "\<not> (DECIMAL_LARGEST :: 'a) \<le> 0 \<longrightarrow> \<not> contactDepth c \<le> 0"
        by simp
      ultimately show ?thesis using edge(2) noexit exit_iff by blast
    qed
  qed
  from temporalCoherence_Polyhedron_cases[OF coh] consider
    (separated) "coh = Separated"
    | (coherent) m where "coh = Coherent m" "\<not> minPenetrationDepth m \<le> 0"
      "isMinPenetrationFaceNormal m
         \<or> minSeparatingEdge1Index m = satMinEdge1Index (lastFrameInfo npi)
           \<and> minSeparatingEdge2Index m = satMinEdge2Index (lastFrameInfo npi)"
    | (incoherent) "coh = Incoherent"
    by blast
  then show ?thesis
  proof cases
    case separated
    with rest exit_iff show ?thesis by simp
  next
    case (coherent m)
    from rest coherent(1)
    have "reportContacts_Polyhedron math P1 P2 t12 t21 ?w1 ?w2 m = Some out" by simp
    then show ?thesis using coherent by (intro report) blast+
  next
    case incoherent
    with rest obtain scan where
      scan: "fullScan_Polyhedron math P1 P2 t12 t21 ?initial = Some scan"
      and fin: "(case scan of
              Inl ws \<Rightarrow> Some \<lparr>returned = False, lastFrameWrites = ws, contactPoints = []\<rparr>
            | Inr m \<Rightarrow> reportContacts_Polyhedron math P1 P2 t12 t21 ?w1 ?w2 m) = Some out"
      by (auto simp: bind_eq_Some_conv)
    show ?thesis
    proof (cases scan)
      case (Inl ws)
      with fin have "out = \<lparr>returned = False, lastFrameWrites = ws, contactPoints = []\<rparr>" by simp
      with fullScan_Polyhedron_Inl[OF scan[unfolded Inl]] exit_iff incoherent show ?thesis by auto
    next
      case (Inr m)
      from fullScan_Polyhedron_Inr[OF scan[unfolded Inr]] init
      have pos: "\<not> (DECIMAL_LARGEST :: 'a) \<le> 0 \<longrightarrow> \<not> minPenetrationDepth m \<le> 0"
        and idx: "isMinPenetrationFaceNormal m
          \<or> even (minSeparatingEdge1Index m) \<and> even (minSeparatingEdge2Index m)
          \<or> m = ?initial"
        by simp_all
      from fin Inr have "reportContacts_Polyhedron math P1 P2 t12 t21 ?w1 ?w2 m = Some out"
        by simp
      then show ?thesis using pos idx incoherent by (intro report) blast+
    qed
  qed
qed

section \<open>The three operations\<close>

lemma testCollision_outcome:
  assumes "testCollision op math indeterminate npi = Some out"
  shows "(op = SphereVsConvexPolyhedron \<and> testCollisionSphereVsConvexPolyhedron npi = Some out)
       \<or> (op = CapsuleVsConvexPolyhedron \<and> testCollisionCapsuleVsConvexPolyhedron math npi = Some out)
       \<or> (op = ConvexPolyhedronVsConvexPolyhedron
            \<and> testCollisionConvexPolyhedronVsConvexPolyhedron math indeterminate npi = Some out)"
  using assms by (cases op) simp_all

section \<open>The face scans and the gated comparisons of the polyhedron driver\<close>






section \<open>The probes on parallel edges\<close>

lemma edge_probe_declines_short_axis:
  fixes capsuleSegmentAxis :: "decimal Vector3"
  shows "lengthSquare (cross capsuleSegmentAxis edgeDirectionCapsuleSpace) < 1 / 100000
     \<Longrightarrow> fst (computeEdgeVsCapsuleInnerSegmentPenetrationDepth math polyhedron capsuleShape
                 capsuleSegmentAxis edgeVertex1 edgeDirectionCapsuleSpace t) = DECIMAL_LARGEST"
  by (simp add: computeEdgeVsCapsuleInnerSegmentPenetrationDepth_def Let_def decimalOfNat_real)

lemma edge_distance_declines_parallel_edges:
  "areParallelVectors math edge1Direction edge2Direction
     \<Longrightarrow> fst (computeDistanceBetweenEdges math edge1A edge2A centroid edge1Direction edge2Direction
                 outAxis) = DECIMAL_LARGEST"
  by (simp add: computeDistanceBetweenEdges_def)

text \<open>
  In the full scan a probe that has declined never becomes the minimum: the running
  minimum starts at \<open>DECIMAL_LARGEST\<close> and only decreases, and the declined depth is
  not below it.
\<close>

lemma declined_edge_keeps_minimum_Capsule:
  fixes m :: "decimal CapsuleMinAxis"
  assumes "edgeStep_Capsule math polyhedron capsuleShape t capsuleSegmentAxis e m = Some r"
    and "getHalfEdge polyhedron e = Some edge"
    and "edgeVertices polyhedron edge = Some (edgeVertex1, edgeVertex2)"
    and "lengthSquare (cross capsuleSegmentAxis
           (rotateVector (getOrientation t) (edgeVertex2 - edgeVertex1))) < 1 / 100000"
    and "minPenetrationDepth m \<le> DECIMAL_LARGEST"
  shows "r = Inr m"
  using assms DECIMAL_LARGEST_pos unfolding edgeStep_Capsule_def
    computeEdgeVsCapsuleInnerSegmentPenetrationDepth_def Let_def
  by (auto simp: bind_eq_Some_conv decimalOfNat_real split: if_splits)

lemma declined_pair_keeps_minimum_Polyhedron:
  fixes m :: "decimal PolyhedronMinAxis"
  assumes "edgePairStep_Polyhedron math P1 P2 t i edge1 edge1A edge1B j m = Some r"
    and "getHalfEdge P2 j = Some edge2"
    and "edgeVertices P2 edge2 = Some (edge2A, edge2B)"
    and "areParallelVectors math (edge1B - edge1A) (edge2B - edge2A)"
    and "minPenetrationDepth m \<le> DECIMAL_LARGEST"
  shows "r = Inr m"
  using assms DECIMAL_LARGEST_pos BIAS_pos unfolding edgePairStep_Polyhedron_def
    computeDistanceBetweenEdges_def Let_def
  by (auto simp: bind_eq_Some_conv split: if_splits)

section \<open>The Gauss-map test without a translation\<close>

lemma transformPoint_zero_position:
  fixes v :: "decimal Vector3"
  shows "transformPoint (Transform 0 q) v = rotateVector q v"
  by (simp add: transformPoint_def plus_Vector3_def zero_Vector3_def rotateVector_def)

text \<open>
  With no translation between the two polyhedra the test of the code is the test of
  the specification.
\<close>

lemma minkowski_test_without_translation:
  fixes polyhedron1 :: "decimal ConvexPolyhedronShape"
  shows "testEdgesBuildMinkowskiFace polyhedron1 edge1 polyhedron2 edge2 (Transform 0 q)
     = specMinkowskiFace polyhedron1 edge1 polyhedron2 edge2 (Transform 0 q)"
  unfolding testEdgesBuildMinkowskiFace_def specMinkowskiFace_def testGaussMapArcsIntersect_def
    Let_def transformPoint_zero_position
  by (auto simp: bind_eq_Some_conv intro!: Option.bind_cong)

section \<open>The depth of a contact point, in any arithmetic\<close>

text \<open>
  No contact point carries a depth that the scalar type compares as \<open>\<le> 0\<close>: every
  depth that is adopted has failed the test \<^verbatim>\<open>penetrationDepth <= 0\<close>, or is the seed
  \<open>DECIMAL_LARGEST\<close>.
\<close>

lemma contact_depth_not_le_zero:
  fixes npi :: "('a::{zero,one,plus,minus,uminus,times,inverse,ord}) NarrowPhaseInfo"
  assumes "testCollision op math indeterminate npi = Some out"
    and "\<not> (DECIMAL_LARGEST :: 'a) \<le> 0"
    and "c \<in> set (contactPoints out)"
  shows "\<not> contactDepth c \<le> 0"
  using testCollision_outcome[OF assms(1)]
proof (elim disjE conjE)
  assume "testCollisionSphereVsConvexPolyhedron npi = Some out"
  from sphere_outcome[where math = math, OF this] assms(2,3) show ?thesis by auto
next
  assume "testCollisionCapsuleVsConvexPolyhedron math npi = Some out"
  from capsule_outcome[OF this] assms(2,3) show ?thesis by auto
next
  assume "testCollisionConvexPolyhedronVsConvexPolyhedron math indeterminate npi = Some out"
  from polyhedron_outcome[OF this] assms(2,3) show ?thesis by auto
qed

text \<open>With the arithmetic of the real numbers the depth is strictly positive.\<close>

lemma contact_depth_positive_real:
  fixes npi :: "decimal NarrowPhaseInfo"
  assumes "testCollision op math indeterminate npi = Some out"
    and "c \<in> set (contactPoints out)"
  shows "0 < contactDepth c"
  using contact_depth_not_le_zero[OF assms(1) _ assms(2)] DECIMAL_LARGEST_pos by simp

section \<open>The return value and the contacts\<close>




section \<open>The filter of the clipped points\<close>

text \<open>
  Claim C2.  The filter of the face branch reads its point of the reference face as
  \<^verbatim>\<open>getVertexPosition(firstEdgeIndex)\<close>: the index of the first half-edge of the face is
  used as a vertex index.  On the tetrahedron face 2 (the face \<open>x = 0\<close>, outward normal
  \<open>-x\<close>) has first half-edge 1, and vertex 1 is \<open>X = (2,0,0)\<close>, which is not on the
  face.  With the second tetrahedron placed at \<open>(-3/2, 1/10, 1/10)\<close> and face 2 of
  polyhedron 1 the cached axis, the clipped incident face has the point
  \<open>(1/2, 1/10, 1/10)\<close>, which is below the plane of face 2 and which the filter of the
  claim keeps; measured from \<open>X\<close> no clipped point is below, and the call appends no
  contact point.  With face 1 the cached axis the first half-edge is 5, and the read
  is outside the four vertices.
\<close>

theorem C2_filter_reads_vertex_at_edge_index:
  "\<forall>indeterminate.
     testCollisionConvexPolyhedronVsConvexPolyhedron referenceMath indeterminate
       (polyhedronCall (Vector3 (- (3 / 2)) (1 / 10) (1 / 10)) (cachedRecord True True False 2 0 0))
     = Some \<lparr>returned = True,
             lastFrameWrites = [Set_satIsAxisFacePolyhedron1 True,
                                Set_satIsAxisFacePolyhedron2 False,
                                Set_satMinAxisFaceIndex 2],
             contactPoints = []\<rparr>
   \<and> do { (planesNormals, planesPoints) \<leftarrow>
             referenceFaceClippingPlanes (getNbHalfEdges tetrahedron) tetrahedron
               (edgeIndex (faces tetrahedron ! 2)) (edgeIndex (faces tetrahedron ! 2)) ([], []);
          polygonVertices \<leftarrow>
             incidentFaceVertices tetrahedron (translation (Vector3 (- (3 / 2)) (1 / 10) (1 / 10)))
               (faceVertices (faces tetrahedron ! 3));
          Some (clipPolygonWithPlanes referenceMath polygonVertices planesPoints planesNormals) }
     = Some [Vector3 (1 / 2) (1 / 10) (1 / 10), Vector3 (- (3 / 2)) (11 / 10) (1 / 10),
             Vector3 (- (3 / 2)) (1 / 10) (11 / 10)]
   \<and> specKeepsClippedPoint tetrahedron 2 (Vector3 (1 / 2) (1 / 10) (1 / 10)) = Some True
   \<and> getVertexPosition tetrahedron (edgeIndex (faces tetrahedron ! 2)) = Some (Vector3 2 0 0)
   \<and> testCollisionConvexPolyhedronVsConvexPolyhedron referenceMath indeterminate
       (polyhedronCall (Vector3 (- (3 / 2)) (1 / 10) (1 / 10)) (cachedRecord True True False 1 0 0))
     = None"
  by (simp add: poly_eval specKeepsClippedPoint_def mesh_eval vector_eval)

section \<open>The stores into the last-frame record\<close>

text \<open>
  Claim C3, as the code has it.  A call of any of the three operations makes no store
  into the last-frame record exactly when it leaves through the temporal-coherence
  test: no shape is a triangle, the record is valid and was left by SAT, and the depth
  along the cached axis is not positive.  Such a call returns false, appends no contact
  point and leaves the record as it was.  Every other call stores into the record
  before it returns.
\<close>

theorem C3_writes_unless_temporal_exit:
  fixes npi :: "('a::{zero,one,plus,minus,uminus,times,inverse,ord}) NarrowPhaseInfo"
  assumes "testCollision op math indeterminate npi = Some out"
  shows "(lastFrameWrites out = [] \<longleftrightarrow> cachedAxisStillSeparating op math npi)
       \<and> (lastFrameWrites out = [] \<longrightarrow>
            \<not> returned out \<and> contactPoints out = []
            \<and> lastFrameInfoAfter (lastFrameInfo npi) out = lastFrameInfo npi)"
  using testCollision_outcome[OF assms(1)]
proof (elim disjE conjE)
  assume "testCollisionSphereVsConvexPolyhedron npi = Some out"
    and "op = SphereVsConvexPolyhedron"
  with sphere_outcome[of npi out math] show ?thesis
    by (auto simp: lastFrameInfoAfter_def)
next
  assume "testCollisionCapsuleVsConvexPolyhedron math npi = Some out"
    and "op = CapsuleVsConvexPolyhedron"
  with capsule_outcome[of math npi out] show ?thesis
    by (auto simp: lastFrameInfoAfter_def)
next
  assume "testCollisionConvexPolyhedronVsConvexPolyhedron math indeterminate npi = Some out"
    and "op = ConvexPolyhedronVsConvexPolyhedron"
  with polyhedron_outcome[of math indeterminate npi out] show ?thesis
    by (auto simp: lastFrameInfoAfter_def)
qed

text \<open>
  Two tetrahedra, the second placed at \<open>(0, 0, 5)\<close>, with a record that names face 0 of
  polyhedron 2 as the axis of the last frame: the probe of that face gives a depth
  that is not positive, the cached axis is still separating, and the call leaves with
  no store.  With the second tetrahedron at \<open>(-1, 0, -1/2)\<close> and face 0 of polyhedron 1
  cached the depth is \<open>1/2\<close>, the cached axis is not separating, and the call stores.
\<close>

theorem C3_writes_unless_temporal_exit_witness:
  "testCollision ConvexPolyhedronVsConvexPolyhedron referenceMath (leftOnStack 0 0)
       (polyhedronCall (Vector3 0 0 5) (cachedRecord True False True 0 0 0))
     = Some \<lparr>returned = False, lastFrameWrites = [], contactPoints = []\<rparr>
   \<and> cachedAxisStillSeparating ConvexPolyhedronVsConvexPolyhedron referenceMath
       (polyhedronCall (Vector3 0 0 5) (cachedRecord True False True 0 0 0))
   \<and> lastFrameInfoAfter (cachedRecord True False True 0 0 0)
         (\<lparr>returned = False, lastFrameWrites = [], contactPoints = []\<rparr> :: decimal SATOutcome)
       = cachedRecord True False True 0 0 0
   \<and> \<not> cachedAxisStillSeparating ConvexPolyhedronVsConvexPolyhedron referenceMath
       (polyhedronCall (Vector3 (- 1) 0 (- (1 / 2))) (cachedRecord True True False 0 0 0))"
proof -
  have run: "testCollision ConvexPolyhedronVsConvexPolyhedron referenceMath (leftOnStack 0 0)
       (polyhedronCall (Vector3 0 0 5) (cachedRecord True False True 0 0 0))
     = Some \<lparr>returned = False, lastFrameWrites = [], contactPoints = []\<rparr>"
    by (simp add: poly_eval mesh_eval vector_eval)
  have run2: "testCollision ConvexPolyhedronVsConvexPolyhedron referenceMath (leftOnStack 0 0)
       (polyhedronCall (Vector3 (- 1) 0 (- (1 / 2))) (cachedRecord True True False 0 0 0))
     = Some \<lparr>returned = True,
             lastFrameWrites = [Set_satIsAxisFacePolyhedron1 True,
                                Set_satIsAxisFacePolyhedron2 False,
                                Set_satMinAxisFaceIndex 0],
             contactPoints = []\<rparr>"
    by (simp add: poly_eval mesh_eval vector_eval)
  from C3_writes_unless_temporal_exit[OF run] C3_writes_unless_temporal_exit[OF run2] run
  show ?thesis by (simp add: polyhedronCall_def)
qed

text \<open>
  The three operations on a pair that the cached face 0 still separates: a sphere and
  a capsule five units below the tetrahedron, and a second tetrahedron five units
  below the first.  Each call returns false and makes no store.
\<close>

theorem C3_temporal_exit_writes_nothing:
  "\<forall>indeterminate.
     testCollision SphereVsConvexPolyhedron referenceMath indeterminate
       (sphereCall tetrahedron (Vector3 0 0 (- 5)) (cachedRecord False False False 0 0 0))
     = Some \<lparr>returned = False, lastFrameWrites = [], contactPoints = []\<rparr>
   \<and> testCollision CapsuleVsConvexPolyhedron referenceMath indeterminate
       (capsuleCall (Vector3 (1 / 2) (1 / 4) (- 5)) (cachedRecord False True False 0 0 0))
     = Some \<lparr>returned = False, lastFrameWrites = [], contactPoints = []\<rparr>
   \<and> testCollision ConvexPolyhedronVsConvexPolyhedron referenceMath indeterminate
       (polyhedronCall (Vector3 0 0 (- 5)) (cachedRecord False True False 0 0 0))
     = Some \<lparr>returned = False, lastFrameWrites = [], contactPoints = []\<rparr>"
proof (intro allI conjI)
  fix indeterminate
  show "testCollision SphereVsConvexPolyhedron referenceMath indeterminate
       (sphereCall tetrahedron (Vector3 0 0 (- 5)) (cachedRecord False False False 0 0 0))
     = Some \<lparr>returned = False, lastFrameWrites = [], contactPoints = []\<rparr>"
    by (simp add: sphere_eval mesh_eval vector_eval)
  show "testCollision CapsuleVsConvexPolyhedron referenceMath indeterminate
       (capsuleCall (Vector3 (1 / 2) (1 / 4) (- 5)) (cachedRecord False True False 0 0 0))
     = Some \<lparr>returned = False, lastFrameWrites = [], contactPoints = []\<rparr>"
    by (simp add: capsule_eval mesh_eval vector_eval)
  show "testCollision ConvexPolyhedronVsConvexPolyhedron referenceMath indeterminate
       (polyhedronCall (Vector3 0 0 (- 5)) (cachedRecord False True False 0 0 0))
     = Some \<lparr>returned = False, lastFrameWrites = [], contactPoints = []\<rparr>"
    by (simp add: poly_eval mesh_eval vector_eval)
qed

text \<open>
  Claim C4, as the code has it, for a build in which the \<^verbatim>\<open>assert\<close>s are compiled out
  (those of lines 53--54 admit a \<^verbatim>\<open>CONVEX_POLYHEDRON\<close> only and stop a debug build on a
  triangle).  When the polyhedron of the sphere operation is a triangle the call does
  not read the last-frame record, so its outcome is the same for every record, and it
  makes exactly one store, into \<^verbatim>\<open>satMinAxisFaceIndex\<close>; every other field of the record
  is left as it was.  On the no-collision path the index stored (line 129) is that of
  the first face along whose normal the depth is not positive.  On the collision path
  the index stored (line 156) is \<^verbatim>\<open>minFaceIndex\<close>, the first face of least depth, and
  the one contact point has that depth; it is 0 with the depth \<open>DECIMAL_LARGEST\<close> if no
  face has a smaller depth.
\<close>

theorem C4_triangle_writes_only_face_index:
  fixes npi :: "decimal NarrowPhaseInfo"
  assumes "testCollisionSphereVsConvexPolyhedron npi = Some out"
    and "involvesTriangle npi"
  shows "testCollisionSphereVsConvexPolyhedron (npi\<lparr>lastFrameInfo := l\<rparr>) = Some out
       \<and> (\<exists>polyhedron f. polyhedronOfSpherePair npi = Some polyhedron
              \<and> lastFrameWrites out = [Set_satMinAxisFaceIndex f]
              \<and> lastFrameInfoAfter (lastFrameInfo npi) out
                  = (lastFrameInfo npi)\<lparr>satMinAxisFaceIndex := f\<rparr>
              \<and> (if returned out
                 then (\<exists>c. contactPoints out = [c]
                        \<and> (\<forall>g < getNbFaces polyhedron. \<exists>d. faceDepth_Sphere npi g = Some d
                               \<and> 0 < d \<and> contactDepth c \<le> d)
                        \<and> (contactDepth c = DECIMAL_LARGEST \<and> f = 0
                           \<or> f < getNbFaces polyhedron
                             \<and> faceDepth_Sphere npi f = Some (contactDepth c)
                             \<and> (\<forall>g < f. \<exists>d. faceDepth_Sphere npi g = Some d
                                    \<and> contactDepth c < d)))
                 else contactPoints out = [] \<and> f < getNbFaces polyhedron
                      \<and> (\<exists>d. faceDepth_Sphere npi f = Some d \<and> d \<le> 0)
                      \<and> (\<forall>g < f. \<exists>d. faceDepth_Sphere npi g = Some d \<and> 0 < d)))"
proof
  show "testCollisionSphereVsConvexPolyhedron (npi\<lparr>lastFrameInfo := l\<rparr>) = Some out"
    using assms by (simp add: sphere_triangle_ignores_record)
  from sphere_triangle_outcome[OF assms] obtain polyhedron f where
    pair: "polyhedronOfSpherePair npi = Some polyhedron"
    and writes: "lastFrameWrites out = [Set_satMinAxisFaceIndex f]"
    and pinned: "if returned out
                 then (\<exists>c. contactPoints out = [c]
                        \<and> (\<forall>g < getNbFaces polyhedron. \<exists>d. faceDepth_Sphere npi g = Some d
                               \<and> 0 < d \<and> contactDepth c \<le> d)
                        \<and> (contactDepth c = DECIMAL_LARGEST \<and> f = 0
                           \<or> f < getNbFaces polyhedron
                             \<and> faceDepth_Sphere npi f = Some (contactDepth c)
                             \<and> (\<forall>g < f. \<exists>d. faceDepth_Sphere npi g = Some d
                                    \<and> contactDepth c < d)))
                 else contactPoints out = [] \<and> f < getNbFaces polyhedron
                      \<and> (\<exists>d. faceDepth_Sphere npi f = Some d \<and> d \<le> 0)
                      \<and> (\<forall>g < f. \<exists>d. faceDepth_Sphere npi g = Some d \<and> 0 < d)"
    by blast
  from writes have "lastFrameInfoAfter (lastFrameInfo npi) out
                  = (lastFrameInfo npi)\<lparr>satMinAxisFaceIndex := f\<rparr>"
    by (simp add: lastFrameInfoAfter_def)
  with pair writes pinned
  show "\<exists>polyhedron f. polyhedronOfSpherePair npi = Some polyhedron
              \<and> lastFrameWrites out = [Set_satMinAxisFaceIndex f]
              \<and> lastFrameInfoAfter (lastFrameInfo npi) out
                  = (lastFrameInfo npi)\<lparr>satMinAxisFaceIndex := f\<rparr>
              \<and> (if returned out
                 then (\<exists>c. contactPoints out = [c]
                        \<and> (\<forall>g < getNbFaces polyhedron. \<exists>d. faceDepth_Sphere npi g = Some d
                               \<and> 0 < d \<and> contactDepth c \<le> d)
                        \<and> (contactDepth c = DECIMAL_LARGEST \<and> f = 0
                           \<or> f < getNbFaces polyhedron
                             \<and> faceDepth_Sphere npi f = Some (contactDepth c)
                             \<and> (\<forall>g < f. \<exists>d. faceDepth_Sphere npi g = Some d
                                    \<and> contactDepth c < d)))
                 else contactPoints out = [] \<and> f < getNbFaces polyhedron
                      \<and> (\<exists>d. faceDepth_Sphere npi f = Some d \<and> d \<le> 0)
                      \<and> (\<forall>g < f. \<exists>d. faceDepth_Sphere npi g = Some d \<and> 0 < d))"
    by blast
qed

text \<open>
  A sphere with its centre \<open>1/20\<close> below the triangle: face 0 (normal \<open>+z\<close>) has the
  depth \<open>3/20\<close> and face 1 (normal \<open>-z\<close>) the least depth, \<open>1/20\<close>.  The outcome with a
  record left by a colliding frame is that with a fresh record, and the one store sets
  the face index to 1.
\<close>

theorem C4_triangle_writes_only_face_index_witness:
  "involvesTriangle (sphereCall triangle (Vector3 (1 / 4) (1 / 4) (- (1 / 20))) freshRecord)
   \<and> testCollisionSphereVsConvexPolyhedron
       (sphereCall triangle (Vector3 (1 / 4) (1 / 4) (- (1 / 20))) freshRecord)
     = Some \<lparr>returned = True, lastFrameWrites = [Set_satMinAxisFaceIndex 1],
             contactPoints =
               [\<lparr>contactNormal = Vector3 0 0 1, contactDepth = 1 / 20,
                 localPoint1 = Vector3 (- (1 / 40)) (- (1 / 40)) (21 / 200),
                 localPoint2 = Vector3 (1 / 4) (1 / 4) 0\<rparr>]\<rparr>
   \<and> testCollisionSphereVsConvexPolyhedron
       (sphereCall triangle (Vector3 (1 / 4) (1 / 4) (- (1 / 20))) (cachedRecord True False False 0 0 0))
     = testCollisionSphereVsConvexPolyhedron
       (sphereCall triangle (Vector3 (1 / 4) (1 / 4) (- (1 / 20))) freshRecord)
   \<and> faceDepth_Sphere (sphereCall triangle (Vector3 (1 / 4) (1 / 4) (- (1 / 20))) freshRecord) 0
       = Some (3 / 20)
   \<and> faceDepth_Sphere (sphereCall triangle (Vector3 (1 / 4) (1 / 4) (- (1 / 20))) freshRecord) 1
       = Some (1 / 20)"
proof -
  let ?npi = "sphereCall triangle (Vector3 (1 / 4) (1 / 4) (- (1 / 20))) freshRecord"
  have tri: "involvesTriangle ?npi"
    by (simp add: involvesTriangle_def sphereCall_def triangle_def)
  have run: "testCollisionSphereVsConvexPolyhedron ?npi
     = Some \<lparr>returned = True, lastFrameWrites = [Set_satMinAxisFaceIndex 1],
             contactPoints =
               [\<lparr>contactNormal = Vector3 0 0 1, contactDepth = 1 / 20,
                 localPoint1 = Vector3 (- (1 / 40)) (- (1 / 40)) (21 / 200),
                 localPoint2 = Vector3 (1 / 4) (1 / 4) 0\<rparr>]\<rparr>"
    by (simp add: sphere_eval mesh_eval vector_eval)
  have same: "?npi\<lparr>lastFrameInfo := cachedRecord True False False 0 0 0\<rparr>
     = sphereCall triangle (Vector3 (1 / 4) (1 / 4) (- (1 / 20))) (cachedRecord True False False 0 0 0)"
    by (simp add: sphereCall_def)
  have depths: "faceDepth_Sphere ?npi 0 = Some (3 / 20)" "faceDepth_Sphere ?npi 1 = Some (1 / 20)"
    by (simp_all add: faceDepth_Sphere_def sphere_eval mesh_eval vector_eval)
  from C4_triangle_writes_only_face_index[OF run tri, of "cachedRecord True False False 0 0 0"]
    run tri same depths
  show ?thesis by simp
qed

text \<open>
  A sphere above the triangle, out of reach and in reach, with a record whose face
  index is 7: on the no-collision path and on the collision path the call stores the
  face index 0 into the record.
\<close>

theorem C4_triangle_face_index_written:
  "satMinAxisFaceIndex freshRecord = 7
   \<and> testCollisionSphereVsConvexPolyhedron
       (sphereCall triangle (Vector3 (1 / 4) (1 / 4) 5) freshRecord)
     = Some \<lparr>returned = False, lastFrameWrites = [Set_satMinAxisFaceIndex 0], contactPoints = []\<rparr>
   \<and> satMinAxisFaceIndex (lastFrameInfoAfter freshRecord
         (\<lparr>returned = False, lastFrameWrites = [Set_satMinAxisFaceIndex 0],
           contactPoints = []\<rparr> :: decimal SATOutcome)) = 0
   \<and> testCollisionSphereVsConvexPolyhedron
       (sphereCall triangle (Vector3 (1 / 4) (1 / 4) (1 / 20)) freshRecord)
     = Some \<lparr>returned = True, lastFrameWrites = [Set_satMinAxisFaceIndex 0],
             contactPoints =
               [\<lparr>contactNormal = Vector3 0 0 (- 1), contactDepth = 1 / 20,
                 localPoint1 = Vector3 (- (1 / 40)) (- (1 / 40)) (- (21 / 200)),
                 localPoint2 = Vector3 (1 / 4) (1 / 4) 0\<rparr>]\<rparr>"
  by (simp add: sphere_eval lastFrameInfoAfter_def mesh_eval vector_eval)

section \<open>The bias of the full scan\<close>




section \<open>The Gauss-map test of two edges\<close>

text \<open>
  Claim C6.  The code brings the two face normals of edge 1 into the frame of
  polyhedron 2 with \<^verbatim>\<open>polyhedron1ToPolyhedron2 * normal\<close>, the point transform, which
  adds the translation to the rotated normal; the edge direction two lines below is
  rotated only.  The test has one caller, the loop over the edge pairs of the full
  scan (line 738).  With the second tetrahedron placed at \<open>(-3/2, 3/4, -1/2)\<close> and no
  cached axis, \<^verbatim>\<open>polyhedron1ToPolyhedron2\<close> is the translation by \<open>(3/2, -3/4, 1/2)\<close>, no
  face separates and no edge pair does, so the two loops visit every pair of even
  half-edges.  For the pair of half-edge 4 (\<open>X\<rightarrow>O\<close>) of polyhedron 1 and half-edge 10
  (\<open>Z\<rightarrow>Y\<close>) of polyhedron 2 the three conditions of the claim hold for the rotated
  normals, and the code rejects the pair: the body of the loop leaves the minimum as
  it is, whatever it is, without probing the axis of the pair.
\<close>

theorem C6_minkowski_test_adds_translation:
  "\<forall>indeterminate m edge1A edge1B.
     mult_Transform
       (getInverse (shape2ToWorldTransform
          (polyhedronCall (Vector3 (- (3 / 2)) (3 / 4) (- (1 / 2))) freshRecord)))
       (shape1ToWorldTransform
          (polyhedronCall (Vector3 (- (3 / 2)) (3 / 4) (- (1 / 2))) freshRecord))
     = translation (Vector3 (3 / 2) (- (3 / 4)) (1 / 2))
   \<and> temporalCoherence_Polyhedron referenceMath tetrahedron tetrahedron
       (translation (Vector3 (3 / 2) (- (3 / 4)) (1 / 2)))
       (translation (Vector3 (- (3 / 2)) (3 / 4) (- (1 / 2))))
       (initialMinimum_Polyhedron indeterminate) freshRecord = Some Incoherent
   \<and> fullScan_Polyhedron referenceMath tetrahedron tetrahedron
       (translation (Vector3 (3 / 2) (- (3 / 4)) (1 / 2)))
       (translation (Vector3 (- (3 / 2)) (3 / 4) (- (1 / 2))))
       (initialMinimum_Polyhedron indeterminate)
     = Some (Inr (initialMinimum_Polyhedron indeterminate
                    \<lparr>minPenetrationDepth := 1 / 4, minFaceIndex := 1,
                     isMinPenetrationFaceNormal := True,
                     isMinPenetrationFaceNormalPolyhedron1 := False\<rparr>))
   \<and> testEdgesBuildMinkowskiFace tetrahedron (halfEdges tetrahedron ! 4)
       tetrahedron (halfEdges tetrahedron ! 10)
       (translation (Vector3 (3 / 2) (- (3 / 4)) (1 / 2))) = Some False
   \<and> specMinkowskiFace tetrahedron (halfEdges tetrahedron ! 4)
       tetrahedron (halfEdges tetrahedron ! 10)
       (translation (Vector3 (3 / 2) (- (3 / 4)) (1 / 2))) = Some True
   \<and> edgePairStep_Polyhedron referenceMath tetrahedron tetrahedron
       (translation (Vector3 (3 / 2) (- (3 / 4)) (1 / 2))) 4 (halfEdges tetrahedron ! 4)
       edge1A edge1B 10 m = Some (Inr m)"
proof (intro allI conjI)
  fix indeterminate :: IndeterminateLocals and m :: "decimal PolyhedronMinAxis"
    and edge1A edge1B :: "decimal Vector3"
  show "mult_Transform
       (getInverse (shape2ToWorldTransform
          (polyhedronCall (Vector3 (- (3 / 2)) (3 / 4) (- (1 / 2))) freshRecord)))
       (shape1ToWorldTransform
          (polyhedronCall (Vector3 (- (3 / 2)) (3 / 4) (- (1 / 2))) freshRecord))
     = translation (Vector3 (3 / 2) (- (3 / 4)) (1 / 2))"
    by (simp add: polyhedronCall_def vector_eval)
  show "temporalCoherence_Polyhedron referenceMath tetrahedron tetrahedron
       (translation (Vector3 (3 / 2) (- (3 / 4)) (1 / 2)))
       (translation (Vector3 (- (3 / 2)) (3 / 4) (- (1 / 2))))
       (initialMinimum_Polyhedron indeterminate) freshRecord = Some Incoherent"
    by (simp add: temporalCoherence_Polyhedron_def freshRecord_def)
  show "fullScan_Polyhedron referenceMath tetrahedron tetrahedron
       (translation (Vector3 (3 / 2) (- (3 / 4)) (1 / 2)))
       (translation (Vector3 (- (3 / 2)) (3 / 4) (- (1 / 2))))
       (initialMinimum_Polyhedron indeterminate)
     = Some (Inr (initialMinimum_Polyhedron indeterminate
                    \<lparr>minPenetrationDepth := 1 / 4, minFaceIndex := 1,
                     isMinPenetrationFaceNormal := True,
                     isMinPenetrationFaceNormalPolyhedron1 := False\<rparr>))"
    apply (simp add: scan_eval mesh_eval vector_eval)
    using sqrt5_bounds apply (simp add: field_simps sqrt5_sq)
    done
  show "testEdgesBuildMinkowskiFace tetrahedron (halfEdges tetrahedron ! 4)
       tetrahedron (halfEdges tetrahedron ! 10)
       (translation (Vector3 (3 / 2) (- (3 / 4)) (1 / 2))) = Some False"
    by (simp add: testEdgesBuildMinkowskiFace_def testGaussMapArcsIntersect_def
        mesh_eval vector_eval Let_def)
  show "specMinkowskiFace tetrahedron (halfEdges tetrahedron ! 4)
       tetrahedron (halfEdges tetrahedron ! 10)
       (translation (Vector3 (3 / 2) (- (3 / 4)) (1 / 2))) = Some True"
    by (simp add: specMinkowskiFace_def mesh_eval vector_eval Let_def)
  show "edgePairStep_Polyhedron referenceMath tetrahedron tetrahedron
       (translation (Vector3 (3 / 2) (- (3 / 4)) (1 / 2))) 4 (halfEdges tetrahedron ! 4)
       edge1A edge1B 10 m = Some (Inr m)"
    by (simp add: edgePairStep_Polyhedron_def testEdgesBuildMinkowskiFace_def
        testGaussMapArcsIntersect_def mesh_eval vector_eval Let_def)
qed

section \<open>The depth of a contact point\<close>




section \<open>The two face flags\<close>

text \<open>
  Claim C8, as the code has it.  Starting from a record in which at most one of
  \<^verbatim>\<open>satIsAxisFacePolyhedron1\<close> and \<^verbatim>\<open>satIsAxisFacePolyhedron2\<close> is true, at most one of
  them is true after a call of the sphere operation or of the polyhedron operation.
  The capsule operation stores into \<^verbatim>\<open>satIsAxisFacePolyhedron1\<close> only and leaves
  \<^verbatim>\<open>satIsAxisFacePolyhedron2\<close> as it found it, so after a capsule call at most one of the
  flags is true when \<^verbatim>\<open>satIsAxisFacePolyhedron2\<close> was false before it.
\<close>

theorem C8_at_most_one_flag:
  fixes npi :: "('a::{zero,one,plus,minus,uminus,times,inverse,ord}) NarrowPhaseInfo"
  assumes "testCollision op math indeterminate npi = Some out"
    and "atMostOneFaceFlag (lastFrameInfo npi)"
    and "op = CapsuleVsConvexPolyhedron \<longrightarrow> \<not> satIsAxisFacePolyhedron2 (lastFrameInfo npi)"
  shows "atMostOneFaceFlag (lastFrameInfoAfter (lastFrameInfo npi) out)
       \<and> (op = CapsuleVsConvexPolyhedron \<longrightarrow>
            satIsAxisFacePolyhedron2 (lastFrameInfoAfter (lastFrameInfo npi) out)
              = satIsAxisFacePolyhedron2 (lastFrameInfo npi))"
  using testCollision_outcome[OF assms(1)]
proof (elim disjE conjE)
  assume "testCollisionSphereVsConvexPolyhedron npi = Some out"
    and "op = SphereVsConvexPolyhedron"
  with sphere_outcome[of npi out math] assms(2) show ?thesis
    by (auto simp: lastFrameInfoAfter_def atMostOneFaceFlag_def)
next
  assume "testCollisionCapsuleVsConvexPolyhedron math npi = Some out"
    and "op = CapsuleVsConvexPolyhedron"
  with capsule_outcome[of math npi out] assms(2,3) show ?thesis
    by (auto simp: lastFrameInfoAfter_def atMostOneFaceFlag_def)
next
  assume "testCollisionConvexPolyhedronVsConvexPolyhedron math indeterminate npi = Some out"
    and "op = ConvexPolyhedronVsConvexPolyhedron"
  with polyhedron_outcome[of math indeterminate npi out] assms(2) show ?thesis
    by (auto simp: lastFrameInfoAfter_def atMostOneFaceFlag_def)
qed

text \<open>
  A capsule five units below the tetrahedron and a fresh record, both flags false: the
  full scan finds face 0 separating and sets the first flag.
\<close>

theorem C8_at_most_one_flag_witness:
  "atMostOneFaceFlag freshRecord \<and> \<not> satIsAxisFacePolyhedron2 freshRecord
   \<and> testCollision CapsuleVsConvexPolyhedron referenceMath (leftOnStack 0 0)
       (capsuleCall (Vector3 (1 / 2) (1 / 4) (- 5)) freshRecord)
     = Some \<lparr>returned = False,
             lastFrameWrites = [Set_satIsAxisFacePolyhedron1 True, Set_satMinAxisFaceIndex 0],
             contactPoints = []\<rparr>
   \<and> atMostOneFaceFlag (lastFrameInfoAfter freshRecord
         (\<lparr>returned = False,
           lastFrameWrites = [Set_satIsAxisFacePolyhedron1 True, Set_satMinAxisFaceIndex 0],
           contactPoints = []\<rparr> :: decimal SATOutcome))"
proof -
  have before: "atMostOneFaceFlag (lastFrameInfo (capsuleCall (Vector3 (1 / 2) (1 / 4) (- 5)) freshRecord))"
    "CapsuleVsConvexPolyhedron = CapsuleVsConvexPolyhedron \<longrightarrow>
       \<not> satIsAxisFacePolyhedron2 (lastFrameInfo (capsuleCall (Vector3 (1 / 2) (1 / 4) (- 5)) freshRecord))"
    by (simp_all add: atMostOneFaceFlag_def capsuleCall_def freshRecord_def)
  have run: "testCollision CapsuleVsConvexPolyhedron referenceMath (leftOnStack 0 0)
       (capsuleCall (Vector3 (1 / 2) (1 / 4) (- 5)) freshRecord)
     = Some \<lparr>returned = False,
             lastFrameWrites = [Set_satIsAxisFacePolyhedron1 True, Set_satMinAxisFaceIndex 0],
             contactPoints = []\<rparr>"
    by (simp add: capsule_eval mesh_eval vector_eval)
  from C8_at_most_one_flag[OF run before] run before show ?thesis
    by (simp add: capsuleCall_def)
qed

text \<open>
  The same capsule with a record in which the second flag alone is true: the capsule
  call sets the first flag and leaves the second, and both are true.
\<close>

theorem C8_capsule_sets_both_flags:
  "\<forall>indeterminate.
     atMostOneFaceFlag (freshRecord\<lparr>satIsAxisFacePolyhedron2 := True\<rparr>)
   \<and> testCollision CapsuleVsConvexPolyhedron referenceMath indeterminate
       (capsuleCall (Vector3 (1 / 2) (1 / 4) (- 5)) (freshRecord\<lparr>satIsAxisFacePolyhedron2 := True\<rparr>))
     = Some \<lparr>returned = False,
             lastFrameWrites = [Set_satIsAxisFacePolyhedron1 True, Set_satMinAxisFaceIndex 0],
             contactPoints = []\<rparr>
   \<and> \<not> atMostOneFaceFlag (lastFrameInfoAfter (freshRecord\<lparr>satIsAxisFacePolyhedron2 := True\<rparr>)
         (\<lparr>returned = False,
           lastFrameWrites = [Set_satIsAxisFacePolyhedron1 True, Set_satMinAxisFaceIndex 0],
           contactPoints = []\<rparr> :: decimal SATOutcome))"
  by (simp add: capsule_eval atMostOneFaceFlag_def lastFrameInfoAfter_def mesh_eval vector_eval)

section \<open>Parallel edges\<close>

text \<open>
  Claim C9.  The two probes do return \<open>DECIMAL_LARGEST\<close> on parallel edges, and in the
  full scan such a depth never becomes the minimum.  The temporal-coherence test
  calls the same probe on the cached edge and tests its result only for \<open>\<le> 0\<close>: when
  the record says the pair collided, a cached edge that is now parallel to the
  capsule segment is taken as the minimum with the depth \<open>DECIMAL_LARGEST\<close>.  Here the
  cached edge is half-edge 0 of the tetrahedron, \<open>O\<rightarrow>Y\<close>, and the capsule lies along
  \<open>y\<close>: the call returns true with a contact point of depth \<open>DECIMAL_LARGEST\<close>,
  whatever the helper functions are.
\<close>

theorem C9_cached_parallel_edge_becomes_minimum:
  "map_option (\<lambda>out. (returned out, lastFrameWrites out, map contactDepth (contactPoints out)))
     (testCollisionCapsuleVsConvexPolyhedron math
        (capsuleCall (Vector3 (1 / 2) (1 / 4) (1 / 4)) (cachedRecord True False False 0 0 0)))
   = Some (True, [Set_satIsAxisFacePolyhedron1 False, Set_satMinEdge1Index 0], [DECIMAL_LARGEST])"
  by (simp add: capsule_eval mesh_eval vector_eval split: prod.splits)

section \<open>The parity of the cached edge indices\<close>




end
